theory Spec2Isabelle
  imports Main "HOL-Library.List_Lexorder" "HOL-Library.Char_ord"
begin

section \<open>JavaScript string helpers\<close>

text \<open>
  Strings are lists of code units below 256. Decimal rendering of a natural number; a number
  held in a double is rendered by \<open>jsNumberToString\<close> below, which agrees with it as long as
  the double is exact.
\<close>

definition digitChar :: "nat \<Rightarrow> char" where
  "digitChar d = ''0123456789'' ! (d mod 10)"

fun natToString :: "nat \<Rightarrow> string" where
  "natToString n = (if n < 10 then [digitChar n] else natToString (n div 10) @ [digitChar n])"

declare natToString.simps [simp del]

definition numberToString :: "int \<Rightarrow> string" where
  "numberToString i = (if i < 0 then CHR ''-'' # natToString (nat (- i)) else natToString (nat i))"

section \<open>Session capacity validation (utils/sessionUtils)\<close>

record CapacityValidationResult =
  isValid :: bool
  warning :: "string option"
  error :: "string option"

definition MAX_CAPACITY :: int where
  "MAX_CAPACITY = 40"

definition WARNING_THRESHOLD :: int where
  "WARNING_THRESHOLD = 30"

definition validateSessionCapacity :: "int \<Rightarrow> CapacityValidationResult" where
  "validateSessionCapacity candidateCount =
     (if candidateCount > MAX_CAPACITY then
        \<lparr> isValid = False, warning = None,
          error = Some (''Session exceeds maximum capacity of '' @ numberToString MAX_CAPACITY
                        @ '' candidates'') \<rparr>
      else if candidateCount \<ge> WARNING_THRESHOLD then
        \<lparr> isValid = True,
          warning = Some (''Session approaching capacity ('' @ numberToString candidateCount
                          @ ''/'' @ numberToString MAX_CAPACITY @ '' candidates)''),
          error = None \<rparr>
      else \<lparr> isValid = True, warning = None, error = None \<rparr>)"

section \<open>More JavaScript built-ins used by the roster\<close>

text \<open>\<open>String.prototype.padStart\<close> with a one-character filler.\<close>

definition padStart :: "nat \<Rightarrow> char \<Rightarrow> string \<Rightarrow> string" where
  "padStart targetLength c s = replicate (targetLength - length s) c @ s"

text \<open>\<open>String.prototype.replace\<close> with a string pattern: only the first occurrence is replaced.\<close>

definition startsWith :: "string \<Rightarrow> string \<Rightarrow> bool" where
  "startsWith s p = (take (length p) s = p)"

fun replaceFirst :: "string \<Rightarrow> string \<Rightarrow> string \<Rightarrow> string" where
  "replaceFirst pat rep [] = (if pat = [] then rep else [])"
| "replaceFirst pat rep (c # cs) =
     (if startsWith (c # cs) pat then rep @ drop (length pat) (c # cs)
      else c # replaceFirst pat rep cs)"

text \<open>
  A number as the roster computes with it: \<open>NaN\<close>, an infinity, or a finite double whose value
  is an integer.
\<close>

datatype number = NaN | PosInfinity | NegInfinity | Finite int

fun bitLength :: "nat \<Rightarrow> nat" where
  "bitLength n = (if n = 0 then 0 else Suc (bitLength (n div 2)))"

declare bitLength.simps [simp del]

text \<open>
  The double nearest to a natural number: 53 significant bits are kept, a tie goes to the
  even significand. Up to \<open>2^53\<close> every natural number is a double.
\<close>

definition roundToDouble :: "nat \<Rightarrow> nat" where
  "roundToDouble m =
     (if m \<le> 2 ^ 53 then m
      else
        (let e = bitLength m - 53;
             q = m div 2 ^ e;
             r = m mod 2 ^ e;
             half = 2 ^ (e - 1)
         in (if r > half \<or> (r = half \<and> odd q) then q + 1 else q) * 2 ^ e))"

text \<open>The number value of a mathematical integer; from \<open>2^1024\<close> on the rounding overflows.\<close>

definition toNumber :: "int \<Rightarrow> number" where
  "toNumber i =
     (let m = roundToDouble (nat \<bar>i\<bar>)
      in if m \<ge> 2 ^ 1024 then (if i < 0 then NegInfinity else PosInfinity)
         else Finite (if i < 0 then - int m else int m))"

text \<open>\<open>x + 1\<close> on numbers: the exact sum, rounded.\<close>

definition plusOne :: "number \<Rightarrow> number" where
  "plusOne x = (case x of Finite i \<Rightarrow> toNumber (i + 1) | other \<Rightarrow> other)"

text \<open>
  \<open>parseInt\<close> without a radix: leading white space is skipped, a sign is read, a \<open>0x\<close> prefix
  selects base 16, then the longest run of digits is read. \<open>mathInt\<close> is the integer those
  digits denote (\<open>None\<close> when there is no digit), \<open>parseInt\<close> its number value (the nearest
  double), \<open>NaN\<close> when there is none. The white space of a string of code units below 256 is the six ASCII
  characters and the no-break space.
\<close>

definition isWhiteSpace :: "char \<Rightarrow> bool" where
  "isWhiteSpace c = (c \<in> set [CHR 0x09, CHR 0x0A, CHR 0x0B, CHR 0x0C, CHR 0x0D, CHR '' '', CHR 0xA0])"

definition digitValue :: "char \<Rightarrow> nat option" where
  "digitValue c =
     (if CHR ''0'' \<le> c \<and> c \<le> CHR ''9'' then Some (of_char c - 48)
      else if CHR ''a'' \<le> c \<and> c \<le> CHR ''f'' then Some (of_char c - 87)
      else if CHR ''A'' \<le> c \<and> c \<le> CHR ''F'' then Some (of_char c - 55)
      else None)"

definition isDigitOf :: "nat \<Rightarrow> char \<Rightarrow> bool" where
  "isDigitOf radix c = (case digitValue c of None \<Rightarrow> False | Some d \<Rightarrow> d < radix)"

definition digitsValue :: "nat \<Rightarrow> string \<Rightarrow> nat" where
  "digitsValue radix ds = foldl (\<lambda>acc c. acc * radix + (case digitValue c of None \<Rightarrow> 0 | Some d \<Rightarrow> d)) 0 ds"

definition parseDigits :: "nat \<Rightarrow> string \<Rightarrow> nat option" where
  "parseDigits radix s =
     (let z = takeWhile (isDigitOf radix) s
      in if z = [] then None else Some (digitsValue radix z))"

definition mathInt :: "string \<Rightarrow> int option" where
  "mathInt inputString =
     (let s = dropWhile isWhiteSpace inputString;
          negative = startsWith s ''-'';
          s1 = (if startsWith s ''-'' \<or> startsWith s ''+'' then tl s else s);
          hex = (startsWith s1 ''0x'' \<or> startsWith s1 ''0X'');
          mag = (if hex then parseDigits 16 (drop 2 s1) else parseDigits 10 s1)
      in map_option (\<lambda>m. if negative then - int m else int m) mag)"

definition parseInt :: "string \<Rightarrow> number" where
  "parseInt inputString = (case mathInt inputString of None \<Rightarrow> NaN | Some i \<Rightarrow> toNumber i)"

text \<open>
  \<open>Number.prototype.toString\<close> of a double that holds the natural number \<open>x\<close>: the digits \<open>s\<close>
  (\<open>k\<close> of them, as few as possible) and the exponent \<open>n\<close> with \<open>s * 10^(n - k)\<close> rounding to
  \<open>x\<close>, the nearest to \<open>x\<close> when several \<open>s\<close> do, the even one of two equally near.
\<close>

definition digitCandidates :: "nat \<Rightarrow> nat \<Rightarrow> (nat \<times> nat) list" where
  "digitCandidates x k =
     (let d = length (natToString x)
      in concat (map (\<lambda>n.
           if n < k then []
           else filter (\<lambda>(s, n). 10 ^ (k - 1) \<le> s \<and> s < 10 ^ k \<and> roundToDouble (s * 10 ^ (n - k)) = x)
                  [(x div 10 ^ (n - k), n), (x div 10 ^ (n - k) + 1, n)])
         [d, d + 1]))"

definition distanceTo :: "nat \<Rightarrow> nat \<Rightarrow> nat \<times> nat \<Rightarrow> nat" where
  "distanceTo x k c = (case c of (s, n) \<Rightarrow> (let y = s * 10 ^ (n - k) in if y < x then x - y else y - x))"

definition closest :: "nat \<Rightarrow> nat \<Rightarrow> (nat \<times> nat) list \<Rightarrow> nat \<times> nat" where
  "closest x k cs =
     fold (\<lambda>c best. if distanceTo x k c < distanceTo x k best
                        \<or> (distanceTo x k c = distanceTo x k best \<and> even (fst c) \<and> odd (fst best))
                     then c else best) (tl cs) (hd cs)"

text \<open>The search for the least \<open>k\<close>, from \<open>k\<close> upwards; the digits of \<open>x\<close> itself always do.\<close>

fun shortestDigits :: "nat \<Rightarrow> nat \<Rightarrow> nat \<Rightarrow> nat \<times> nat \<times> nat" where
  "shortestDigits x 0 k = (x, length (natToString x), length (natToString x))"
| "shortestDigits x (Suc fuel) k =
     (case digitCandidates x k of
        [] \<Rightarrow> shortestDigits x fuel (Suc k)
      | c # cs \<Rightarrow> (case closest x k (c # cs) of (s, n) \<Rightarrow> (s, n, k)))"

text \<open>
  Up to \<open>2^53\<close> the digits are those of the integer; above, the digits found are followed by
  zeros while \<open>n\<close> is at most 21, and written with an exponent from there on.
\<close>

definition magnitudeToString :: "nat \<Rightarrow> string" where
  "magnitudeToString m =
     (if m \<le> 2 ^ 53 then natToString m
      else
        (case shortestDigits m (length (natToString m)) 1 of
           (s, n, k) \<Rightarrow>
             (if n \<le> 21 then natToString s @ replicate (n - k) CHR ''0''
              else if k = 1 then natToString s @ ''e+'' @ natToString (n - 1)
              else hd (natToString s) # CHR ''.'' # tl (natToString s) @ ''e+'' @ natToString (n - 1))))"

definition jsNumberToString :: "number \<Rightarrow> string" where
  "jsNumberToString v =
     (case v of
        NaN \<Rightarrow> ''NaN''
      | PosInfinity \<Rightarrow> ''Infinity''
      | NegInfinity \<Rightarrow> ''-Infinity''
      | Finite i \<Rightarrow> (if i < 0 then CHR ''-'' # magnitudeToString (nat (- i)) else magnitudeToString (nat i)))"

section \<open>Roster: rows, remote tables and component state (components/FetsRoster)\<close>

text \<open>
  Instants (\<open>new Date().toISOString()\<close>, the store's \<open>created_at\<close>) are kept as milliseconds
  since the epoch. Row keys generated by the store are kept as natural numbers.
\<close>

type_synonym timestamp = nat

record RosterSchedule =
  rs_id :: "nat option"
  rs_profile_id :: string
  rs_date :: string
  rs_shift_code :: string
  rs_overtime_hours :: "int option"
  rs_status :: string
  rs_created_at :: "timestamp option"
  rs_updated_at :: "timestamp option"

record StaffProfile =
  sp_id :: string
  sp_user_id :: "string option"
  sp_full_name :: string
  sp_role :: string
  sp_email :: string
  sp_department :: "string option"

record LeaveRequest =
  lr_id :: "nat option"
  lr_user_id :: string
  lr_request_type :: string
  lr_requested_date :: string
  lr_swap_with_user_id :: "string option"
  lr_swap_date :: "string option"
  lr_reason :: "string option"
  lr_status :: string
  lr_approved_by :: "string option"
  lr_approved_at :: "timestamp option"
  lr_created_at :: "timestamp option"

record RosterVersion =
  rv_id :: "nat option"
  rv_month :: nat
  rv_year :: int
  rv_version_number :: string
  rv_created_by :: "string option"
  rv_created_at :: "timestamp option"
  rv_edit_log :: "string option"
  rv_is_active :: bool

record OvertimeTracking =
  ot_id :: "nat option"
  ot_user_id :: string
  ot_date :: string
  ot_hours :: int
  ot_description :: "string option"

text \<open>The remote tables the component reads and writes through the client.\<close>

record Database =
  staff_profiles :: "StaffProfile list"
  roster_schedules :: "RosterSchedule list"
  roster_versions :: "RosterVersion list"
  leave_requests :: "LeaveRequest list"
  overtime_tracking :: "OvertimeTracking list"

text \<open>
  A thrown or returned error: an \<open>Error\<close> instance with its message, or an error object
  that is not an \<open>Error\<close> instance.
\<close>

datatype js_error = JsError string | ErrorObject string

text \<open>
  What awaiting one request gives: a result without error, a result carrying \<open>error\<close>,
  or a rejected promise. A request that does not succeed leaves the tables as they were.
\<close>

datatype remote = Done | Failed js_error | Rejected js_error

text \<open>
  A \<open>Date\<close> that is the midnight of a day in the time zone of the machine, by its local
  fields; months count from 0 to 11.
\<close>

record JSDate =
  jd_year :: int
  jd_month :: nat
  jd_day :: nat

text \<open>The state of the \<open>FetsRoster\<close> component, with the remote tables and the error console.\<close>

record FetsRoster =
  user :: "string option"
  currentDate :: JSDate
  schedules :: "RosterSchedule list"
  staffProfiles :: "StaffProfile list"
  requests :: "LeaveRequest list"
  versions :: "RosterVersion list"
  overtimeData :: "OvertimeTracking list"
  loading :: bool
  showEditModal :: bool
  showApprovalModal :: bool
  selectedEdit :: "(string \<times> string) option"
  selectedRequest :: "LeaveRequest option"
  currentVersion :: "RosterVersion option"
  notification :: "(string \<times> string) option"
  console_error :: "string list"
  supabase :: Database

definition showNotification :: "string \<Rightarrow> string \<Rightarrow> FetsRoster \<Rightarrow> FetsRoster" where
  "showNotification type message st = st\<lparr>notification := Some (type, message)\<rparr>"

definition consoleError :: "string \<Rightarrow> FetsRoster \<Rightarrow> FetsRoster" where
  "consoleError line st = st\<lparr>console_error := console_error st @ [line]\<rparr>"

definition errorMessage :: "js_error \<Rightarrow> string" where
  "errorMessage e = (case e of JsError m \<Rightarrow> m | ErrorObject m \<Rightarrow> m)"

text \<open>\<open>error instanceof Error ? error.message : fallback\<close>.\<close>

definition messageOr :: "string \<Rightarrow> js_error \<Rightarrow> string" where
  "messageOr fallback e = (case e of JsError m \<Rightarrow> m | ErrorObject m \<Rightarrow> fallback)"

subsection \<open>Permission checks\<close>

definition getCurrentUserStaffProfile :: "FetsRoster \<Rightarrow> StaffProfile option" where
  "getCurrentUserStaffProfile st =
     (case user st of None \<Rightarrow> None
      | Some u \<Rightarrow> find (\<lambda>p. sp_user_id p = Some u) (staffProfiles st))"

definition isSuperAdmin :: "FetsRoster \<Rightarrow> bool" where
  "isSuperAdmin st =
     (case getCurrentUserStaffProfile st of None \<Rightarrow> False
      | Some p \<Rightarrow> sp_role p = ''super_admin'')"

definition isAdmin :: "FetsRoster \<Rightarrow> bool" where
  "isAdmin st =
     ((case getCurrentUserStaffProfile st of None \<Rightarrow> False | Some p \<Rightarrow> sp_role p = ''admin'')
      \<or> isSuperAdmin st)"

subsection \<open>Store operations\<close>

text \<open>The store gives an inserted row a key that no row of the table has.\<close>

definition freshId :: "nat option list \<Rightarrow> nat" where
  "freshId ids = Suc (fold max (map (\<lambda>i. case i of None \<Rightarrow> 0 | Some k \<Rightarrow> k) ids) 0)"

definition insertSchedules :: "RosterSchedule list \<Rightarrow> Database \<Rightarrow> Database" where
  "insertSchedules rows d =
     (let base = freshId (map rs_id (roster_schedules d))
      in d\<lparr>roster_schedules := roster_schedules d
             @ map (\<lambda>(i, r). r\<lparr>rs_id := Some (base + i)\<rparr>) (enumerate 0 rows)\<rparr>)"

text \<open>
  \<open>update(scheduleData).eq('id', id)\<close>: the columns named in \<open>scheduleData\<close> are written,
  the others keep their values.
\<close>

definition updateScheduleById :: "nat option \<Rightarrow> (RosterSchedule \<Rightarrow> RosterSchedule) \<Rightarrow> Database \<Rightarrow> Database" where
  "updateScheduleById k f d =
     d\<lparr>roster_schedules := map (\<lambda>r. if rs_id r = k \<and> k \<noteq> None then f r else r) (roster_schedules d)\<rparr>"

text \<open>The store stamps a new version row with its key and its clock (\<open>created_at\<close>).\<close>

definition insertVersion :: "timestamp \<Rightarrow> RosterVersion \<Rightarrow> Database \<Rightarrow> Database" where
  "insertVersion now v d =
     d\<lparr>roster_versions := roster_versions d
          @ [v\<lparr>rv_id := Some (freshId (map rv_id (roster_versions d))),
               rv_created_at := Some now\<rparr>]\<rparr>"

definition deactivateVersionById :: "nat option \<Rightarrow> Database \<Rightarrow> Database" where
  "deactivateVersionById k d =
     d\<lparr>roster_versions := map (\<lambda>v. if rv_id v = k \<and> k \<noteq> None then v\<lparr>rv_is_active := False\<rparr> else v)
                              (roster_versions d)\<rparr>"

subsection \<open>The displayed month\<close>

definition isLeapYear :: "int \<Rightarrow> bool" where
  "isLeapYear y = (y mod 4 = 0 \<and> (y mod 100 \<noteq> 0 \<or> y mod 400 = 0))"

text \<open>\<open>new Date(year, month + 1, 0).getDate()\<close>: the last day of month \<open>month\<close> (0 to 11).\<close>

definition lastDayOfMonth :: "int \<Rightarrow> nat \<Rightarrow> nat" where
  "lastDayOfMonth year month =
     (if month = 1 then (if isLeapYear year then 29 else 28)
      else if month \<in> set [3, 5, 8, 10] then 30 else 31)"

text \<open>\<open>new Date(year, month, day)\<close>: a year from 0 to 99 stands for 1900 + year.\<close>

definition newDate :: "int \<Rightarrow> nat \<Rightarrow> nat \<Rightarrow> JSDate" where
  "newDate year month day =
     \<lparr>jd_year = (if 0 \<le> year \<and> year \<le> 99 then 1900 + year else year), jd_month = month, jd_day = day\<rparr>"

function getDaysInMonth_loop :: "int \<Rightarrow> nat \<Rightarrow> nat \<Rightarrow> nat \<Rightarrow> JSDate list \<Rightarrow> JSDate list" where
  "getDaysInMonth_loop year month daysInMonth day days =
     (if day \<le> daysInMonth
      then getDaysInMonth_loop year month daysInMonth (Suc day) (days @ [newDate year month day])
      else days)"
  by pat_completeness auto
termination
  by (relation "measure (\<lambda>(year, month, daysInMonth, day, days). Suc daysInMonth - day)") auto

declare getDaysInMonth_loop.simps [simp del]

definition getDaysInMonth :: "FetsRoster \<Rightarrow> JSDate list" where
  "getDaysInMonth st =
     (let year = jd_year (currentDate st);
          month = jd_month (currentDate st);
          daysInMonth = lastDayOfMonth (jd_year (newDate year month 1)) month
      in getDaysInMonth_loop year month daysInMonth 1 [])"

definition startOfMonth :: "FetsRoster \<Rightarrow> JSDate" where
  "startOfMonth st = newDate (jd_year (currentDate st)) (jd_month (currentDate st)) 1"

definition endOfMonth :: "FetsRoster \<Rightarrow> JSDate" where
  "endOfMonth st =
     newDate (jd_year (currentDate st)) (jd_month (currentDate st))
       (lastDayOfMonth (jd_year (newDate (jd_year (currentDate st)) (jd_month (currentDate st)) 1))
          (jd_month (currentDate st)))"

text \<open>
  \<open>d.toISOString().split('T')[0]\<close> for the midnight \<open>d\<close> of a local day: the day of that instant
  in UTC. On a machine whose zone is \<open>tz\<close> minutes ahead of UTC (330 for India, 0 or less for
  UTC and the zones west of it) the instant is \<open>tz\<close> minutes before the UTC midnight of the
  same date, so with \<open>tz > 0\<close> it falls on the day before.
\<close>

definition previousDay :: "JSDate \<Rightarrow> JSDate" where
  "previousDay d =
     (if jd_day d > 1 then d\<lparr>jd_day := jd_day d - 1\<rparr>
      else if jd_month d > 0
      then d\<lparr>jd_month := jd_month d - 1, jd_day := lastDayOfMonth (jd_year d) (jd_month d - 1)\<rparr>
      else \<lparr>jd_year = jd_year d - 1, jd_month = 11, jd_day = 31\<rparr>)"

text \<open>The year of an ISO string: four digits from 0 to 9999, a sign and six digits otherwise.\<close>

definition isoYear :: "int \<Rightarrow> string" where
  "isoYear y =
     (if 0 \<le> y \<and> y \<le> 9999 then padStart 4 CHR ''0'' (natToString (nat y))
      else (if y < 0 then CHR ''-'' else CHR ''+'') # padStart 6 CHR ''0'' (natToString (nat \<bar>y\<bar>)))"

definition isoDateUTC :: "JSDate \<Rightarrow> string" where
  "isoDateUTC d =
     isoYear (jd_year d) @ ''-''
     @ padStart 2 CHR ''0'' (natToString (jd_month d + 1)) @ ''-''
     @ padStart 2 CHR ''0'' (natToString (jd_day d))"

definition toISODate :: "int \<Rightarrow> JSDate \<Rightarrow> string" where
  "toISODate tz d = isoDateUTC (if tz > 0 then previousDay d else d)"

subsection \<open>loadData\<close>

text \<open>
  The outcome of each request \<open>loadData\<close> awaits, in the order it awaits them. The function
  \<open>isoDate\<close> passed to the operations below stands for \<open>d.toISOString().split('T')[0]\<close>, which
  depends on the time zone of the machine: it is \<open>toISODate tz\<close> on a machine \<open>tz\<close> minutes ahead
  of UTC.
\<close>

record LoadOutcomes =
  q_session :: remote
  q_profiles :: remote
  q_schedules :: remote
  q_version :: remote
  q_versions :: remote
  q_overtime :: remote
  q_requests :: remote

text \<open>Run the next step unless an exception is already on its way to the handler.\<close>

definition andThen :: "'s \<times> js_error option \<Rightarrow> ('s \<Rightarrow> 's \<times> js_error option) \<Rightarrow> 's \<times> js_error option" where
  "andThen r f = (case r of (s, None) \<Rightarrow> f s | (s, Some e) \<Rightarrow> (s, Some e))"

definition createdKey :: "timestamp option \<Rightarrow> nat" where
  "createdKey t = (case t of None \<Rightarrow> 0 | Some k \<Rightarrow> k)"

definition load_session :: "LoadOutcomes \<Rightarrow> FetsRoster \<Rightarrow> FetsRoster \<times> js_error option" where
  "load_session q st = (case q_session q of Rejected e \<Rightarrow> (st, Some e) | _ \<Rightarrow> (st, None))"

definition load_profiles :: "LoadOutcomes \<Rightarrow> FetsRoster \<Rightarrow> FetsRoster \<times> js_error option" where
  "load_profiles q st =
     (case q_profiles q of
        Done \<Rightarrow> (st\<lparr>staffProfiles := sort_key sp_full_name (staff_profiles (supabase st))\<rparr>, None)
      | Failed e \<Rightarrow> (consoleError ''Staff profiles error'' st, Some e)
      | Rejected e \<Rightarrow> (st, Some e))"

definition load_schedules :: "(JSDate \<Rightarrow> string) \<Rightarrow> LoadOutcomes \<Rightarrow> FetsRoster \<Rightarrow> FetsRoster \<times> js_error option" where
  "load_schedules isoDate q st =
     (case q_schedules q of
        Done \<Rightarrow>
          (st\<lparr>schedules := sort_key rs_date
                 (filter (\<lambda>r. isoDate (startOfMonth st) \<le> rs_date r \<and> rs_date r \<le> isoDate (endOfMonth st))
                    (roster_schedules (supabase st)))\<rparr>, None)
      | Failed e \<Rightarrow> (consoleError ''Schedule data error'' st, Some e)
      | Rejected e \<Rightarrow> (st, Some e))"

text \<open>
  \<open>maybeSingle()\<close>: no row gives \<open>null\<close>, one row gives the row, several rows give the error
  \<open>PGRST116\<close>, which \<open>loadData\<close> lets pass with \<open>null\<close> data.
\<close>

definition load_currentVersion :: "LoadOutcomes \<Rightarrow> FetsRoster \<Rightarrow> FetsRoster \<times> js_error option" where
  "load_currentVersion q st =
     (case q_version q of
        Done \<Rightarrow>
          (st\<lparr>currentVersion :=
               (case filter (\<lambda>v. rv_month v = jd_month (currentDate st) + 1
                                \<and> rv_year v = jd_year (currentDate st) \<and> rv_is_active v)
                       (roster_versions (supabase st)) of
                  [v] \<Rightarrow> Some v
                | _ \<Rightarrow> None)\<rparr>, None)
      | Failed e \<Rightarrow> (st, Some e)
      | Rejected e \<Rightarrow> (st, Some e))"

definition load_versions :: "LoadOutcomes \<Rightarrow> FetsRoster \<Rightarrow> FetsRoster \<times> js_error option" where
  "load_versions q st =
     (case q_versions q of
        Done \<Rightarrow>
          (st\<lparr>versions := rev (sort_key (\<lambda>v. createdKey (rv_created_at v))
                 (filter (\<lambda>v. rv_month v = jd_month (currentDate st) + 1
                              \<and> rv_year v = jd_year (currentDate st))
                    (roster_versions (supabase st))))\<rparr>, None)
      | Failed e \<Rightarrow> (st, Some e)
      | Rejected e \<Rightarrow> (st, Some e))"

definition load_overtime :: "(JSDate \<Rightarrow> string) \<Rightarrow> LoadOutcomes \<Rightarrow> FetsRoster \<Rightarrow> FetsRoster \<times> js_error option" where
  "load_overtime isoDate q st =
     (case q_overtime q of
        Done \<Rightarrow>
          (st\<lparr>overtimeData :=
               filter (\<lambda>r. isoDate (startOfMonth st) \<le> ot_date r \<and> ot_date r \<le> isoDate (endOfMonth st))
                 (overtime_tracking (supabase st))\<rparr>, None)
      | Failed e \<Rightarrow> (st, Some e)
      | Rejected e \<Rightarrow> (st, Some e))"

text \<open>
  The role test is the one of the render that created the handler (\<open>super\<close>); the profile of a
  regular user is looked up in the profiles this very load has fetched.
\<close>

definition load_requests :: "bool \<Rightarrow> LoadOutcomes \<Rightarrow> FetsRoster \<Rightarrow> FetsRoster \<times> js_error option" where
  "load_requests super q st =
     (if super then
        (case q_requests q of
           Done \<Rightarrow> (st\<lparr>requests := rev (sort_key (\<lambda>r. createdKey (lr_created_at r))
                                          (leave_requests (supabase st)))\<rparr>, None)
         | Failed e \<Rightarrow> (st, Some e)
         | Rejected e \<Rightarrow> (st, Some e))
      else
        (case user st of
           None \<Rightarrow> (st, None)
         | Some u \<Rightarrow>
             (case find (\<lambda>p. sp_user_id p = Some u) (staffProfiles st) of
                None \<Rightarrow> (st, None)
              | Some userStaffProfile \<Rightarrow>
                  (case q_requests q of
                     Done \<Rightarrow>
                       (st\<lparr>requests := rev (sort_key (\<lambda>r. createdKey (lr_created_at r))
                              (filter (\<lambda>r. lr_user_id r = sp_id userStaffProfile)
                                 (leave_requests (supabase st))))\<rparr>, None)
                   | Failed e \<Rightarrow> (st, Some e)
                   | Rejected e \<Rightarrow> (st, Some e)))))"

definition loadData_try :: "(JSDate \<Rightarrow> string) \<Rightarrow> LoadOutcomes \<Rightarrow> bool \<Rightarrow> FetsRoster \<Rightarrow> FetsRoster \<times> js_error option" where
  "loadData_try isoDate q super st =
     andThen (andThen (andThen (andThen (andThen (andThen (load_session q st)
       (load_profiles q)) (load_schedules isoDate q)) (load_currentVersion q)) (load_versions q))
       (load_overtime isoDate q)) (load_requests super q)"

definition loadData_catch :: "js_error \<Rightarrow> FetsRoster \<Rightarrow> FetsRoster" where
  "loadData_catch e st =
     (showNotification ''error''
        (''Database error: '' @ messageOr ''Connection failed'' e @ ''. Please check your authentication.'')
        (consoleError ''Error loading roster data'' st))
       \<lparr>staffProfiles := [], schedules := [], requests := [], versions := [], overtimeData := []\<rparr>"

definition loadData :: "(JSDate \<Rightarrow> string) \<Rightarrow> LoadOutcomes \<Rightarrow> FetsRoster \<Rightarrow> FetsRoster" where
  "loadData isoDate q st =
     (case loadData_try isoDate q (isSuperAdmin st) (st\<lparr>loading := True\<rparr>) of
        (st1, None) \<Rightarrow> st1\<lparr>loading := False\<rparr>
      | (st1, Some e) \<Rightarrow> (loadData_catch e st1)\<lparr>loading := False\<rparr>)"

subsection \<open>The version ledger\<close>

definition getNextVersionNumber :: "FetsRoster \<Rightarrow> string" where
  "getNextVersionNumber st =
     (case versions st of
        [] \<Rightarrow> ''v.01''
      | v # _ \<Rightarrow>
          (let latestVersion = (if rv_version_number v = [] then ''v.00'' else rv_version_number v);
               versionNum = plusOne (parseInt (replaceFirst ''v.'' [] latestVersion))
           in ''v.'' @ padStart 2 CHR ''0'' (jsNumberToString versionNum)))"

definition getStaffName :: "FetsRoster \<Rightarrow> string \<Rightarrow> string" where
  "getStaffName st profileId =
     (case find (\<lambda>s. sp_id s = profileId) (staffProfiles st) of
        None \<Rightarrow> ''Unknown''
      | Some s \<Rightarrow> (if sp_full_name s = [] then ''Unknown'' else sp_full_name s))"

text \<open>
  The outcome of each write an operation awaits: the update of the request, the write of the
  schedule rows, the deactivation of the current version, the insertion of the new version,
  and the requests of the reload that follows.
\<close>

record WriteOutcomes =
  w_request :: remote
  w_schedule :: remote
  w_deactivate :: remote
  w_version :: remote
  w_load :: LoadOutcomes

definition versionData :: "string \<Rightarrow> FetsRoster \<Rightarrow> RosterVersion" where
  "versionData editLog st =
     \<lparr>rv_id = None,
      rv_month = jd_month (currentDate st) + 1,
      rv_year = jd_year (currentDate st),
      rv_version_number = getNextVersionNumber st,
      rv_created_by = (case getCurrentUserStaffProfile st of None \<Rightarrow> None | Some p \<Rightarrow> sp_user_id p),
      rv_created_at = None,
      rv_edit_log = Some editLog,
      rv_is_active = True\<rparr>"

text \<open>The result of the deactivating update is not inspected; only a rejection interrupts.\<close>

definition deactivateCurrent :: "WriteOutcomes \<Rightarrow> FetsRoster \<Rightarrow> FetsRoster \<times> js_error option" where
  "deactivateCurrent w st =
     (case currentVersion st of
        None \<Rightarrow> (st, None)
      | Some cv \<Rightarrow>
          (case w_deactivate w of
             Done \<Rightarrow> (st\<lparr>supabase := deactivateVersionById (rv_id cv) (supabase st)\<rparr>, None)
           | Failed e \<Rightarrow> (st, None)
           | Rejected e \<Rightarrow> (st, Some e)))"

definition insertNewVersion :: "timestamp \<Rightarrow> WriteOutcomes \<Rightarrow> RosterVersion \<Rightarrow> FetsRoster \<Rightarrow> FetsRoster \<times> js_error option" where
  "insertNewVersion now w v st =
     (case w_version w of
        Done \<Rightarrow> (st\<lparr>supabase := insertVersion now v (supabase st)\<rparr>, None)
      | Failed e \<Rightarrow> (st, Some e)
      | Rejected e \<Rightarrow> (st, Some e))"

definition createNewVersion_try :: "timestamp \<Rightarrow> WriteOutcomes \<Rightarrow> string \<Rightarrow> FetsRoster \<Rightarrow> FetsRoster \<times> js_error option" where
  "createNewVersion_try now w editLog st =
     andThen (deactivateCurrent w st) (insertNewVersion now w (versionData editLog st))"

definition createNewVersion :: "timestamp \<Rightarrow> WriteOutcomes \<Rightarrow> string \<Rightarrow> FetsRoster \<Rightarrow> FetsRoster" where
  "createNewVersion now w editLog st =
     (case createNewVersion_try now w editLog st of
        (st1, None) \<Rightarrow> st1
      | (st1, Some e) \<Rightarrow> consoleError (''Error creating version: '' @ errorMessage e) st1)"

subsection \<open>Writing one shift\<close>

definition emptySchedule :: RosterSchedule where
  "emptySchedule =
     \<lparr>rs_id = None, rs_profile_id = [], rs_date = [], rs_shift_code = [],
      rs_overtime_hours = None, rs_status = [], rs_created_at = None, rs_updated_at = None\<rparr>"

text \<open>
  Update the row found in the loaded list, or insert a new row when none was found; an
  error of the store is logged under \<open>label\<close> and thrown.
\<close>

definition writeSchedule :: "timestamp \<Rightarrow> WriteOutcomes \<Rightarrow> string \<Rightarrow> (RosterSchedule \<Rightarrow> RosterSchedule)
    \<Rightarrow> RosterSchedule option \<Rightarrow> FetsRoster \<Rightarrow> FetsRoster \<times> js_error option" where
  "writeSchedule now w label scheduleData existing st =
     (case w_schedule w of
        Done \<Rightarrow>
          (case existing of
             Some ex \<Rightarrow> (st\<lparr>supabase := updateScheduleById (rs_id ex) scheduleData (supabase st)\<rparr>, None)
           | None \<Rightarrow>
               (st\<lparr>supabase := insertSchedules [(scheduleData emptySchedule)\<lparr>rs_created_at := Some now\<rparr>]
                                  (supabase st)\<rparr>, None))
      | Failed e \<Rightarrow>
          (consoleError ((case existing of Some ex \<Rightarrow> ''Update '' | None \<Rightarrow> ''Insert '') @ label) st, Some e)
      | Rejected e \<Rightarrow> (st, Some e))"

definition saveShift_try :: "(JSDate \<Rightarrow> string) \<Rightarrow> timestamp \<Rightarrow> WriteOutcomes \<Rightarrow> string \<Rightarrow> int
    \<Rightarrow> string \<Rightarrow> string \<Rightarrow> FetsRoster \<Rightarrow> FetsRoster \<times> js_error option" where
  "saveShift_try isoDate now w shiftCode overtimeHours profileId date st =
     (let scheduleData = (\<lambda>r. r\<lparr>rs_profile_id := profileId, rs_date := date,
                                rs_shift_code := shiftCode, rs_overtime_hours := Some overtimeHours,
                                rs_status := ''confirmed'', rs_updated_at := Some now\<rparr>);
          existing = find (\<lambda>s. rs_profile_id s = profileId \<and> rs_date s = date) (schedules st)
      in andThen (writeSchedule now w ''error'' scheduleData existing st)
           (\<lambda>st1.
              let st2 = createNewVersion now w
                          (''Updated shift for '' @ getStaffName st profileId @ '' on '' @ date) st1;
                  st3 = st2\<lparr>showEditModal := False, selectedEdit := None\<rparr>;
                  st4 = loadData isoDate (w_load w) st3
              in (showNotification ''success'' ''Shift updated successfully!'' st4, None)))"

definition saveShift :: "(JSDate \<Rightarrow> string) \<Rightarrow> timestamp \<Rightarrow> WriteOutcomes \<Rightarrow> string \<Rightarrow> int
    \<Rightarrow> FetsRoster \<Rightarrow> FetsRoster" where
  "saveShift isoDate now w shiftCode overtimeHours st =
     (case selectedEdit st of
        None \<Rightarrow> showNotification ''warning'' ''Unable to save shift - permission or context issue'' st
      | Some (profileId, date) \<Rightarrow>
          (if user st = None \<or> \<not> isAdmin st
           then showNotification ''warning'' ''Unable to save shift - permission or context issue'' st
           else
             (case saveShift_try isoDate now w shiftCode overtimeHours profileId date st of
                (st1, None) \<Rightarrow> st1
              | (st1, Some e) \<Rightarrow>
                  showNotification ''error'' (''Failed to save shift: '' @ messageOr ''Unknown error'' e)
                    (consoleError ''Error saving shift'' st1))))"

subsection \<open>Applying an approved request\<close>

definition applyApprovedRequest_try :: "timestamp \<Rightarrow> WriteOutcomes \<Rightarrow> LeaveRequest \<Rightarrow> FetsRoster
    \<Rightarrow> FetsRoster \<times> js_error option" where
  "applyApprovedRequest_try now w request st =
     (let scheduleData = (\<lambda>r. r\<lparr>rs_profile_id := lr_user_id request,
                                rs_date := lr_requested_date request,
                                rs_shift_code := (if lr_request_type request = ''half_day'' then ''HD'' else ''L''),
                                rs_status := ''confirmed'', rs_updated_at := Some now\<rparr>);
          existing = find (\<lambda>s. rs_profile_id s = lr_user_id request
                                \<and> rs_date s = lr_requested_date request) (schedules st)
      in andThen (writeSchedule now w ''schedule error'' scheduleData existing st)
           (\<lambda>st1. (createNewVersion now w
                      (''Applied approved '' @ lr_request_type request @ '' request for ''
                       @ getStaffName st (lr_user_id request)) st1, None)))"

text \<open>The handler of \<open>applyApprovedRequest\<close> logs the error and throws it again.\<close>

definition applyApprovedRequest :: "timestamp \<Rightarrow> WriteOutcomes \<Rightarrow> LeaveRequest \<Rightarrow> FetsRoster
    \<Rightarrow> FetsRoster \<times> js_error option" where
  "applyApprovedRequest now w request st =
     (case applyApprovedRequest_try now w request st of
        (st1, None) \<Rightarrow> (st1, None)
      | (st1, Some e) \<Rightarrow> (consoleError ''Error applying approved request'' st1, Some e))"

definition updateRequestById :: "nat \<Rightarrow> (LeaveRequest \<Rightarrow> LeaveRequest) \<Rightarrow> Database \<Rightarrow> Database" where
  "updateRequestById k f d =
     d\<lparr>leave_requests := map (\<lambda>r. if lr_id r = Some k then f r else r) (leave_requests d)\<rparr>"

definition updateRequest :: "timestamp \<Rightarrow> WriteOutcomes \<Rightarrow> nat \<Rightarrow> bool \<Rightarrow> FetsRoster \<Rightarrow> FetsRoster \<times> js_error option" where
  "updateRequest now w requestId approved st =
     (case w_request w of
        Done \<Rightarrow>
          (st\<lparr>supabase := updateRequestById requestId
                 (\<lambda>r. r\<lparr>lr_status := (if approved then ''approved'' else ''rejected''),
                         lr_approved_by := map_option sp_id (getCurrentUserStaffProfile st),
                         lr_approved_at := Some now\<rparr>)
                 (supabase st)\<rparr>, None)
      | Failed e \<Rightarrow> (st, Some e)
      | Rejected e \<Rightarrow> (st, Some e))"

definition approveRequest_try :: "(JSDate \<Rightarrow> string) \<Rightarrow> timestamp \<Rightarrow> WriteOutcomes \<Rightarrow> nat \<Rightarrow> bool
    \<Rightarrow> FetsRoster \<Rightarrow> FetsRoster \<times> js_error option" where
  "approveRequest_try isoDate now w requestId approved st =
     andThen
       (andThen (updateRequest now w requestId approved st)
          (\<lambda>st1. case selectedRequest st of
                    Some request \<Rightarrow> (if approved then applyApprovedRequest now w request st1 else (st1, None))
                  | None \<Rightarrow> (st1, None)))
       (\<lambda>st2.
          let st3 = st2\<lparr>showApprovalModal := False, selectedRequest := None\<rparr>;
              st4 = loadData isoDate (w_load w) st3
          in (showNotification ''success''
                (''Request '' @ (if approved then ''approved'' else ''rejected'') @ '' successfully'') st4,
              None))"

definition approveRequest :: "(JSDate \<Rightarrow> string) \<Rightarrow> timestamp \<Rightarrow> WriteOutcomes \<Rightarrow> nat \<Rightarrow> bool
    \<Rightarrow> FetsRoster \<Rightarrow> FetsRoster" where
  "approveRequest isoDate now w requestId approved st =
     (if \<not> isSuperAdmin st then st
      else
        (case approveRequest_try isoDate now w requestId approved st of
           (st1, None) \<Rightarrow> st1
         | (st1, Some e) \<Rightarrow>
             showNotification ''error'' ''Failed to process request''
               (consoleError ''Error processing request'' st1)))"

subsection \<open>Quick add month\<close>

text \<open>The inner \<open>forEach\<close> over the days, with the counter and the rows collected so far.\<close>

fun quickAdd_days :: "(JSDate \<Rightarrow> string) \<Rightarrow> timestamp \<Rightarrow> RosterSchedule list \<Rightarrow> StaffProfile
    \<Rightarrow> JSDate list \<Rightarrow> nat \<Rightarrow> RosterSchedule list \<Rightarrow> RosterSchedule list" where
  "quickAdd_days isoDate now scheds staff [] dayCounter schedulesToCreate = schedulesToCreate"
| "quickAdd_days isoDate now scheds staff (day # days) dayCounter schedulesToCreate =
     (let dateStr = isoDate day;
          existing = find (\<lambda>s. rs_profile_id s = sp_id staff \<and> rs_date s = dateStr) scheds
      in quickAdd_days isoDate now scheds staff days (dayCounter + 1)
           (case existing of
              None \<Rightarrow>
                schedulesToCreate @
                  [\<lparr>rs_id = None, rs_profile_id = sp_id staff, rs_date = dateStr,
                    rs_shift_code = (if dayCounter mod 7 = 6 then ''RD'' else ''D''),
                    rs_overtime_hours = None, rs_status = ''confirmed'',
                    rs_created_at = Some now, rs_updated_at = None\<rparr>]
            | Some ex \<Rightarrow> schedulesToCreate))"

text \<open>The outer \<open>forEach\<close> over the staff profiles; the counter starts at 0 for each of them.\<close>

fun quickAdd_staff :: "(JSDate \<Rightarrow> string) \<Rightarrow> timestamp \<Rightarrow> RosterSchedule list \<Rightarrow> JSDate list
    \<Rightarrow> StaffProfile list \<Rightarrow> RosterSchedule list \<Rightarrow> RosterSchedule list" where
  "quickAdd_staff isoDate now scheds days [] schedulesToCreate = schedulesToCreate"
| "quickAdd_staff isoDate now scheds days (staff # rest) schedulesToCreate =
     quickAdd_staff isoDate now scheds days rest
       (quickAdd_days isoDate now scheds staff days 0 schedulesToCreate)"

definition schedulesToCreate :: "(JSDate \<Rightarrow> string) \<Rightarrow> timestamp \<Rightarrow> FetsRoster \<Rightarrow> RosterSchedule list" where
  "schedulesToCreate isoDate now st =
     quickAdd_staff isoDate now (schedules st) (getDaysInMonth st) (staffProfiles st) []"

definition quickAdd_catch :: "FetsRoster \<Rightarrow> FetsRoster" where
  "quickAdd_catch st =
     showNotification ''error'' ''Failed to generate month roster. Check console for details.''
       (consoleError ''Error in Quick Add'' st)"

definition quickAddMonth :: "(JSDate \<Rightarrow> string) \<Rightarrow> timestamp \<Rightarrow> WriteOutcomes \<Rightarrow> FetsRoster \<Rightarrow> FetsRoster" where
  "quickAddMonth isoDate now w st =
     (if \<not> isAdmin st then showNotification ''warning'' ''Only admins can use Quick Add'' st
      else
        (let rows = schedulesToCreate isoDate now st
         in if length rows > 0 then
              (case w_schedule w of
                 Done \<Rightarrow>
                   (let st1 = st\<lparr>supabase := insertSchedules rows (supabase st)\<rparr>;
                        st2 = createNewVersion now w
                                (''Quick add generated '' @ numberToString (int (length rows))
                                 @ '' schedules'') st1;
                        st3 = loadData isoDate (w_load w) st2
                    in showNotification ''success''
                         (''Generated '' @ numberToString (int (length rows))
                          @ '' roster entries successfully!'') st3)
               | Failed e \<Rightarrow> quickAdd_catch (consoleError ''Quick Add database error'' st)
               | Rejected e \<Rightarrow> quickAdd_catch st)
            else showNotification ''warning'' ''All roster entries already exist for this month'' st))"

subsection \<open>Version numbers as the specification writes them\<close>

text \<open>
  The version string for the number \<open>n\<close>: the prefix \<open>v.\<close> and the decimal digits of \<open>n\<close>,
  padded with zeros on the left to two digits.
\<close>

definition formatVersion :: "nat \<Rightarrow> string" where
  "formatVersion n = ''v.'' @ padStart 2 CHR ''0'' (natToString n)"

definition isDecimal :: "char \<Rightarrow> bool" where
  "isDecimal c = (c \<in> set ''0123456789'')"

text \<open>Every request succeeds.\<close>

definition allLoaded :: LoadOutcomes where
  "allLoaded = \<lparr>q_session = Done, q_profiles = Done, q_schedules = Done, q_version = Done,
                q_versions = Done, q_overtime = Done, q_requests = Done\<rparr>"

definition allWritten :: WriteOutcomes where
  "allWritten = \<lparr>w_request = Done, w_schedule = Done, w_deactivate = Done, w_version = Done,
                 w_load = allLoaded\<rparr>"



subsection \<open>Initial state and sample data\<close>

text \<open>The component as it mounts (the initial values of its \<open>useState\<close> hooks).\<close>

definition mountRoster :: "string option \<Rightarrow> JSDate \<Rightarrow> Database \<Rightarrow> FetsRoster" where
  "mountRoster u today d =
     \<lparr>user = u, currentDate = today, schedules = [], staffProfiles = [], requests = [],
      versions = [], overtimeData = [], loading = True, showEditModal = False,
      showApprovalModal = False, selectedEdit = None, selectedRequest = None,
      currentVersion = None, notification = None, console_error = [], supabase = d\<rparr>"

definition noTables :: Database where
  "noTables = \<lparr>staff_profiles = [], roster_schedules = [], roster_versions = [],
               leave_requests = [], overtime_tracking = []\<rparr>"

definition april2025 :: JSDate where
  "april2025 = \<lparr>jd_year = 2025, jd_month = 3, jd_day = 15\<rparr>"


subsection \<open>Quick add month as the specification writes it\<close>

text \<open>
  The shift code of the day with zero-based index \<open>i\<close> in the displayed month: six days on,
  one day off.
\<close>

definition patternCode :: "nat \<Rightarrow> string" where
  "patternCode i = (if i mod 7 = 6 then ''RD'' else ''D'')"

definition quickAddRow :: "timestamp \<Rightarrow> string \<Rightarrow> string \<Rightarrow> nat \<Rightarrow> RosterSchedule" where
  "quickAddRow now profileId dateStr i =
     \<lparr>rs_id = None, rs_profile_id = profileId, rs_date = dateStr, rs_shift_code = patternCode i,
      rs_overtime_hours = None, rs_status = ''confirmed'', rs_created_at = Some now,
      rs_updated_at = None\<rparr>"

text \<open>Whether a list of schedule rows holds a row for the pair (staff profile, date).\<close>

definition hasRow :: "RosterSchedule list \<Rightarrow> string \<Rightarrow> string \<Rightarrow> bool" where
  "hasRow rows profileId dateStr =
     (\<exists>r \<in> set rows. rs_profile_id r = profileId \<and> rs_date r = dateStr)"

text \<open>
  The rows expected for one staff member: one row for each day, by index, that has no row in
  the loaded list.
\<close>

definition expectedRows :: "(JSDate \<Rightarrow> string) \<Rightarrow> timestamp \<Rightarrow> RosterSchedule list \<Rightarrow> JSDate list
    \<Rightarrow> StaffProfile \<Rightarrow> RosterSchedule list" where
  "expectedRows isoDate now scheds days staff =
     map (\<lambda>(i, day). quickAddRow now (sp_id staff) (isoDate day) i)
       (filter (\<lambda>(i, day). \<not> hasRow scheds (sp_id staff) (isoDate day)) (enumerate 0 days))"

text \<open>
  The loaded list covers the store on the displayed month: every row of the store for a
  listed staff member and a day of the month is among the loaded rows, as it is when
  \<open>loadData\<close> has fetched the month and nothing has been written since.
\<close>

definition monthLoaded :: "(JSDate \<Rightarrow> string) \<Rightarrow> FetsRoster \<Rightarrow> bool" where
  "monthLoaded isoDate st =
     (\<forall>r \<in> set (roster_schedules (supabase st)).
        (\<exists>s \<in> set (staffProfiles st). sp_id s = rs_profile_id r)
        \<and> (\<exists>d \<in> set (getDaysInMonth st). isoDate d = rs_date r)
        \<longrightarrow> r \<in> set (schedules st))"

text \<open>A row as the store keeps it, whatever key it was given.\<close>

definition withoutId :: "RosterSchedule \<Rightarrow> RosterSchedule" where
  "withoutId r = r\<lparr>rs_id := None\<rparr>"

subsection \<open>Sample environment\<close>

definition staffMember :: "string \<Rightarrow> string \<Rightarrow> string \<Rightarrow> StaffProfile" where
  "staffMember i name role =
     \<lparr>sp_id = i, sp_user_id = Some (''u-'' @ i), sp_full_name = name, sp_role = role,
      sp_email = name @ ''@fets.in'', sp_department = None\<rparr>"

definition threeStaff :: "StaffProfile list" where
  "threeStaff = [staffMember ''s1'' ''Asha'' ''admin'', staffMember ''s2'' ''Binu'' ''staff'',
                 staffMember ''s3'' ''Chitra'' ''staff'']"

text \<open>An admin looking at April 2025 with three staff members and no schedule row.\<close>

definition aprilRoster :: FetsRoster where
  "aprilRoster =
     (mountRoster (Some ''u-s1'') april2025 noTables)\<lparr>staffProfiles := threeStaff, loading := False\<rparr>"

text \<open>
  The same admin on a machine in India (330 minutes ahead of UTC), after the first load of
  April 2025 from a store that holds the three staff profiles and no schedule row.
\<close>

definition staffTables :: Database where
  "staffTables = noTables\<lparr>staff_profiles := threeStaff\<rparr>"

definition aprilIST :: FetsRoster where
  "aprilIST = loadData (toISODate 330) allLoaded (mountRoster (Some ''u-s1'') april2025 staffTables)"

text \<open>
  What the handler of that same render works on when Quick Add runs a second time before the
  component has rendered again (a second click, or the run of another admin in between): the
  lists of the render, and the store as the first run has left it.
\<close>

definition aprilSecondRun :: FetsRoster where
  "aprilSecondRun =
     aprilIST\<lparr>supabase := supabase (quickAddMonth (toISODate 330) 1000 allWritten aprilIST)\<rparr>"

text \<open>The same month with one leave day already in the store, as \<open>loadData\<close> shows it.\<close>

definition leaveRow :: RosterSchedule where
  "leaveRow =
     \<lparr>rs_id = Some 1, rs_profile_id = ''s1'', rs_date = ''2025-04-07'', rs_shift_code = ''L'',
      rs_overtime_hours = None, rs_status = ''confirmed'', rs_created_at = Some 1000,
      rs_updated_at = Some 1000\<rparr>"

definition leaveTables :: Database where
  "leaveTables = noTables\<lparr>staff_profiles := threeStaff, roster_schedules := [leaveRow]\<rparr>"

definition aprilWithLeave :: FetsRoster where
  "aprilWithLeave = loadData isoDateUTC allLoaded (mountRoster (Some ''u-s1'') april2025 leaveTables)"

subsection \<open>The ledger invariant as the specification writes it\<close>

text \<open>The active version rows of the store in the (month, year) scope the component displays.\<close>

definition activeInScope :: "FetsRoster \<Rightarrow> Database \<Rightarrow> RosterVersion list" where
  "activeInScope st d =
     filter (\<lambda>v. rv_month v = jd_month (currentDate st) + 1 \<and> rv_year v = jd_year (currentDate st)
                 \<and> rv_is_active v)
       (roster_versions d)"

text \<open>Every version row has a key, and no two rows share one (the primary key of the table).\<close>

definition versionsKeyed :: "Database \<Rightarrow> bool" where
  "versionsKeyed d =
     (list_all (\<lambda>v. rv_id v \<noteq> None) (roster_versions d) \<and> distinct (map rv_id (roster_versions d)))"

text \<open>April 2025 with one active version in the ledger, as \<open>loadData\<close> shows it.\<close>

definition version01 :: RosterVersion where
  "version01 = \<lparr>rv_id = Some 1, rv_month = 4, rv_year = 2025, rv_version_number = ''v.01'',
                rv_created_by = Some ''u-s1'', rv_created_at = Some 500,
                rv_edit_log = Some ''Quick add generated 90 schedules'', rv_is_active = True\<rparr>"

definition ledgerTables :: Database where
  "ledgerTables = noTables\<lparr>staff_profiles := threeStaff, roster_versions := [version01]\<rparr>"

definition aprilWithLedger :: FetsRoster where
  "aprilWithLedger = loadData isoDateUTC allLoaded (mountRoster (Some ''u-s1'') april2025 ledgerTables)"

text \<open>
  The admin has opened the edit dialog for one cell. The store answers the deactivating
  update with an error (\<open>updateRefused\<close>), or the request for it is rejected
  (\<open>updateRejected\<close>), and every other request succeeds.
\<close>

definition aprilEditing :: FetsRoster where
  "aprilEditing = aprilWithLedger\<lparr>showEditModal := True, selectedEdit := Some (''s2'', ''2025-04-09'')\<rparr>"

definition updateRefused :: WriteOutcomes where
  "updateRefused =
     allWritten\<lparr>w_deactivate := Failed (ErrorObject ''permission denied for table roster_versions'')\<rparr>"

definition updateRejected :: WriteOutcomes where
  "updateRejected = allWritten\<lparr>w_deactivate := Rejected (JsError ''Failed to fetch'')\<rparr>"

text \<open>
  A super admin looking at April 2025 who has opened the edit dialog for one cell and the
  review dialog for one leave request, and a store whose version ledger refuses every write.
\<close>

definition halfDayRequest :: LeaveRequest where
  "halfDayRequest =
     \<lparr>lr_id = Some 7, lr_user_id = ''s2'', lr_request_type = ''half_day'',
      lr_requested_date = ''2025-04-10'', lr_swap_with_user_id = None, lr_swap_date = None,
      lr_reason = Some ''clinic'', lr_status = ''pending'', lr_approved_by = None,
      lr_approved_at = None, lr_created_at = Some 900\<rparr>"

definition superRoster :: FetsRoster where
  "superRoster =
     (mountRoster (Some ''u-s1'') april2025 noTables)
       \<lparr>staffProfiles := [staffMember ''s1'' ''Asha'' ''super_admin'', staffMember ''s2'' ''Binu'' ''staff'',
                          staffMember ''s3'' ''Chitra'' ''staff''],
        loading := False, showEditModal := True, showApprovalModal := True,
        selectedEdit := Some (''s2'', ''2025-04-09''), selectedRequest := Some halfDayRequest\<rparr>"

definition ledgerDown :: WriteOutcomes where
  "ledgerDown =
     allWritten\<lparr>w_deactivate := Rejected (JsError ''Failed to fetch''),
                w_version := Failed (ErrorObject ''permission denied for table roster_versions'')\<rparr>"

text \<open>
  The super admin looks at April 2025 while the store holds a day shift for staff member
  \<open>s2\<close> on 12 May 2025, for which a half-day request is under review.
\<close>

definition mayRow :: RosterSchedule where
  "mayRow =
     \<lparr>rs_id = Some 1, rs_profile_id = ''s2'', rs_date = ''2025-05-12'', rs_shift_code = ''D'',
      rs_overtime_hours = None, rs_status = ''confirmed'', rs_created_at = Some 100,
      rs_updated_at = None\<rparr>"

definition mayRequest :: LeaveRequest where
  "mayRequest = halfDayRequest\<lparr>lr_requested_date := ''2025-05-12''\<rparr>"

definition mayTables :: Database where
  "mayTables =
     noTables\<lparr>staff_profiles := staffProfiles superRoster, roster_schedules := [mayRow],
              leave_requests := [mayRequest]\<rparr>"

definition aprilBeforeMay :: FetsRoster where
  "aprilBeforeMay =
     (loadData isoDateUTC allLoaded
        (loadData isoDateUTC allLoaded (mountRoster (Some ''u-s1'') april2025 mayTables)))
       \<lparr>selectedRequest := Some mayRequest, showApprovalModal := True\<rparr>"

section \<open>Checklist instantiation (components/ChecklistManagement)\<close>

datatype Category = PreExam | PostExam

datatype Priority = Low | Medium | High

record ChecklistTemplateItem =
  ti_id :: nat
  ti_template_id :: nat
  ti_title :: string
  ti_description :: "string option"
  ti_priority :: Priority
  ti_estimated_time_minutes :: int
  ti_responsible_role :: string
  ti_notes :: "string option"
  ti_sort_order :: int
  ti_created_at :: timestamp

record ChecklistTemplate =
  ct_id :: nat
  ct_name :: string
  ct_description :: "string option"
  ct_category :: Category
  ct_is_active :: bool
  ct_created_by :: string
  ct_created_at :: timestamp
  ct_updated_at :: timestamp
  ct_items :: "ChecklistTemplateItem list option"

record ChecklistInstance =
  ci_id :: nat
  ci_template_id :: nat
  ci_name :: string
  ci_category :: Category
  ci_exam_date :: string
  ci_created_by :: string
  ci_completed_at :: "timestamp option"
  ci_created_at :: timestamp
  ci_updated_at :: timestamp

record ChecklistInstanceItem =
  ii_id :: nat
  ii_instance_id :: nat
  ii_template_item_id :: "nat option"
  ii_title :: string
  ii_description :: "string option"
  ii_priority :: Priority
  ii_estimated_time_minutes :: int
  ii_responsible_role :: string
  ii_notes :: "string option"
  ii_is_completed :: bool
  ii_completed_by :: "string option"
  ii_completed_at :: "timestamp option"
  ii_sort_order :: int
  ii_created_at :: timestamp

text \<open>The object \<open>handleCreateInstance\<close> sends for the instance, and the one it sends per item.\<close>

record InstancePayload =
  np_template_id :: nat
  np_name :: string
  np_category :: Category
  np_exam_date :: string
  np_created_by :: string

record InstanceItemPayload =
  ip_instance_id :: nat
  ip_template_item_id :: nat
  ip_title :: string
  ip_description :: "string option"
  ip_priority :: Priority
  ip_estimated_time_minutes :: int
  ip_responsible_role :: string
  ip_notes :: "string option"
  ip_sort_order :: int

record ChecklistTables =
  checklist_instances :: "ChecklistInstance list"
  checklist_instance_items :: "ChecklistInstanceItem list"

record ChecklistManagement =
  cm_user :: "string option"
  cm_submitting :: bool
  cm_error :: string
  cm_success :: string
  cm_console_error :: "string list"
  cm_supabase :: ChecklistTables

definition freshKey :: "nat list \<Rightarrow> nat" where
  "freshKey keys = Suc (fold max keys 0)"

text \<open>
  Modelled from the spec: the column defaults of the tables \<open>checklist_instances\<close> and
  \<open>checklist_instance_items\<close>, whose declarations are not among the sources. A stored
  instance starts without completion time; a stored instance item starts with
  \<open>is_completed = false\<close> and with \<open>completed_by\<close> and \<open>completed_at\<close> unset. The store also
  gives each row its key and creation time.
\<close>

definition storeInstance :: "timestamp \<Rightarrow> nat \<Rightarrow> InstancePayload \<Rightarrow> ChecklistInstance" where
  "storeInstance now key p =
     \<lparr>ci_id = key, ci_template_id = np_template_id p, ci_name = np_name p,
      ci_category = np_category p, ci_exam_date = np_exam_date p, ci_created_by = np_created_by p,
      ci_completed_at = None, ci_created_at = now, ci_updated_at = now\<rparr>"

definition storeInstanceItem :: "timestamp \<Rightarrow> nat \<Rightarrow> InstanceItemPayload \<Rightarrow> ChecklistInstanceItem" where
  "storeInstanceItem now key p =
     \<lparr>ii_id = key, ii_instance_id = ip_instance_id p,
      ii_template_item_id = Some (ip_template_item_id p), ii_title = ip_title p,
      ii_description = ip_description p, ii_priority = ip_priority p,
      ii_estimated_time_minutes = ip_estimated_time_minutes p,
      ii_responsible_role = ip_responsible_role p, ii_notes = ip_notes p,
      ii_is_completed = False, ii_completed_by = None, ii_completed_at = None,
      ii_sort_order = ip_sort_order p, ii_created_at = now\<rparr>"

definition insertInstance :: "timestamp \<Rightarrow> InstancePayload \<Rightarrow> ChecklistTables \<Rightarrow> ChecklistInstance \<times> ChecklistTables" where
  "insertInstance now p d =
     (let row = storeInstance now (freshKey (map ci_id (checklist_instances d))) p
      in (row, d\<lparr>checklist_instances := checklist_instances d @ [row]\<rparr>))"

definition insertInstanceItems :: "timestamp \<Rightarrow> InstanceItemPayload list \<Rightarrow> ChecklistTables \<Rightarrow> ChecklistTables" where
  "insertInstanceItems now ps d =
     (let base = freshKey (map ii_id (checklist_instance_items d))
      in d\<lparr>checklist_instance_items := checklist_instance_items d
             @ map (\<lambda>(i, p). storeInstanceItem now (base + i) p) (enumerate 0 ps)\<rparr>)"

text \<open>The payload built from one template item for the instance with key \<open>instanceId\<close>.\<close>

definition instanceItemOf :: "nat \<Rightarrow> ChecklistTemplateItem \<Rightarrow> InstanceItemPayload" where
  "instanceItemOf instanceId item =
     \<lparr>ip_instance_id = instanceId, ip_template_item_id = ti_id item, ip_title = ti_title item,
      ip_description = ti_description item, ip_priority = ti_priority item,
      ip_estimated_time_minutes = ti_estimated_time_minutes item,
      ip_responsible_role = ti_responsible_role item, ip_notes = ti_notes item,
      ip_sort_order = ti_sort_order item\<rparr>"

text \<open>
  The two awaited inserts of \<open>handleCreateInstance\<close>; \<open>today\<close> is
  \<open>new Date().toISOString().split('T')[0]\<close>. An error of either insert is thrown.
\<close>

definition createInstance_try :: "string \<Rightarrow> timestamp \<Rightarrow> remote \<Rightarrow> remote \<Rightarrow> string
    \<Rightarrow> ChecklistTemplate \<Rightarrow> ChecklistManagement \<Rightarrow> ChecklistManagement \<times> js_error option" where
  "createInstance_try today now rInstance rItems userId template st =
     (case rInstance of
        Failed e \<Rightarrow> (st, Some e)
      | Rejected e \<Rightarrow> (st, Some e)
      | Done \<Rightarrow>
          (let (instance, d1) =
                 insertInstance now
                   \<lparr>np_template_id = ct_id template, np_name = ct_name template @ '' - '' @ today,
                    np_category = ct_category template, np_exam_date = today,
                    np_created_by = userId\<rparr>
                   (cm_supabase st);
               st1 = st\<lparr>cm_supabase := d1\<rparr>
           in andThen
                (case ct_items template of
                   None \<Rightarrow> (st1, None)
                 | Some items \<Rightarrow>
                     (if length items > 0 then
                        (case rItems of
                           Done \<Rightarrow>
                             (st1\<lparr>cm_supabase := insertInstanceItems now
                                    (map (instanceItemOf (ci_id instance)) items) d1\<rparr>, None)
                         | Failed e \<Rightarrow> (st1, Some e)
                         | Rejected e \<Rightarrow> (st1, Some e))
                      else (st1, None)))
                (\<lambda>st2. (st2\<lparr>cm_success := ''Checklist instance created successfully!''\<rparr>, None))))"

text \<open>
  The handler catches every error, shows its message and logs it; \<open>finally\<close> resets
  \<open>submitting\<close>. The reload of the instance list that the handler starts is not awaited and
  changes no table.
\<close>

definition handleCreateInstance :: "string \<Rightarrow> timestamp \<Rightarrow> remote \<Rightarrow> remote
    \<Rightarrow> ChecklistTemplate \<Rightarrow> ChecklistManagement \<Rightarrow> ChecklistManagement" where
  "handleCreateInstance today now rInstance rItems template st =
     (case cm_user st of
        None \<Rightarrow> st
      | Some userId \<Rightarrow>
          (case createInstance_try today now rInstance rItems userId template (st\<lparr>cm_submitting := True\<rparr>) of
             (st1, None) \<Rightarrow> st1\<lparr>cm_submitting := False\<rparr>
           | (st1, Some e) \<Rightarrow>
               st1\<lparr>cm_console_error := cm_console_error st1 @ [''Error creating instance''],
                    cm_error := (if errorMessage e = [] then ''Failed to create checklist instance''
                                 else errorMessage e),
                    cm_submitting := False\<rparr>))"

text \<open>The items of a template; a template fetched without items has none.\<close>

definition templateItems :: "ChecklistTemplate \<Rightarrow> ChecklistTemplateItem list" where
  "templateItems template = (case ct_items template of None \<Rightarrow> [] | Some items \<Rightarrow> items)"

text \<open>A template with two items, and the component of a signed-in user over empty tables.\<close>

definition sampleTemplate :: ChecklistTemplate where
  "sampleTemplate =
     \<lparr>ct_id = 4, ct_name = ''Morning setup'', ct_description = None, ct_category = PreExam,
      ct_is_active = True, ct_created_by = ''u-s1'', ct_created_at = 10, ct_updated_at = 10,
      ct_items = Some
        [\<lparr>ti_id = 41, ti_template_id = 4, ti_title = ''Unlock lab'', ti_description = None,
          ti_priority = High, ti_estimated_time_minutes = 5, ti_responsible_role = ''tca'',
          ti_notes = None, ti_sort_order = 1, ti_created_at = 11\<rparr>,
         \<lparr>ti_id = 42, ti_template_id = 4, ti_title = ''Start servers'',
          ti_description = Some ''proctor cache first'', ti_priority = Medium,
          ti_estimated_time_minutes = 10, ti_responsible_role = ''tech_support'',
          ti_notes = Some ''see runbook'', ti_sort_order = 2, ti_created_at = 12\<rparr>]\<rparr>"

definition sampleChecklists :: ChecklistManagement where
  "sampleChecklists =
     \<lparr>cm_user = Some ''u-s1'', cm_submitting = False, cm_error = [], cm_success = [],
      cm_console_error = [],
      cm_supabase = \<lparr>checklist_instances = [], checklist_instance_items = []\<rparr>\<rparr>"

section \<open>Date formatting in the fixed time zone (utils/dateUtils)\<close>

text \<open>
  A \<open>Date\<close> is an instant, kept as milliseconds since the epoch; what its local getters
  return depends on the offset of the machine's time zone, in minutes.
\<close>

definition IST_OFFSET_MS :: int where
  "IST_OFFSET_MS = 19800000"

definition MS_PER_DAY :: int where
  "MS_PER_DAY = 86400000"

text \<open>The number of the calendar day, counted from 1 January 1970, on which an instant falls in the fixed time zone.\<close>

definition istDay :: "int \<Rightarrow> int" where
  "istDay t = (t + IST_OFFSET_MS) div MS_PER_DAY"

text \<open>Year, month (1 to 12) and day of the month of a day number in the Gregorian calendar.\<close>

definition civilFromDays :: "int \<Rightarrow> int \<times> int \<times> int" where
  "civilFromDays days =
     (let z = days + 719468;
          era = z div 146097;
          doe = z - era * 146097;
          yoe = (doe - doe div 1460 + doe div 36524 - doe div 146096) div 365;
          doy = doe - (365 * yoe + yoe div 4 - yoe div 100);
          mp = (5 * doy + 2) div 153;
          d = doy - (153 * mp + 2) div 5 + 1;
          m = (if mp < 10 then mp + 3 else mp - 9);
          y = yoe + era * 400 + (if m \<le> 2 then 1 else 0)
      in (y, m, d))"

definition formatYMD :: "int \<times> int \<times> int \<Rightarrow> string" where
  "formatYMD ymd =
     (case ymd of (y, m, d) \<Rightarrow>
        padStart 4 CHR ''0'' (numberToString y) @ ''-'' @ padStart 2 CHR ''0'' (numberToString m)
        @ ''-'' @ padStart 2 CHR ''0'' (numberToString d))"

text \<open>
  Modelled from the spec: \<open>formatDateForIST\<close>, whose module \<open>utils/dateUtils\<close> is not among
  the sources (only its callers are). It converts any date to the calendar-date string of
  the instant in the fixed time zone (UTC+05:30), written year-month-day as the \<open>date\<close>
  columns it is compared with; the offset of the caller's own time zone \<open>localOffset\<close> is not
  consulted.
\<close>

definition formatDateForIST :: "int \<Rightarrow> int \<Rightarrow> string" where
  "formatDateForIST localOffset t = formatYMD (civilFromDays (istDay t))"

section \<open>CSV bulk upload (components/CandidateTracker)\<close>

subsection \<open>String methods\<close>

text \<open>\<open>split\<close> with a one-character separator: the pieces between the separators, empty pieces included.\<close>

fun splitOn :: "char \<Rightarrow> string \<Rightarrow> string list" where
  "splitOn sep [] = [[]]"
| "splitOn sep (c # cs) =
     (if c = sep then [] # splitOn sep cs
      else (case splitOn sep cs of [] \<Rightarrow> [[c]] | w # ws \<Rightarrow> (c # w) # ws))"

text \<open>\<open>trim\<close> and \<open>toLowerCase\<close> on strings of code units below 256.\<close>

definition trim :: "string \<Rightarrow> string" where
  "trim s = rev (dropWhile isWhiteSpace (rev (dropWhile isWhiteSpace s)))"

definition toLowerCase :: "string \<Rightarrow> string" where
  "toLowerCase s =
     map (\<lambda>c. if (CHR ''A'' \<le> c \<and> c \<le> CHR ''Z'') \<or> (CHR 0xC0 \<le> c \<and> c \<le> CHR 0xDE \<and> c \<noteq> CHR 0xD7)
              then char_of (of_char c + (32::nat)) else c) s"

fun jsIncludes :: "string \<Rightarrow> string \<Rightarrow> bool" where
  "jsIncludes [] sub = (sub = [])"
| "jsIncludes (c # cs) sub = (startsWith (c # cs) sub \<or> jsIncludes cs sub)"

fun joinWith :: "string \<Rightarrow> string list \<Rightarrow> string" where
  "joinWith sep [] = []"
| "joinWith sep [x] = x"
| "joinWith sep (x # y # ys) = x @ sep @ joinWith sep (y # ys)"

subsection \<open>Rows, tables and component state\<close>

text \<open>The object built for one CSV row; a field that was never assigned, or assigned \<open>null\<close>, is \<open>None\<close>.\<close>

record CandidateData =
  cd_full_name :: "string option"
  cd_email :: "string option"
  cd_phone :: "string option"
  cd_exam_name :: "string option"
  cd_exam_date :: "string option"
  cd_notes :: "string option"
  cd_status :: "string option"
  cd_confirmation_number :: "string option"
  cd_user_id :: "string option"

definition emptyCandidateData :: CandidateData where
  "emptyCandidateData =
     \<lparr>cd_full_name = None, cd_email = None, cd_phone = None, cd_exam_name = None,
      cd_exam_date = None, cd_notes = None, cd_status = None, cd_confirmation_number = None,
      cd_user_id = None\<rparr>"

text \<open>A candidate as the component lists it (the fields the upload reads).\<close>

record Candidate =
  cand_fullName :: string
  cand_email :: string

record UploadRecord =
  ur_id :: nat
  ur_filename :: string
  ur_total_candidates :: nat
  ur_processed_candidates :: nat
  ur_failed_candidates :: nat
  ur_uploaded_by_user_id :: string
  ur_status :: string
  ur_error_log :: "string option"
  ur_processed_date :: "timestamp option"

record CandidateTables =
  candidates_table :: "CandidateData list"
  candidate_roster_uploads :: "UploadRecord list"

record CandidateTracker =
  ct_user :: "string option"
  ct_candidates :: "Candidate list"
  ct_uploadFile :: "(string \<times> string) option"
  ct_uploadProgress :: nat
  ct_uploadStatus :: string
  ct_uploadResults :: "nat \<times> string list"
  ct_console_error :: "string list"
  ct_supabase :: CandidateTables

text \<open>
  What the upload cannot decide by itself: the outcome of each awaited request (the insert of
  row \<open>i\<close> is \<open>u_row i\<close>), the value of \<open>new Date(value).toISOString()\<close> (\<open>None\<close> when it
  throws a \<open>RangeError\<close>), the random confirmation number drawn for row \<open>i\<close>, and the clock.
\<close>

record UploadEnv =
  u_record :: remote
  u_row :: "nat \<Rightarrow> remote"
  u_update :: remote
  u_reload :: remote
  u_toISOString :: "string \<Rightarrow> string option"
  u_confirmation :: "nat \<Rightarrow> string"
  u_now :: timestamp

subsection \<open>One row\<close>

definition orNull :: "string \<Rightarrow> string option" where
  "orNull v = (if v = [] then None else Some v)"

text \<open>\<open>values[index] || ''\<close>.\<close>

definition valueAt :: "string list \<Rightarrow> nat \<Rightarrow> string" where
  "valueAt vals index = (if index < length vals then vals ! index else [])"

text \<open>The body of \<open>headers.forEach((header, index) => ...)\<close>; only the date conversion can throw.\<close>

definition assignField :: "UploadEnv \<Rightarrow> string list \<Rightarrow> nat \<Rightarrow> string \<Rightarrow> CandidateData \<Rightarrow> js_error + CandidateData" where
  "assignField env vals index header cd0 =
     (let v = valueAt vals index;
          cd1 = (if jsIncludes header ''name'' \<or> jsIncludes header ''full''
                 then cd0\<lparr>cd_full_name := Some v\<rparr> else cd0);
          cd2 = (if jsIncludes header ''email'' then cd1\<lparr>cd_email := Some v\<rparr> else cd1);
          cd3 = (if jsIncludes header ''phone'' then cd2\<lparr>cd_phone := orNull v\<rparr> else cd2);
          cd4 = (if jsIncludes header ''exam'' \<and> jsIncludes header ''name''
                 then cd3\<lparr>cd_exam_name := orNull v\<rparr> else cd3)
      in case (if jsIncludes header ''exam'' \<and> jsIncludes header ''date'' then
                 (if v = [] then Inr (cd4\<lparr>cd_exam_date := None\<rparr>)
                  else (case u_toISOString env v of
                          None \<Rightarrow> Inl (JsError ''Invalid time value'')
                        | Some isoText \<Rightarrow> Inr (cd4\<lparr>cd_exam_date := Some isoText\<rparr>)))
               else Inr cd4) of
           Inl e \<Rightarrow> Inl e
         | Inr cd5 \<Rightarrow>
             Inr (if jsIncludes header ''note'' then cd5\<lparr>cd_notes := orNull v\<rparr> else cd5))"

fun assignFields :: "UploadEnv \<Rightarrow> string list \<Rightarrow> (nat \<times> string) list \<Rightarrow> CandidateData \<Rightarrow> js_error + CandidateData" where
  "assignFields env vals [] cd = Inr cd"
| "assignFields env vals ((index, header) # rest) cd =
     (case assignField env vals index header cd of
        Inl e \<Rightarrow> Inl e
      | Inr cd1 \<Rightarrow> assignFields env vals rest cd1)"

text \<open>\<open>!candidateData.full_name\<close>: unassigned or empty.\<close>

definition falsy :: "string option \<Rightarrow> bool" where
  "falsy v = (case v of None \<Rightarrow> True | Some s \<Rightarrow> s = [])"

text \<open>The accumulators of the loop: the error list, the success count, the tables, the progress shown.\<close>

record UploadLoop =
  ul_errors :: "string list"
  ul_successCount :: nat
  ul_tables :: CandidateTables
  ul_progress :: nat

definition rowLabel :: "nat \<Rightarrow> string" where
  "rowLabel i = ''Row '' @ numberToString (int (i + 2)) @ '': ''"

text \<open>
  \<open>Math.round(((i + 1) / n) * 100)\<close> in double arithmetic, for an index and a length (both
  below \<open>2^53\<close>, the length positive). A double is kept as a pair \<open>(m, e)\<close> that stands for
  \<open>m / 2^e\<close>. The quotient of two positive integers is rounded to 53 significant bits, a tie
  going to the even significand; so is its product with 100; \<open>Math.round\<close> takes the nearest
  integer, the greater one of two equally near.
\<close>

definition quotientDouble :: "nat \<Rightarrow> nat \<Rightarrow> nat \<times> nat" where
  "quotientDouble a b =
     (let e0 = 52 + bitLength b - bitLength a;
          e = (if a * 2 ^ e0 div b < 2 ^ 52 then e0 + 1 else e0);
          q = a * 2 ^ e div b;
          r = a * 2 ^ e mod b
      in (if 2 * r > b \<or> (2 * r = b \<and> odd q) then q + 1 else q, e))"

definition times100 :: "nat \<times> nat \<Rightarrow> nat \<times> nat" where
  "times100 x = (case x of (m, e) \<Rightarrow> (roundToDouble (m * 100), e))"

definition mathRound :: "nat \<times> nat \<Rightarrow> nat" where
  "mathRound x = (case x of (m, e) \<Rightarrow> (if e = 0 then m else (m + 2 ^ (e - 1)) div 2 ^ e))"

definition percentDone :: "nat \<Rightarrow> nat \<Rightarrow> nat" where
  "percentDone i n = (if n = 0 then 0 else mathRound (times100 (quotientDouble (i + 1) n)))"

definition pushError :: "string \<Rightarrow> UploadLoop \<Rightarrow> UploadLoop" where
  "pushError m acc = acc\<lparr>ul_errors := ul_errors acc @ [m]\<rparr>"

text \<open>
  The body of the \<open>for\<close> loop for the data line with index \<open>i\<close>. A row that fails validation
  leaves by \<open>continue\<close>, before the progress is set; an exception thrown in the body is caught
  in the body.
\<close>

definition processRow :: "UploadEnv \<Rightarrow> string list \<Rightarrow> Candidate list \<Rightarrow> string \<Rightarrow> nat \<Rightarrow> nat \<Rightarrow> string
    \<Rightarrow> UploadLoop \<Rightarrow> UploadLoop" where
  "processRow env headers candidates userId n i line acc =
     (let vals = map trim (splitOn CHR '','' line)
      in case assignFields env vals (enumerate 0 headers) emptyCandidateData of
           Inl rowError \<Rightarrow>
             (pushError (rowLabel i @ errorMessage rowError) acc)\<lparr>ul_progress := percentDone i n\<rparr>
         | Inr candidateData \<Rightarrow>
             if falsy (cd_full_name candidateData) \<or> falsy (cd_email candidateData)
             then pushError (rowLabel i @ ''Missing name or email'') acc
             else
               (case find (\<lambda>c. Some (cand_email c) = cd_email candidateData) candidates of
                  Some existingCandidate \<Rightarrow>
                    pushError (rowLabel i @ ''Email '' @ (case cd_email candidateData of None \<Rightarrow> [] | Some e \<Rightarrow> e)
                               @ '' already exists'') acc
                | None \<Rightarrow>
                    (let row = candidateData\<lparr>cd_status := Some ''registered'',
                                 cd_confirmation_number := Some (u_confirmation env i),
                                 cd_user_id := Some userId\<rparr>
                     in (case u_row env i of
                           Done \<Rightarrow>
                             acc\<lparr>ul_successCount := ul_successCount acc + 1,
                                 ul_tables := (ul_tables acc)
                                   \<lparr>candidates_table := candidates_table (ul_tables acc) @ [row]\<rparr>\<rparr>
                         | Failed dbError \<Rightarrow>
                             pushError (rowLabel i @ ''Database error - '' @ errorMessage dbError) acc
                         | Rejected rowError \<Rightarrow>
                             pushError (rowLabel i @ errorMessage rowError) acc)
                        \<lparr>ul_progress := percentDone i n\<rparr>)))"

text \<open>The \<open>for\<close> loop over the data lines, from index \<open>i\<close> on.\<close>

fun processRows :: "UploadEnv \<Rightarrow> string list \<Rightarrow> Candidate list \<Rightarrow> string \<Rightarrow> nat \<Rightarrow> nat \<Rightarrow> string list
    \<Rightarrow> UploadLoop \<Rightarrow> UploadLoop" where
  "processRows env headers candidates userId n i [] acc = acc"
| "processRows env headers candidates userId n i (line # rest) acc =
     processRows env headers candidates userId n (i + 1) rest
       (processRow env headers candidates userId n i line acc)"

subsection \<open>The whole upload\<close>

definition uploadLines :: "string \<Rightarrow> string list" where
  "uploadLines text = filter (\<lambda>line. trim line \<noteq> []) (splitOn (CHR 0x0A) text)"

definition uploadHeaders :: "string \<Rightarrow> string list" where
  "uploadHeaders text = map (\<lambda>h. toLowerCase (trim h)) (splitOn CHR '','' (hd (uploadLines text)))"

definition missingHeaders :: "string list \<Rightarrow> string list" where
  "missingHeaders headers =
     filter (\<lambda>h. \<not> list_ex (\<lambda>header. jsIncludes header (replaceFirst ''_'' [] h)) headers)
       [''full_name'', ''email'']"

text \<open>The insert that records the attempt; its error is logged and the upload goes on without the record.\<close>

definition recordUpload :: "UploadEnv \<Rightarrow> string \<Rightarrow> string \<Rightarrow> CandidateTracker
    \<Rightarrow> (CandidateTracker \<times> nat option) \<times> js_error option" where
  "recordUpload env fileName userId st =
     (case u_record env of
        Done \<Rightarrow>
          (let key = freshKey (map ur_id (candidate_roster_uploads (ct_supabase st)));
               row = \<lparr>ur_id = key, ur_filename = fileName, ur_total_candidates = 0,
                      ur_processed_candidates = 0, ur_failed_candidates = 0,
                      ur_uploaded_by_user_id = userId, ur_status = ''processing'',
                      ur_error_log = None, ur_processed_date = None\<rparr>
           in ((st\<lparr>ct_supabase := (ct_supabase st)
                      \<lparr>candidate_roster_uploads := candidate_roster_uploads (ct_supabase st) @ [row]\<rparr>\<rparr>,
                Some key), None))
      | Failed e \<Rightarrow>
          ((st\<lparr>ct_console_error := ct_console_error st @ [''Error creating upload record'']\<rparr>, None), None)
      | Rejected e \<Rightarrow> ((st, None), Some e))"

text \<open>The update of the upload record after the loop; its result is not inspected.\<close>

definition finishUpload :: "UploadEnv \<Rightarrow> nat option \<Rightarrow> nat \<Rightarrow> UploadLoop \<Rightarrow> CandidateTables
    \<Rightarrow> CandidateTables \<times> js_error option" where
  "finishUpload env uploadRecord n acc d =
     (case uploadRecord of
        None \<Rightarrow> (d, None)
      | Some key \<Rightarrow>
          (case u_update env of
             Done \<Rightarrow>
               (d\<lparr>candidate_roster_uploads :=
                    map (\<lambda>r. if ur_id r = key
                              then r\<lparr>ur_total_candidates := n,
                                     ur_processed_candidates := ul_successCount acc,
                                     ur_failed_candidates := length (ul_errors acc),
                                     ur_status := (if length (ul_errors acc) = n then ''failed'' else ''completed''),
                                     ur_error_log := (if length (ul_errors acc) > 0
                                                      then Some (joinWith [CHR 0x0A] (ul_errors acc)) else None),
                                     ur_processed_date := Some (u_now env)\<rparr>
                              else r)
                      (candidate_roster_uploads d)\<rparr>, None)
           | Failed e \<Rightarrow> (d, None)
           | Rejected e \<Rightarrow> (d, Some e)))"

text \<open>\<open>loadCandidates\<close> catches its own errors; the list is fetched newest first.\<close>

definition loadCandidates :: "UploadEnv \<Rightarrow> CandidateTracker \<Rightarrow> CandidateTracker" where
  "loadCandidates env st =
     (case u_reload env of
        Done \<Rightarrow>
          st\<lparr>ct_candidates :=
               map (\<lambda>r. \<lparr>cand_fullName = (case cd_full_name r of None \<Rightarrow> [] | Some v \<Rightarrow> v),
                          cand_email = (case cd_email r of None \<Rightarrow> [] | Some v \<Rightarrow> v)\<rparr>)
                 (rev (candidates_table (ct_supabase st)))\<rparr>
      | Failed e \<Rightarrow> st\<lparr>ct_console_error := ct_console_error st @ [''Error loading candidates'']\<rparr>
      | Rejected e \<Rightarrow> st\<lparr>ct_console_error := ct_console_error st @ [''Error loading candidates'']\<rparr>)"

definition processBulkUpload_try :: "UploadEnv \<Rightarrow> string \<Rightarrow> string \<Rightarrow> string \<Rightarrow> CandidateTracker
    \<Rightarrow> CandidateTracker \<times> js_error option" where
  "processBulkUpload_try env fileName text userId st =
     (case recordUpload env fileName userId st of
        ((st1, uploadRecord), Some e) \<Rightarrow> (st1, Some e)
      | ((st1, uploadRecord), None) \<Rightarrow>
          (let lines = uploadLines text
           in if length lines < 2
              then (st1, Some (JsError ''File must contain at least a header row and one data row''))
              else
                (let headers = uploadHeaders text;
                     dataLines = tl lines
                 in if length (missingHeaders headers) > 0
                    then (st1, Some (JsError (''Missing required columns: ''
                                              @ joinWith '', '' (missingHeaders headers))))
                    else
                      (let acc = processRows env headers (ct_candidates st) userId (length dataLines) 0
                                   dataLines
                                   \<lparr>ul_errors = [], ul_successCount = 0, ul_tables = ct_supabase st1,
                                    ul_progress = 0\<rparr>;
                           st2 = st1\<lparr>ct_supabase := ul_tables acc, ct_uploadProgress := ul_progress acc\<rparr>
                       in case finishUpload env uploadRecord (length dataLines) acc (ul_tables acc) of
                            (d, Some e) \<Rightarrow> (st2\<lparr>ct_supabase := d\<rparr>, Some e)
                          | (d, None) \<Rightarrow>
                              (let st3 = st2\<lparr>ct_supabase := d,
                                            ct_uploadResults := (ul_successCount acc, ul_errors acc),
                                            ct_uploadStatus :=
                                              (if length (ul_errors acc) = length dataLines
                                               then ''error'' else ''success'')\<rparr>
                               in (if ul_successCount acc > 0 then loadCandidates env st3 else st3,
                                   None))))))"

definition processBulkUpload :: "UploadEnv \<Rightarrow> CandidateTracker \<Rightarrow> CandidateTracker" where
  "processBulkUpload env st =
     (case ct_uploadFile st of
        None \<Rightarrow> st
      | Some (fileName, text) \<Rightarrow>
          (case ct_user st of
             None \<Rightarrow> st
           | Some userId \<Rightarrow>
               (case processBulkUpload_try env fileName text userId
                       (st\<lparr>ct_uploadStatus := ''uploading'', ct_uploadProgress := 0\<rparr>) of
                  (st1, None) \<Rightarrow> st1
                | (st1, Some e) \<Rightarrow>
                    st1\<lparr>ct_uploadStatus := ''error'', ct_uploadResults := (0, [errorMessage e])\<rparr>)))"

subsection \<open>The outcome of a row as the specification writes it\<close>

text \<open>
  A row is imported, or it fails with one message: a thrown conversion error, a missing
  name or email, an email that is already listed, or an error of its own insert.
\<close>

datatype RowOutcome = Imported | RowFailed string

definition rowOutcome :: "UploadEnv \<Rightarrow> string list \<Rightarrow> Candidate list \<Rightarrow> nat \<Rightarrow> string \<Rightarrow> RowOutcome" where
  "rowOutcome env headers candidates i line =
     (case assignFields env (map trim (splitOn CHR '','' line)) (enumerate 0 headers) emptyCandidateData of
        Inl e \<Rightarrow> RowFailed (rowLabel i @ errorMessage e)
      | Inr cd \<Rightarrow>
          if falsy (cd_full_name cd) \<or> falsy (cd_email cd)
          then RowFailed (rowLabel i @ ''Missing name or email'')
          else if list_ex (\<lambda>c. Some (cand_email c) = cd_email cd) candidates
          then RowFailed (rowLabel i @ ''Email '' @ (case cd_email cd of None \<Rightarrow> [] | Some e \<Rightarrow> e)
                          @ '' already exists'')
          else (case u_row env i of
                  Done \<Rightarrow> Imported
                | Failed e \<Rightarrow> RowFailed (rowLabel i @ ''Database error - '' @ errorMessage e)
                | Rejected e \<Rightarrow> RowFailed (rowLabel i @ errorMessage e)))"

definition rowOutcomes :: "UploadEnv \<Rightarrow> string list \<Rightarrow> Candidate list \<Rightarrow> nat \<Rightarrow> string list \<Rightarrow> RowOutcome list" where
  "rowOutcomes env headers candidates i lines =
     map (\<lambda>(k, line). rowOutcome env headers candidates k line) (enumerate i lines)"

definition failuresOf :: "RowOutcome list \<Rightarrow> string list" where
  "failuresOf outcomes = concat (map (\<lambda>r. case r of Imported \<Rightarrow> [] | RowFailed m \<Rightarrow> [m]) outcomes)"

definition importedOf :: "RowOutcome list \<Rightarrow> nat" where
  "importedOf outcomes = length (filter (\<lambda>r. r = Imported) outcomes)"

definition isRejected :: "remote \<Rightarrow> bool" where
  "isRejected r = (case r of Rejected e \<Rightarrow> True | _ \<Rightarrow> False)"

subsection \<open>A sample upload\<close>

text \<open>
  Five data rows: a good one, one without email, one whose email is already listed, one
  whose insert the store refuses, and another good one.
\<close>

definition sampleCsv :: string where
  "sampleCsv =
     ''FullName,Email,Phone'' @ [CHR 0x0A] @
     ''Anil Kumar,anil@example.com,9000000001'' @ [CHR 0x0A] @
     ''Beena Thomas,,9000000002'' @ [CHR 0x0A] @
     ''Chitra Nair,chitra@example.com,9000000003'' @ [CHR 0x0A] @
     ''Deepak Raj,deepak@example.com,9000000004'' @ [CHR 0x0A] @
     ''Esha Menon,esha@example.com,9000000005'' @ [CHR 0x0A]"

definition sampleEnv :: UploadEnv where
  "sampleEnv =
     \<lparr>u_record = Done,
      u_row = (\<lambda>i. if i = 3 then Failed (ErrorObject ''value too long for type character varying(20)'')
                    else Done),
      u_update = Done, u_reload = Done,
      u_toISOString = (\<lambda>v. None),
      u_confirmation = (\<lambda>i. ''EXAM2025-00'' @ natToString i),
      u_now = 7000\<rparr>"

definition sampleTracker :: CandidateTracker where
  "sampleTracker =
     \<lparr>ct_user = Some ''u-s1'',
      ct_candidates = [\<lparr>cand_fullName = ''Chitra Nair'', cand_email = ''chitra@example.com''\<rparr>],
      ct_uploadFile = Some (''roster.csv'', sampleCsv),
      ct_uploadProgress = 0, ct_uploadStatus = ''idle'', ct_uploadResults = (0, []),
      ct_console_error = [],
      ct_supabase = \<lparr>candidates_table = [], candidate_roster_uploads = []\<rparr>\<rparr>"

section \<open>Properties of the capacity validator\<close>

lemma natToString_35: "natToString 35 = ''35''"
  by (simp add: natToString.simps digitChar_def)

lemma natToString_40: "natToString 40 = ''40''"
  by (simp add: natToString.simps digitChar_def)

text \<open>
  C1: for every integer candidate count \<open>c\<close>, the validator reports a valid session exactly
  when \<open>c \<le> 40\<close> and carries a warning exactly when \<open>30 \<le> c \<le> 40\<close>; at 35 it is valid with
  the warning "Session approaching capacity (35/40 candidates)", and at 41 it is invalid with
  the error "Session exceeds maximum capacity of 40 candidates".
\<close>

theorem validateSessionCapacity_spec:
  "(isValid (validateSessionCapacity c) = (c \<le> 40))
   \<and> ((warning (validateSessionCapacity c) \<noteq> None) = (30 \<le> c \<and> c \<le> 40))
   \<and> validateSessionCapacity 35 =
       \<lparr> isValid = True,
         warning = Some ''Session approaching capacity (35/40 candidates)'',
         error = None \<rparr>
   \<and> validateSessionCapacity 41 =
       \<lparr> isValid = False, warning = None,
         error = Some ''Session exceeds maximum capacity of 40 candidates'' \<rparr>"
  by (simp add: validateSessionCapacity_def MAX_CAPACITY_def WARNING_THRESHOLD_def
      numberToString_def natToString_35 natToString_40)

theorem validateSessionCapacity_spec_witness:
  "isValid (validateSessionCapacity 40) \<and> \<not> isValid (validateSessionCapacity 41)
   \<and> warning (validateSessionCapacity 30) \<noteq> None \<and> warning (validateSessionCapacity 29) = None"
  using validateSessionCapacity_spec [of 40] validateSessionCapacity_spec [of 41]
    validateSessionCapacity_spec [of 30] validateSessionCapacity_spec [of 29]
  by simp

section \<open>Properties of the version numbering\<close>

lemma less_10_cases:
  "(k::nat) < 10 \<Longrightarrow> k = 0 \<or> k = 1 \<or> k = 2 \<or> k = 3 \<or> k = 4 \<or> k = 5 \<or> k = 6 \<or> k = 7 \<or> k = 8 \<or> k = 9"
  by arith

lemma digitChar_decimal: "isDecimal (digitChar d)"
proof -
  have "d mod 10 < 10" by simp
  from less_10_cases [OF this] show ?thesis
    unfolding digitChar_def isDecimal_def by (elim disjE) simp_all
qed

lemma digitValue_digitChar: "digitValue (digitChar d) = Some (d mod 10)"
proof -
  have "d mod 10 < 10" by simp
  from less_10_cases [OF this] show ?thesis
    unfolding digitChar_def digitValue_def by (elim disjE) simp_all
qed

lemma natToString_decimal: "\<forall>c \<in> set (natToString n). isDecimal c"
proof (induction n rule: natToString.induct)
  case (1 n)
  show ?case
  proof (cases "n < 10")
    case True
    then show ?thesis by (simp add: natToString.simps [of n] digitChar_decimal)
  next
    case False
    with 1 show ?thesis by (simp add: natToString.simps [of n] digitChar_decimal)
  qed
qed

lemma natToString_nonempty: "natToString n \<noteq> []"
  by (simp add: natToString.simps [of n])

lemma digitsValue_snoc: "digitsValue r (s @ [c]) = digitsValue r s * r + (case digitValue c of None \<Rightarrow> 0 | Some d \<Rightarrow> d)"
  by (simp add: digitsValue_def)

lemma digitsValue_natToString: "digitsValue 10 (natToString n) = n"
proof (induction n rule: natToString.induct)
  case (1 n)
  show ?case
  proof (cases "n < 10")
    case True
    then show ?thesis
      by (simp add: natToString.simps [of n] digitsValue_def digitValue_digitChar)
  next
    case False
    with 1 show ?thesis
      by (simp add: natToString.simps [of n] digitsValue_snoc digitValue_digitChar)
  qed
qed

lemma isDecimal_props:
  assumes "isDecimal c"
  shows "\<not> isWhiteSpace c" "c \<noteq> CHR ''-''" "c \<noteq> CHR ''+''" "c \<noteq> CHR ''x''" "c \<noteq> CHR ''X''" "isDigitOf 10 c"
    "c \<noteq> CHR ''v''"
  using assms unfolding isDecimal_def isWhiteSpace_def isDigitOf_def digitValue_def by auto

lemma mathInt_decimal:
  assumes "s \<noteq> []" "\<forall>c \<in> set s. isDecimal c"
  shows "mathInt s = Some (int (digitsValue 10 s))"
proof -
  obtain c cs where s: "s = c # cs" using assms(1) by (cases s) auto
  have c: "isDecimal c" using assms(2) s by simp
  have ws: "dropWhile isWhiteSpace s = s"
    using isDecimal_props(1) [OF c] s by simp
  have sign: "\<not> startsWith s ''-''" "\<not> startsWith s ''+''"
    using isDecimal_props(2,3) [OF c] s by (simp_all add: startsWith_def)
  have hex: "\<not> startsWith s ''0x''" "\<not> startsWith s ''0X''"
  proof -
    show "\<not> startsWith s ''0x''"
    proof (cases cs)
      case Nil then show ?thesis using s by (simp add: startsWith_def)
    next
      case (Cons d ds)
      then have "isDecimal d" using assms(2) s by simp
      then show ?thesis using s Cons isDecimal_props(4) by (auto simp add: startsWith_def)
    qed
    show "\<not> startsWith s ''0X''"
    proof (cases cs)
      case Nil then show ?thesis using s by (simp add: startsWith_def)
    next
      case (Cons d ds)
      then have "isDecimal d" using assms(2) s by simp
      then show ?thesis using s Cons isDecimal_props(5) by (auto simp add: startsWith_def)
    qed
  qed
  have tw: "takeWhile (isDigitOf 10) s = s"
    using assms(2) isDecimal_props(6) by simp
  show ?thesis
    using sign hex assms(1) by (simp add: mathInt_def parseDigits_def Let_def ws tw)
qed

lemma digitValue_zero: "digitValue CHR ''0'' = Some 0"
  by (simp add: digitValue_def)

lemma foldl_zeros:
  "foldl (\<lambda>acc c. acc * 10 + (case digitValue c of None \<Rightarrow> 0 | Some d \<Rightarrow> d)) 0 (replicate k CHR ''0'') = 0"
  by (induction k) (simp_all add: digitValue_zero)

lemma digitsValue_zeros: "digitsValue 10 (replicate k CHR ''0'' @ s) = digitsValue 10 s"
  by (simp add: digitsValue_def foldl_zeros)

lemma replaceFirst_prefix: "replaceFirst ''v.'' [] (''v.'' @ s) = s"
  by (simp add: startsWith_def)

lemma isDecimal_zero: "isDecimal CHR ''0''"
  by (simp add: isDecimal_def)

lemma padded_decimal: "\<forall>c \<in> set (padStart 2 CHR ''0'' (natToString n)). isDecimal c"
  using natToString_decimal [of n] by (auto simp add: padStart_def isDecimal_zero)

lemma mathInt_padded:
  "mathInt (padStart 2 CHR ''0'' (natToString n)) = Some (int n)"
proof -
  let ?s = "padStart 2 CHR ''0'' (natToString n)"
  have ne: "?s \<noteq> []" by (simp add: padStart_def natToString_nonempty)
  have "mathInt ?s = Some (int (digitsValue 10 ?s))"
    using ne padded_decimal by (rule mathInt_decimal)
  moreover have "digitsValue 10 ?s = n"
    unfolding padStart_def by (simp only: digitsValue_zeros digitsValue_natToString)
  ultimately show ?thesis by simp
qed

lemma double_range: "(2::nat) ^ 53 < 2 ^ 1024"
  by (rule power_strict_increasing) simp_all

lemma toNumber_exact:
  assumes "\<bar>i\<bar> \<le> 2 ^ 53"
  shows "toNumber i = Finite i"
proof -
  have m: "nat \<bar>i\<bar> \<le> 2 ^ 53" using assms by (simp add: nat_le_iff)
  then have r: "roundToDouble (nat \<bar>i\<bar>) = nat \<bar>i\<bar>" by (simp add: roundToDouble_def)
  have "\<not> (2::nat) ^ 1024 \<le> nat \<bar>i\<bar>" using m double_range by linarith
  then show ?thesis unfolding toNumber_def r Let_def by (cases "i < 0") simp_all
qed

lemma parseInt_padded:
  assumes "n \<le> 2 ^ 53"
  shows "parseInt (padStart 2 CHR ''0'' (natToString n)) = Finite (int n)"
proof -
  have "\<bar>int n\<bar> \<le> 2 ^ 53" using assms by (simp add: of_nat_le_iff [of n "2 ^ 53", symmetric])
  then show ?thesis by (simp add: parseInt_def mathInt_padded toNumber_exact)
qed

lemma jsNumberToString_exact:
  assumes "n \<le> 2 ^ 53"
  shows "jsNumberToString (Finite (int n)) = natToString n"
  using assms by (simp add: jsNumberToString_def magnitudeToString_def)

lemma replaceFirst_formatVersion:
  "replaceFirst ''v.'' [] (formatVersion n) = padStart 2 CHR ''0'' (natToString n)"
  unfolding formatVersion_def by (rule replaceFirst_prefix)

lemma formatVersion_nonempty: "formatVersion n \<noteq> []"
  by (simp add: formatVersion_def)

lemma next_version_step:
  assumes "versions st = v # vs" "rv_version_number v = formatVersion n"
  shows "getNextVersionNumber st =
      ''v.'' @ padStart 2 CHR ''0'' (jsNumberToString (plusOne
         (parseInt (padStart 2 CHR ''0'' (natToString n)))))"
  using assms formatVersion_nonempty [of n]
  by (simp add: getNextVersionNumber_def Let_def replaceFirst_formatVersion)

lemma next_version:
  assumes "versions st = v # vs" "rv_version_number v = formatVersion n" "n < 2 ^ 53"
  shows "getNextVersionNumber st = formatVersion (n + 1)"
proof -
  have n: "n \<le> 2 ^ 53" "n + 1 \<le> 2 ^ 53" using assms(3) by simp_all
  have i: "\<bar>int n + 1\<bar> \<le> 2 ^ 53"
    using n(2) by (simp add: of_nat_le_iff [of "n + 1" "2 ^ 53", symmetric])
  have "plusOne (parseInt (padStart 2 CHR ''0'' (natToString n))) = Finite (int (n + 1))"
    using toNumber_exact [OF i] by (simp add: parseInt_padded [OF n(1)] plusOne_def)
  then have "getNextVersionNumber st = ''v.'' @ padStart 2 CHR ''0'' (natToString (n + 1))"
    unfolding next_version_step [OF assms(1,2)]
    by (simp only: jsNumberToString_exact [OF n(2)])
  then show ?thesis by (simp add: formatVersion_def)
qed



lemma formatVersion_examples:
  "formatVersion 1 = ''v.01''" "formatVersion 2 = ''v.02''" "formatVersion 10 = ''v.10''"
  "formatVersion 99 = ''v.99''" "formatVersion 100 = ''v.100''"
  by (simp_all add: formatVersion_def padStart_def natToString.simps digitChar_def)





lemma formatVersion_Suc_0: "formatVersion (Suc 0) = ''v.01''"
  using formatVersion_examples(1) by simp













section \<open>Properties of quick add month\<close>

lemmas load_eval =
  loadData_def loadData_try_def andThen_def load_session_def
  load_profiles_def load_schedules_def load_currentVersion_def load_versions_def
  load_overtime_def load_requests_def allLoaded_def mountRoster_def noTables_def
  isSuperAdmin_def getCurrentUserStaffProfile_def startOfMonth_def endOfMonth_def
  april2025_def lastDayOfMonth_def isoDateUTC_def isoYear_def newDate_def padStart_def numberToString_def
  natToString.simps digitChar_def threeStaff_def staffMember_def createdKey_def

lemma getDaysInMonth_loop_eq:
  "getDaysInMonth_loop y m n d acc = acc @ map (newDate y m) [d..<Suc n]"
proof (induction y m n d acc rule: getDaysInMonth_loop.induct)
  case (1 y m n d acc)
  show ?case
  proof (cases "d \<le> n")
    case True
    then have "[d..<Suc n] = d # [Suc d..<Suc n]" by (simp add: upt_conv_Cons)
    with 1 True show ?thesis by (subst getDaysInMonth_loop.simps) simp
  next
    case False
    then show ?thesis by (subst getDaysInMonth_loop.simps) simp
  qed
qed

lemma getDaysInMonth_eq:
  "getDaysInMonth st =
     map (newDate (jd_year (currentDate st)) (jd_month (currentDate st)))
       [1..<Suc (lastDayOfMonth (jd_year (newDate (jd_year (currentDate st)) (jd_month (currentDate st)) 1))
                   (jd_month (currentDate st)))]"
  by (simp add: getDaysInMonth_def Let_def getDaysInMonth_loop_eq)

lemma length_getDaysInMonth:
  "length (getDaysInMonth st) =
     lastDayOfMonth (jd_year (newDate (jd_year (currentDate st)) (jd_month (currentDate st)) 1))
       (jd_month (currentDate st))"
  by (simp add: getDaysInMonth_eq)

lemma find_hasRow:
  "(find (\<lambda>s. rs_profile_id s = p \<and> rs_date s = d) scheds = None) = (\<not> hasRow scheds p d)"
  by (auto simp add: find_None_iff hasRow_def)

lemma quickAdd_days_eq:
  "quickAdd_days isoDate now scheds staff days c acc =
     acc @ map (\<lambda>(i, day). quickAddRow now (sp_id staff) (isoDate day) i)
            (filter (\<lambda>(i, day). \<not> hasRow scheds (sp_id staff) (isoDate day)) (enumerate c days))"
proof (induction days arbitrary: c acc)
  case Nil
  then show ?case by simp
next
  case (Cons day days)
  show ?case
  proof (cases "find (\<lambda>s. rs_profile_id s = sp_id staff \<and> rs_date s = isoDate day) scheds")
    case None
    then have "\<not> hasRow scheds (sp_id staff) (isoDate day)" by (simp add: find_hasRow)
    with None show ?thesis
      by (simp add: Cons.IH Let_def quickAddRow_def patternCode_def)
  next
    case (Some ex)
    then have "hasRow scheds (sp_id staff) (isoDate day)"
      using find_hasRow [of "sp_id staff" "isoDate day" scheds] by simp
    with Some show ?thesis by (simp add: Cons.IH Let_def)
  qed
qed

lemma quickAdd_staff_eq:
  "quickAdd_staff isoDate now scheds days staff acc =
     acc @ concat (map (expectedRows isoDate now scheds days) staff)"
  by (induction staff arbitrary: acc) (simp_all add: quickAdd_days_eq expectedRows_def)

lemma schedulesToCreate_eq:
  "schedulesToCreate isoDate now st =
     concat (map (expectedRows isoDate now (schedules st) (getDaysInMonth st)) (staffProfiles st))"
  by (simp add: schedulesToCreate_def quickAdd_staff_eq)


lemma andThen_fst_preserved:
  assumes "P (fst r)" and "\<And>s. P s \<Longrightarrow> P (fst (g s))"
  shows "P (fst (andThen r g))"
proof (cases r)
  case (Pair s e)
  then show ?thesis using assms by (cases e) (simp_all add: andThen_def)
qed

lemma supabase_load_steps:
  "supabase (fst (load_session q st)) = supabase st"
  "supabase (fst (load_profiles q st)) = supabase st"
  "supabase (fst (load_schedules isoDate q st)) = supabase st"
  "supabase (fst (load_currentVersion q st)) = supabase st"
  "supabase (fst (load_versions q st)) = supabase st"
  "supabase (fst (load_overtime isoDate q st)) = supabase st"
  "supabase (fst (load_requests super q st)) = supabase st"
  by (simp_all add: load_session_def load_profiles_def load_schedules_def load_currentVersion_def
      load_versions_def load_overtime_def load_requests_def consoleError_def
      split: remote.splits option.splits)

lemma supabase_loadData_try:
  "supabase (fst (loadData_try isoDate q super st)) = supabase st"
  unfolding loadData_try_def
  by (intro andThen_fst_preserved [where P = "\<lambda>s. supabase s = supabase st"])
     (simp_all add: supabase_load_steps)

lemma supabase_loadData: "supabase (loadData isoDate q st) = supabase st"
proof -
  obtain st1 e where r: "loadData_try isoDate q (isSuperAdmin st) (st\<lparr>loading := True\<rparr>) = (st1, e)"
    by (cases "loadData_try isoDate q (isSuperAdmin st) (st\<lparr>loading := True\<rparr>)")
  have "supabase st1 = supabase st"
    using supabase_loadData_try [of isoDate q "isSuperAdmin st" "st\<lparr>loading := True\<rparr>"] r by simp
  then show ?thesis
    using r by (cases e) (simp_all add: loadData_def loadData_catch_def showNotification_def consoleError_def)
qed

lemma schedules_createNewVersion:
  "roster_schedules (supabase (createNewVersion now w editLog st)) = roster_schedules (supabase st)"
proof -
  have d: "roster_schedules (supabase (fst (deactivateCurrent w st))) = roster_schedules (supabase st)"
    by (simp add: deactivateCurrent_def deactivateVersionById_def split: option.splits remote.splits)
  have i: "\<And>s v. roster_schedules (supabase (fst (insertNewVersion now w v s))) = roster_schedules (supabase s)"
    by (simp add: insertNewVersion_def insertVersion_def split: remote.splits)
  have t: "roster_schedules (supabase (fst (createNewVersion_try now w editLog st))) = roster_schedules (supabase st)"
    unfolding createNewVersion_try_def
    by (rule andThen_fst_preserved [where P = "\<lambda>s. roster_schedules (supabase s) = roster_schedules (supabase st)"])
       (simp_all add: d i)
  obtain st1 e where r: "createNewVersion_try now w editLog st = (st1, e)"
    by (cases "createNewVersion_try now w editLog st")
  then show ?thesis using t by (cases e) (simp_all add: createNewVersion_def consoleError_def)
qed

lemma quickAddMonth_store:
  "roster_schedules (supabase (quickAddMonth isoDate now w st)) =
     (if isAdmin st \<and> schedulesToCreate isoDate now st \<noteq> [] \<and> w_schedule w = Done
      then roster_schedules (insertSchedules (schedulesToCreate isoDate now st) (supabase st))
      else roster_schedules (supabase st))"
  by (cases "w_schedule w")
     (simp_all add: quickAddMonth_def Let_def showNotification_def quickAdd_catch_def consoleError_def
       supabase_loadData schedules_createNewVersion)

lemma withoutId_stored:
  "\<forall>r \<in> set rows. rs_id r = None \<Longrightarrow>
     map withoutId (map (\<lambda>(i, r). r\<lparr>rs_id := Some (base + i)\<rparr>) (enumerate c rows)) = rows"
  by (induction rows arbitrary: c) (simp_all add: withoutId_def)

lemma expectedRows_no_id: "\<forall>r \<in> set (expectedRows isoDate now scheds days staff). rs_id r = None"
  by (auto simp add: expectedRows_def quickAddRow_def)

lemma schedulesToCreate_no_id: "\<forall>r \<in> set (schedulesToCreate isoDate now st). rs_id r = None"
  using expectedRows_no_id by (auto simp add: schedulesToCreate_eq)

lemma quickAddMonth_added:
  "\<exists>added. roster_schedules (supabase (quickAddMonth isoDate now w st))
              = roster_schedules (supabase st) @ added
     \<and> map withoutId added =
         (if isAdmin st \<and> w_schedule w = Done then schedulesToCreate isoDate now st else [])"
proof (cases "isAdmin st \<and> schedulesToCreate isoDate now st \<noteq> [] \<and> w_schedule w = Done")
  case True
  then show ?thesis
    using withoutId_stored [OF schedulesToCreate_no_id [of isoDate now st]]
    by (simp add: quickAddMonth_store insertSchedules_def Let_def)
next
  case False
  then show ?thesis by (auto simp add: quickAddMonth_store)
qed


lemma nth_concat_uniform:
  assumes "\<forall>x \<in> set xs. length (f x) = n" "k < length xs" "i < n"
  shows "concat (map f xs) ! (n * k + i) = f (xs ! k) ! i"
  using assms
proof (induction xs arbitrary: k)
  case Nil
  then show ?case by simp
next
  case (Cons x xs)
  show ?case
  proof (cases k)
    case 0
    then show ?thesis using Cons.prems by (simp add: nth_append)
  next
    case (Suc j)
    then have "concat (map f xs) ! (n * j + i) = f (xs ! j) ! i"
      using Cons.IH [of j] Cons.prems by simp
    moreover have "length (f x) = n" using Cons.prems by simp
    ultimately show ?thesis using Suc by (simp add: nth_append)
  qed
qed

lemma length_concat_uniform:
  "\<forall>x \<in> set xs. length (f x) = n \<Longrightarrow> length (concat (map f xs)) = n * length xs"
  by (induction xs) simp_all

lemma expectedRows_empty:
  "expectedRows isoDate now [] days staff =
     map (\<lambda>(i, day). quickAddRow now (sp_id staff) (isoDate day) i) (enumerate 0 days)"
  by (simp add: expectedRows_def hasRow_def)

lemma expectedRows_empty_nth:
  "i < length days \<Longrightarrow>
     expectedRows isoDate now [] days staff ! i = quickAddRow now (sp_id staff) (isoDate (days ! i)) i"
  by (simp add: expectedRows_empty nth_enumerate_eq)

lemma patternCode_30:
  "i < 30 \<Longrightarrow> patternCode i = (if i \<in> {6, 13, 20, 27} then ''RD'' else ''D'')"
proof -
  assume "i < 30"
  then have "(i mod 7 = 6) = (i = 6 \<or> i = 13 \<or> i = 20 \<or> i = 27)" by presburger
  then show ?thesis by (simp add: patternCode_def)
qed

lemma shift_code_withoutId: "rs_shift_code (withoutId r) = rs_shift_code r"
  by (simp add: withoutId_def)

text \<open>
  The rows that \<open>quickAddMonth\<close> writes. For an admin whose insert is accepted by the store
  it adds, for each staff profile in turn, one row for every day of the displayed month whose
  date string has no row in the loaded list; the shift code of a row depends only on the
  zero-based index of its day in the month, counted from 0 for each staff member: "RD" when
  the index is 6 modulo 7 and "D" otherwise. The row is filed under the date string that
  \<open>isoDate\<close> gives for the day. On a 30-day month with three staff members and no schedule
  row, the store holds exactly 90 rows afterwards.
\<close>

lemma quickAddMonth_pattern:
  assumes "isAdmin st" and "w_schedule w = Done"
  shows "\<exists>added.
      roster_schedules (supabase (quickAddMonth isoDate now w st)) = roster_schedules (supabase st) @ added
    \<and> map withoutId added =
        concat (map (expectedRows isoDate now (schedules st) (getDaysInMonth st)) (staffProfiles st))
    \<and> (length (getDaysInMonth st) = 30 \<and> length (staffProfiles st) = 3 \<and> schedules st = []
         \<and> roster_schedules (supabase st) = [] \<longrightarrow>
          length (roster_schedules (supabase (quickAddMonth isoDate now w st))) = 90
        \<and> (\<forall>k<3. \<forall>i<30.
              withoutId (added ! (30 * k + i)) =
                quickAddRow now (sp_id (staffProfiles st ! k)) (isoDate (getDaysInMonth st ! i)) i
            \<and> rs_shift_code (added ! (30 * k + i)) = (if i \<in> {6, 13, 20, 27} then ''RD'' else ''D'')))"
proof -
  let ?exp = "concat (map (expectedRows isoDate now (schedules st) (getDaysInMonth st)) (staffProfiles st))"
  obtain added where store:
    "roster_schedules (supabase (quickAddMonth isoDate now w st)) = roster_schedules (supabase st) @ added"
    and rows: "map withoutId added = ?exp"
    using quickAddMonth_added [of isoDate now w st] assms by (auto simp add: schedulesToCreate_eq)
  have scenario:
    "length (roster_schedules (supabase (quickAddMonth isoDate now w st))) = 90
        \<and> (\<forall>k<3. \<forall>i<30.
              withoutId (added ! (30 * k + i)) =
                quickAddRow now (sp_id (staffProfiles st ! k)) (isoDate (getDaysInMonth st ! i)) i
            \<and> rs_shift_code (added ! (30 * k + i)) = (if i \<in> {6, 13, 20, 27} then ''RD'' else ''D''))"
    if h: "length (getDaysInMonth st) = 30 \<and> length (staffProfiles st) = 3 \<and> schedules st = []
         \<and> roster_schedules (supabase st) = []"
  proof -
    let ?f = "expectedRows isoDate now [] (getDaysInMonth st)"
    have len: "\<forall>s \<in> set (staffProfiles st). length (?f s) = 30"
      using h by (simp add: expectedRows_empty)
    have exp: "?exp = concat (map ?f (staffProfiles st))" using h by simp
    have l90: "length added = 90"
      using arg_cong [OF rows, of length] length_concat_uniform [OF len] h by (simp add: exp)
    have nth: "withoutId (added ! (30 * k + i)) =
                quickAddRow now (sp_id (staffProfiles st ! k)) (isoDate (getDaysInMonth st ! i)) i"
      if "k < 3" "i < 30" for k i
    proof -
      have j: "30 * k + i < length added" using that l90 by simp
      have "withoutId (added ! (30 * k + i)) = map withoutId added ! (30 * k + i)"
        using j by simp
      also have "\<dots> = concat (map ?f (staffProfiles st)) ! (30 * k + i)"
        by (simp only: rows exp)
      also have "\<dots> = ?f (staffProfiles st ! k) ! i"
        using len that h by (intro nth_concat_uniform) simp_all
      also have "\<dots> = quickAddRow now (sp_id (staffProfiles st ! k)) (isoDate (getDaysInMonth st ! i)) i"
        using that h by (simp add: expectedRows_empty_nth)
      finally show ?thesis .
    qed
    have code: "rs_shift_code (added ! (30 * k + i)) = (if i \<in> {6, 13, 20, 27} then ''RD'' else ''D'')"
      if "k < 3" "i < 30" for k i
    proof -
      have "rs_shift_code (added ! (30 * k + i)) = rs_shift_code (withoutId (added ! (30 * k + i)))"
        by (simp only: shift_code_withoutId)
      also have "\<dots> = patternCode i"
        by (simp only: nth [OF that]) (simp add: quickAddRow_def)
      finally show ?thesis using patternCode_30 [OF that(2)] by simp
    qed
    show ?thesis using l90 store h nth code by simp
  qed
  show ?thesis
    using store rows scenario by blast
qed

lemma schedulesToCreate_absent:
  "r \<in> set (schedulesToCreate isoDate now st) \<Longrightarrow>
     \<not> hasRow (schedules st) (rs_profile_id r) (rs_date r)"
  by (auto simp add: schedulesToCreate_eq expectedRows_def quickAddRow_def)

lemma withoutId_key:
  "rs_profile_id (withoutId r) = rs_profile_id r" "rs_date (withoutId r) = rs_date r"
  by (simp_all add: withoutId_def)

lemma quickAddMonth_appends:
  "\<exists>added.
      roster_schedules (supabase (quickAddMonth isoDate now w st)) = roster_schedules (supabase st) @ added
    \<and> (\<forall>r \<in> set added. \<not> hasRow (schedules st) (rs_profile_id r) (rs_date r))
    \<and> (monthLoaded isoDate st \<longrightarrow>
         (\<forall>r \<in> set added. \<not> hasRow (roster_schedules (supabase st)) (rs_profile_id r) (rs_date r)))"
proof -
  obtain added where store:
    "roster_schedules (supabase (quickAddMonth isoDate now w st)) = roster_schedules (supabase st) @ added"
    and rows: "map withoutId added =
         (if isAdmin st \<and> w_schedule w = Done then schedulesToCreate isoDate now st else [])"
    using quickAddMonth_added [of isoDate now w st] by blast
  have created: "withoutId r \<in> set (schedulesToCreate isoDate now st)" if r: "r \<in> set added" for r
  proof -
    have "withoutId r \<in> set (map withoutId added)" using r by simp
    then show ?thesis by (simp only: rows split: if_splits) simp_all
  qed
  have fresh: "\<not> hasRow (schedules st) (rs_profile_id r) (rs_date r)" if r: "r \<in> set added" for r
    using schedulesToCreate_absent [OF created [OF r]] by (simp add: withoutId_key)
  have "\<not> hasRow (roster_schedules (supabase st)) (rs_profile_id r) (rs_date r)"
    if loaded: "monthLoaded isoDate st" and r: "r \<in> set added" for r
  proof
    assume "hasRow (roster_schedules (supabase st)) (rs_profile_id r) (rs_date r)"
    then obtain r0 where r0: "r0 \<in> set (roster_schedules (supabase st))"
      "rs_profile_id r0 = rs_profile_id r" "rs_date r0 = rs_date r"
      by (auto simp add: hasRow_def)
    obtain s i day where s: "s \<in> set (staffProfiles st)"
      and d: "(i, day) \<in> set (enumerate 0 (getDaysInMonth st))"
      and eq: "withoutId r = quickAddRow now (sp_id s) (isoDate day) i"
      using created [OF r] by (auto simp add: schedulesToCreate_eq expectedRows_def)
    have key: "rs_profile_id r = sp_id s" "rs_date r = isoDate day"
      using arg_cong [OF eq, of rs_profile_id] arg_cong [OF eq, of rs_date]
      by (simp_all add: withoutId_def quickAddRow_def)
    have day: "day \<in> set (getDaysInMonth st)"
      using d by (auto simp add: in_set_enumerate_eq)
    have "r0 \<in> set (schedules st)"
      using loaded r0 s day key unfolding monthLoaded_def by force
    then have "hasRow (schedules st) (rs_profile_id r) (rs_date r)"
      using r0 by (auto simp add: hasRow_def)
    with fresh [OF r] show False by simp
  qed
  with store fresh show ?thesis by blast
qed

lemma andThen_None:
  assumes "andThen r g = (s', None)"
  obtains s where "r = (s, None)" "g s = (s', None)"
proof (cases r)
  case (Pair s e)
  then show ?thesis using assms that by (cases e) (simp_all add: andThen_def)
qed

lemma load_steps_keep:
  "schedules (fst (load_currentVersion q s)) = schedules s"
  "schedules (fst (load_versions q s)) = schedules s"
  "schedules (fst (load_overtime isoDate q s)) = schedules s"
  "schedules (fst (load_requests super q s)) = schedules s"
  "staffProfiles (fst (load_schedules isoDate q s)) = staffProfiles s"
  "staffProfiles (fst (load_currentVersion q s)) = staffProfiles s"
  "staffProfiles (fst (load_versions q s)) = staffProfiles s"
  "staffProfiles (fst (load_overtime isoDate q s)) = staffProfiles s"
  "staffProfiles (fst (load_requests super q s)) = staffProfiles s"
  "currentDate (fst (load_session q s)) = currentDate s"
  "currentDate (fst (load_profiles q s)) = currentDate s"
  "currentDate (fst (load_schedules isoDate q s)) = currentDate s"
  "currentDate (fst (load_currentVersion q s)) = currentDate s"
  "currentDate (fst (load_versions q s)) = currentDate s"
  "currentDate (fst (load_overtime isoDate q s)) = currentDate s"
  "currentDate (fst (load_requests super q s)) = currentDate s"
  by (simp_all add: load_session_def load_profiles_def load_schedules_def load_currentVersion_def
      load_versions_def load_overtime_def load_requests_def consoleError_def
      split: remote.splits option.splits)

lemma load_schedules_None:
  assumes "load_schedules isoDate q s = (s', None)"
  shows "schedules s' = sort_key rs_date
           (filter (\<lambda>r. isoDate (startOfMonth s) \<le> rs_date r \<and> rs_date r \<le> isoDate (endOfMonth s))
              (roster_schedules (supabase s)))"
  using assms by (cases "q_schedules q") (auto simp add: load_schedules_def)

lemma days_of_currentDate:
  "currentDate s' = currentDate s \<Longrightarrow> getDaysInMonth s' = getDaysInMonth s"
  "currentDate s' = currentDate s \<Longrightarrow> startOfMonth s' = startOfMonth s"
  "currentDate s' = currentDate s \<Longrightarrow> endOfMonth s' = endOfMonth s"
  by (simp_all add: getDaysInMonth_def startOfMonth_def endOfMonth_def)

lemma loadData_try_None:
  assumes "loadData_try isoDate q super st = (st1, None)"
  shows "schedules st1 = sort_key rs_date
           (filter (\<lambda>r. isoDate (startOfMonth st) \<le> rs_date r \<and> rs_date r \<le> isoDate (endOfMonth st))
              (roster_schedules (supabase st)))"
    and "currentDate st1 = currentDate st"
proof -
  from assms obtain s6 where s6: "load_requests super q s6 = (st1, None)"
    and r6: "andThen (andThen (andThen (andThen (andThen (load_session q st)
       (load_profiles q)) (load_schedules isoDate q)) (load_currentVersion q)) (load_versions q))
       (load_overtime isoDate q) = (s6, None)"
    unfolding loadData_try_def by (rule andThen_None)
  from r6 obtain s5 where s5: "load_overtime isoDate q s5 = (s6, None)"
    and r5: "andThen (andThen (andThen (andThen (load_session q st)
       (load_profiles q)) (load_schedules isoDate q)) (load_currentVersion q)) (load_versions q)
       = (s5, None)"
    by (rule andThen_None)
  from r5 obtain s4 where s4: "load_versions q s4 = (s5, None)"
    and r4: "andThen (andThen (andThen (load_session q st)
       (load_profiles q)) (load_schedules isoDate q)) (load_currentVersion q) = (s4, None)"
    by (rule andThen_None)
  from r4 obtain s3 where s3: "load_currentVersion q s3 = (s4, None)"
    and r3: "andThen (andThen (load_session q st) (load_profiles q)) (load_schedules isoDate q) = (s3, None)"
    by (rule andThen_None)
  from r3 obtain s2 where s2: "load_schedules isoDate q s2 = (s3, None)"
    and r2: "andThen (load_session q st) (load_profiles q) = (s2, None)"
    by (rule andThen_None)
  from r2 obtain s1 where s1: "load_profiles q s1 = (s2, None)"
    and r1: "load_session q st = (s1, None)"
    by (rule andThen_None)
  have d1: "currentDate s1 = currentDate st" "supabase s1 = supabase st"
    using load_steps_keep(10) [of q st] supabase_load_steps(1) [of q st] r1 by simp_all
  have d2: "currentDate s2 = currentDate st" "supabase s2 = supabase st"
    using load_steps_keep(11) [of q s1] supabase_load_steps(2) [of q s1] s1 d1 by simp_all
  have d3: "currentDate s3 = currentDate st"
    using load_steps_keep(12) [of isoDate q s2] s2 d2 by simp
  have c3: "schedules s3 = sort_key rs_date
           (filter (\<lambda>r. isoDate (startOfMonth st) \<le> rs_date r \<and> rs_date r \<le> isoDate (endOfMonth st))
              (roster_schedules (supabase st)))"
    using load_schedules_None [OF s2] d2 days_of_currentDate(2,3) [of s2 st] by simp
  have c4: "schedules s4 = schedules s3" "currentDate s4 = currentDate s3"
    using load_steps_keep(1,13) [of q s3] s3 by simp_all
  have c5: "schedules s5 = schedules s4" "currentDate s5 = currentDate s4"
    using load_steps_keep(2,14) [of q s4] s4 by simp_all
  have c6: "schedules s6 = schedules s5" "currentDate s6 = currentDate s5"
    using load_steps_keep(3) [of isoDate q s5] load_steps_keep(15) [of isoDate q s5] s5 by simp_all
  have c7: "schedules st1 = schedules s6" "currentDate st1 = currentDate s6"
    using load_steps_keep(4) [of super q s6] load_steps_keep(16) [of super q s6] s6 by simp_all
  show "schedules st1 = sort_key rs_date
           (filter (\<lambda>r. isoDate (startOfMonth st) \<le> rs_date r \<and> rs_date r \<le> isoDate (endOfMonth st))
              (roster_schedules (supabase st)))"
    by (simp only: c7 c6 c5 c4 c3)
  show "currentDate st1 = currentDate st"
    by (simp only: c7 c6 c5 c4 d3)
qed

text \<open>
  Whatever its requests return, \<open>loadData\<close> leaves a list that covers the store on the
  displayed month, provided the date strings of the days of the month lie between those of
  its first and last day.
\<close>

lemma loadData_monthLoaded:
  assumes "\<forall>d \<in> set (getDaysInMonth st).
             isoDate (startOfMonth st) \<le> isoDate d \<and> isoDate d \<le> isoDate (endOfMonth st)"
  shows "monthLoaded isoDate (loadData isoDate q st)"
proof -
  let ?st0 = "st\<lparr>loading := True\<rparr>"
  obtain st1 e where r: "loadData_try isoDate q (isSuperAdmin st) ?st0 = (st1, e)"
    by (cases "loadData_try isoDate q (isSuperAdmin st) ?st0")
  have db: "supabase st1 = supabase st"
    using supabase_loadData_try [of isoDate q "isSuperAdmin st" ?st0] r by simp
  show ?thesis
  proof (cases e)
    case None
    have cd: "currentDate st1 = currentDate st"
      using loadData_try_None(2) [OF r [unfolded None]] by simp
    have sch: "schedules st1 = sort_key rs_date
           (filter (\<lambda>r. isoDate (startOfMonth st) \<le> rs_date r \<and> rs_date r \<le> isoDate (endOfMonth st))
              (roster_schedules (supabase st)))"
      using loadData_try_None(1) [OF r [unfolded None]]
      by (simp add: startOfMonth_def endOfMonth_def)
    have res: "loadData isoDate q st = st1\<lparr>loading := False\<rparr>"
      using r None by (simp add: loadData_def)
    have days: "getDaysInMonth (st1\<lparr>loading := False\<rparr>) = getDaysInMonth st"
      using cd by (simp add: getDaysInMonth_def)
    show ?thesis
      unfolding monthLoaded_def res days
      using assms by (auto simp add: sch db)
  next
    case (Some err)
    then have "staffProfiles (loadData isoDate q st) = []"
      using r by (simp add: loadData_def loadData_catch_def)
    then show ?thesis by (simp add: monthLoaded_def)
  qed
qed

lemma isAdmin_aprilRoster: "isAdmin aprilRoster"
  by (simp add: isAdmin_def isSuperAdmin_def getCurrentUserStaffProfile_def aprilRoster_def
      mountRoster_def threeStaff_def staffMember_def)

lemma days_aprilRoster: "length (getDaysInMonth aprilRoster) = 30"
  by (simp add: length_getDaysInMonth aprilRoster_def mountRoster_def april2025_def lastDayOfMonth_def
      newDate_def)

text \<open>
  On a machine at or west of UTC a day is filed under its own date, and the rows of April 2025
  carry the pattern on the days the specification names.
\<close>

lemma toISODate_west: "tz \<le> 0 \<Longrightarrow> toISODate tz d = isoDateUTC d"
  by (simp add: toISODate_def)

lemma quickAddMonth_pattern_UTC:
  "isAdmin aprilRoster \<and> w_schedule allWritten = Done
   \<and> length (roster_schedules (supabase (quickAddMonth isoDateUTC 0 allWritten aprilRoster))) = 90
   \<and> rs_shift_code (roster_schedules (supabase (quickAddMonth isoDateUTC 0 allWritten aprilRoster)) ! 5) = ''D''
   \<and> rs_shift_code (roster_schedules (supabase (quickAddMonth isoDateUTC 0 allWritten aprilRoster)) ! 6) = ''RD''
   \<and> rs_shift_code (roster_schedules (supabase (quickAddMonth isoDateUTC 0 allWritten aprilRoster)) ! 36) = ''RD''"
proof -
  have w: "w_schedule allWritten = Done" by (simp add: allWritten_def)
  have h: "length (getDaysInMonth aprilRoster) = 30 \<and> length (staffProfiles aprilRoster) = 3
      \<and> schedules aprilRoster = [] \<and> roster_schedules (supabase aprilRoster) = []"
    by (simp add: days_aprilRoster) (simp add: aprilRoster_def mountRoster_def threeStaff_def noTables_def)
  obtain added where
    store: "roster_schedules (supabase (quickAddMonth isoDateUTC 0 allWritten aprilRoster))
              = roster_schedules (supabase aprilRoster) @ added"
    and len: "length (roster_schedules (supabase (quickAddMonth isoDateUTC 0 allWritten aprilRoster))) = 90"
    and codes: "\<forall>k<3. \<forall>i<30. rs_shift_code (added ! (30 * k + i)) = (if i \<in> {6, 13, 20, 27} then ''RD'' else ''D'')"
    using quickAddMonth_pattern [OF isAdmin_aprilRoster w, of isoDateUTC 0] h by blast
  have e: "roster_schedules (supabase (quickAddMonth isoDateUTC 0 allWritten aprilRoster)) = added"
    using store h by simp
  have "rs_shift_code (added ! 5) = ''D''" using codes [rule_format, of 0 5] by simp
  moreover have "rs_shift_code (added ! 6) = ''RD''" using codes [rule_format, of 0 6] by simp
  moreover have "rs_shift_code (added ! 36) = ''RD''" using codes [rule_format, of 1 6] by simp
  ultimately show ?thesis using isAdmin_aprilRoster w len e by simp
qed

lemma aprilIST_loaded:
  "staffProfiles aprilIST = threeStaff"
  "schedules aprilIST = []"
  "roster_schedules (supabase aprilIST) = []"
  "currentDate aprilIST = april2025"
  "user aprilIST = Some ''u-s1''"
  by (simp_all add: aprilIST_def staffTables_def toISODate_def previousDay_def load_eval)

lemma isAdmin_aprilIST: "isAdmin aprilIST"
  by (simp add: isAdmin_def isSuperAdmin_def getCurrentUserStaffProfile_def aprilIST_loaded
      threeStaff_def staffMember_def)

lemma days_aprilIST: "getDaysInMonth aprilIST = map (newDate 2025 3) [1..<31]"
  by (simp add: getDaysInMonth_eq aprilIST_loaded april2025_def lastDayOfMonth_def newDate_def)


lemma upt_30: "[1..<31] = [1::nat,2,3,4,5,6,7,8,9,10,11,12,13,14,15,16,17,18,19,20,21,22,23,24,25,26,27,28,29,30]"
  by (simp add: upt_conv_Cons)

lemma date_IST:
  "toISODate 330 (newDate 2025 3 d) =
     (if d \<le> 1 then ''2025-03-31'' else ''2025-04-'' @ padStart 2 CHR ''0'' (natToString (d - 1)))"
  by (simp add: toISODate_def previousDay_def isoDateUTC_def isoYear_def newDate_def padStart_def
      natToString.simps [of 2025] natToString.simps [of 202] natToString.simps [of 20] natToString.simps [of 2]
      natToString.simps [of 4] natToString.simps [of 3] natToString.simps [of 31] digitChar_def lastDayOfMonth_def)

lemma april_dates_IST:
  "map (\<lambda>(i, day). (toISODate 330 day, patternCode i)) (enumerate 0 (map (newDate 2025 3) [1..<31])) =
     [(''2025-03-31'', ''D''), (''2025-04-01'', ''D''), (''2025-04-02'', ''D''), (''2025-04-03'', ''D''),
      (''2025-04-04'', ''D''), (''2025-04-05'', ''D''), (''2025-04-06'', ''RD''), (''2025-04-07'', ''D''),
      (''2025-04-08'', ''D''), (''2025-04-09'', ''D''), (''2025-04-10'', ''D''), (''2025-04-11'', ''D''),
      (''2025-04-12'', ''D''), (''2025-04-13'', ''RD''), (''2025-04-14'', ''D''), (''2025-04-15'', ''D''),
      (''2025-04-16'', ''D''), (''2025-04-17'', ''D''), (''2025-04-18'', ''D''), (''2025-04-19'', ''D''),
      (''2025-04-20'', ''RD''), (''2025-04-21'', ''D''), (''2025-04-22'', ''D''), (''2025-04-23'', ''D''),
      (''2025-04-24'', ''D''), (''2025-04-25'', ''D''), (''2025-04-26'', ''D''), (''2025-04-27'', ''RD''),
      (''2025-04-28'', ''D''), (''2025-04-29'', ''D'')]"
  unfolding upt_30
  by (simp add: date_IST patternCode_def padStart_def natToString.simps digitChar_def)


lemma quickAddRows_profile:
  "map rs_profile_id (map (\<lambda>(i, day). quickAddRow now p (isoDate day) i) xs) = replicate (length xs) p"
  by (induction xs) (simp_all add: quickAddRow_def case_prod_beta)

lemma expectedRows_keys:
  "map (\<lambda>r. (rs_date r, rs_shift_code r)) (expectedRows isoDate now [] days staff) =
     map (\<lambda>(i, day). (isoDate day, patternCode i)) (enumerate 0 days)"
  "map rs_profile_id (expectedRows isoDate now [] days staff) = replicate (length days) (sp_id staff)"
proof -
  show "map (\<lambda>r. (rs_date r, rs_shift_code r)) (expectedRows isoDate now [] days staff) =
     map (\<lambda>(i, day). (isoDate day, patternCode i)) (enumerate 0 days)"
    by (simp add: expectedRows_empty quickAddRow_def case_prod_beta)
  show "map rs_profile_id (expectedRows isoDate now [] days staff) = replicate (length days) (sp_id staff)"
    by (simp only: expectedRows_empty quickAddRows_profile length_enumerate)
qed

lemma withoutId_keys:
  "map (\<lambda>r. (rs_date r, rs_shift_code r)) (map withoutId rows) = map (\<lambda>r. (rs_date r, rs_shift_code r)) rows"
  "map rs_profile_id (map withoutId rows) = map rs_profile_id rows"
  by (simp_all add: withoutId_def)

lemma quickAddMonth_rows_IST:
  "map rs_profile_id (roster_schedules (supabase (quickAddMonth (toISODate 330) 1000 allWritten aprilIST)))
        = replicate 30 ''s1'' @ replicate 30 ''s2'' @ replicate 30 ''s3''
   \<and> map (\<lambda>r. (rs_date r, rs_shift_code r))
          (roster_schedules (supabase (quickAddMonth (toISODate 330) 1000 allWritten aprilIST)))
        = concat (replicate 3
     [(''2025-03-31'', ''D''), (''2025-04-01'', ''D''), (''2025-04-02'', ''D''), (''2025-04-03'', ''D''),
      (''2025-04-04'', ''D''), (''2025-04-05'', ''D''), (''2025-04-06'', ''RD''), (''2025-04-07'', ''D''),
      (''2025-04-08'', ''D''), (''2025-04-09'', ''D''), (''2025-04-10'', ''D''), (''2025-04-11'', ''D''),
      (''2025-04-12'', ''D''), (''2025-04-13'', ''RD''), (''2025-04-14'', ''D''), (''2025-04-15'', ''D''),
      (''2025-04-16'', ''D''), (''2025-04-17'', ''D''), (''2025-04-18'', ''D''), (''2025-04-19'', ''D''),
      (''2025-04-20'', ''RD''), (''2025-04-21'', ''D''), (''2025-04-22'', ''D''), (''2025-04-23'', ''D''),
      (''2025-04-24'', ''D''), (''2025-04-25'', ''D''), (''2025-04-26'', ''D''), (''2025-04-27'', ''RD''),
      (''2025-04-28'', ''D''), (''2025-04-29'', ''D'')])"
proof -
  let ?iso = "toISODate 330"
  let ?rows = "roster_schedules (supabase (quickAddMonth ?iso 1000 allWritten aprilIST))"
  let ?days = "map (newDate 2025 3) [1..<31]"
  have w: "w_schedule allWritten = Done" by (simp add: allWritten_def)
  obtain added where store: "?rows = roster_schedules (supabase aprilIST) @ added"
    and rows: "map withoutId added = schedulesToCreate ?iso 1000 aprilIST"
    using quickAddMonth_added [of ?iso 1000 allWritten aprilIST] isAdmin_aprilIST w by auto
  have e: "?rows = added" using store by (simp add: aprilIST_loaded)
  have c: "map withoutId added = concat (map (expectedRows ?iso 1000 [] ?days) threeStaff)"
    unfolding rows schedulesToCreate_eq by (simp only: aprilIST_loaded days_aprilIST)
  have p: "map rs_profile_id ?rows = replicate 30 ''s1'' @ replicate 30 ''s2'' @ replicate 30 ''s3''"
  proof -
    have "map rs_profile_id ?rows = map rs_profile_id (map withoutId added)"
      by (simp only: e withoutId_keys)
    also have "\<dots> = concat (map (\<lambda>s. replicate (length ?days) (sp_id s)) threeStaff)"
      by (simp only: c map_concat map_map comp_def expectedRows_keys)
    also have "\<dots> = replicate 30 ''s1'' @ replicate 30 ''s2'' @ replicate 30 ''s3''"
      by (simp add: threeStaff_def staffMember_def)
    finally show ?thesis .
  qed
  have k: "map (\<lambda>r. (rs_date r, rs_shift_code r)) ?rows = concat (replicate 3
     [(''2025-03-31'', ''D''), (''2025-04-01'', ''D''), (''2025-04-02'', ''D''), (''2025-04-03'', ''D''),
      (''2025-04-04'', ''D''), (''2025-04-05'', ''D''), (''2025-04-06'', ''RD''), (''2025-04-07'', ''D''),
      (''2025-04-08'', ''D''), (''2025-04-09'', ''D''), (''2025-04-10'', ''D''), (''2025-04-11'', ''D''),
      (''2025-04-12'', ''D''), (''2025-04-13'', ''RD''), (''2025-04-14'', ''D''), (''2025-04-15'', ''D''),
      (''2025-04-16'', ''D''), (''2025-04-17'', ''D''), (''2025-04-18'', ''D''), (''2025-04-19'', ''D''),
      (''2025-04-20'', ''RD''), (''2025-04-21'', ''D''), (''2025-04-22'', ''D''), (''2025-04-23'', ''D''),
      (''2025-04-24'', ''D''), (''2025-04-25'', ''D''), (''2025-04-26'', ''D''), (''2025-04-27'', ''RD''),
      (''2025-04-28'', ''D''), (''2025-04-29'', ''D'')])"
  proof -
    have "map (\<lambda>r. (rs_date r, rs_shift_code r)) ?rows
            = map (\<lambda>r. (rs_date r, rs_shift_code r)) (map withoutId added)"
      by (simp only: e withoutId_keys)
    also have "\<dots> = concat (map (\<lambda>s.
     [(''2025-03-31'', ''D''), (''2025-04-01'', ''D''), (''2025-04-02'', ''D''), (''2025-04-03'', ''D''),
      (''2025-04-04'', ''D''), (''2025-04-05'', ''D''), (''2025-04-06'', ''RD''), (''2025-04-07'', ''D''),
      (''2025-04-08'', ''D''), (''2025-04-09'', ''D''), (''2025-04-10'', ''D''), (''2025-04-11'', ''D''),
      (''2025-04-12'', ''D''), (''2025-04-13'', ''RD''), (''2025-04-14'', ''D''), (''2025-04-15'', ''D''),
      (''2025-04-16'', ''D''), (''2025-04-17'', ''D''), (''2025-04-18'', ''D''), (''2025-04-19'', ''D''),
      (''2025-04-20'', ''RD''), (''2025-04-21'', ''D''), (''2025-04-22'', ''D''), (''2025-04-23'', ''D''),
      (''2025-04-24'', ''D''), (''2025-04-25'', ''D''), (''2025-04-26'', ''D''), (''2025-04-27'', ''RD''),
      (''2025-04-28'', ''D''), (''2025-04-29'', ''D'')]) threeStaff)"
      by (simp only: c map_concat map_map comp_def expectedRows_keys april_dates_IST)
    also have "\<dots> = concat (replicate 3
     [(''2025-03-31'', ''D''), (''2025-04-01'', ''D''), (''2025-04-02'', ''D''), (''2025-04-03'', ''D''),
      (''2025-04-04'', ''D''), (''2025-04-05'', ''D''), (''2025-04-06'', ''RD''), (''2025-04-07'', ''D''),
      (''2025-04-08'', ''D''), (''2025-04-09'', ''D''), (''2025-04-10'', ''D''), (''2025-04-11'', ''D''),
      (''2025-04-12'', ''D''), (''2025-04-13'', ''RD''), (''2025-04-14'', ''D''), (''2025-04-15'', ''D''),
      (''2025-04-16'', ''D''), (''2025-04-17'', ''D''), (''2025-04-18'', ''D''), (''2025-04-19'', ''D''),
      (''2025-04-20'', ''RD''), (''2025-04-21'', ''D''), (''2025-04-22'', ''D''), (''2025-04-23'', ''D''),
      (''2025-04-24'', ''D''), (''2025-04-25'', ''D''), (''2025-04-26'', ''D''), (''2025-04-27'', ''RD''),
      (''2025-04-28'', ''D''), (''2025-04-29'', ''D'')])"
      by (simp add: threeStaff_def numeral_3_eq_3)
    finally show ?thesis .
  qed
  show ?thesis using p k by (intro conjI)
qed

lemma april_days_UTC:
  "map isoDateUTC [hd (getDaysInMonth aprilIST), getDaysInMonth aprilIST ! 6, last (getDaysInMonth aprilIST)]
        = [''2025-04-01'', ''2025-04-07'', ''2025-04-30'']"
  unfolding days_aprilIST upt_30
  by (simp add: isoDateUTC_def isoYear_def newDate_def padStart_def natToString.simps digitChar_def)

text \<open>
  C2 (the code diverges): on a machine in India the admin runs \<open>quickAddMonth\<close> on April 2025
  with three staff members and no schedule row. The counter and the pattern are as specified
  and 90 rows are written, 30 for each staff member, but each row is filed under the
  UTC day of the local midnight, one day early: the rows are dated 31 March to 29 April, the
  rest-day code "RD" stands on 6, 13, 20 and 27 April (the days with zero-based index 5, 12,
  19 and 26 of the month), the day with index 6, 7 April, has "D", and 30 April has no row.
\<close>

theorem quickAddMonth_files_rows_a_day_early:
  "isAdmin aprilIST \<and> schedules aprilIST = [] \<and> roster_schedules (supabase aprilIST) = []
   \<and> map isoDateUTC [hd (getDaysInMonth aprilIST), getDaysInMonth aprilIST ! 6, last (getDaysInMonth aprilIST)]
        = [''2025-04-01'', ''2025-04-07'', ''2025-04-30'']
   \<and> map rs_profile_id (roster_schedules (supabase (quickAddMonth (toISODate 330) 1000 allWritten aprilIST)))
        = replicate 30 ''s1'' @ replicate 30 ''s2'' @ replicate 30 ''s3''
   \<and> map (\<lambda>r. (rs_date r, rs_shift_code r))
          (roster_schedules (supabase (quickAddMonth (toISODate 330) 1000 allWritten aprilIST)))
        = concat (replicate 3
     [(''2025-03-31'', ''D''), (''2025-04-01'', ''D''), (''2025-04-02'', ''D''), (''2025-04-03'', ''D''),
      (''2025-04-04'', ''D''), (''2025-04-05'', ''D''), (''2025-04-06'', ''RD''), (''2025-04-07'', ''D''),
      (''2025-04-08'', ''D''), (''2025-04-09'', ''D''), (''2025-04-10'', ''D''), (''2025-04-11'', ''D''),
      (''2025-04-12'', ''D''), (''2025-04-13'', ''RD''), (''2025-04-14'', ''D''), (''2025-04-15'', ''D''),
      (''2025-04-16'', ''D''), (''2025-04-17'', ''D''), (''2025-04-18'', ''D''), (''2025-04-19'', ''D''),
      (''2025-04-20'', ''RD''), (''2025-04-21'', ''D''), (''2025-04-22'', ''D''), (''2025-04-23'', ''D''),
      (''2025-04-24'', ''D''), (''2025-04-25'', ''D''), (''2025-04-26'', ''D''), (''2025-04-27'', ''RD''),
      (''2025-04-28'', ''D''), (''2025-04-29'', ''D'')])"
proof -
  note rows = quickAddMonth_rows_IST
  show ?thesis
    using isAdmin_aprilIST aprilIST_loaded(2,3) april_days_UTC rows [THEN conjunct1] rows [THEN conjunct2]
    by (intro conjI)
qed

lemma aprilWithLeave_loaded:
  "schedules aprilWithLeave = [leaveRow]"
  "roster_schedules (supabase aprilWithLeave) = [leaveRow]"
  by (simp_all add: aprilWithLeave_def loadData_def loadData_try_def andThen_def load_session_def
      load_profiles_def load_schedules_def load_currentVersion_def load_versions_def
      load_overtime_def load_requests_def allLoaded_def mountRoster_def leaveTables_def noTables_def
      isSuperAdmin_def getCurrentUserStaffProfile_def startOfMonth_def endOfMonth_def
      april2025_def lastDayOfMonth_def isoDateUTC_def isoYear_def newDate_def padStart_def numberToString_def
      natToString.simps digitChar_def leaveRow_def threeStaff_def staffMember_def)


lemma schedulesToCreate_keys:
  assumes "schedules st' = schedules st" "staffProfiles st' = staffProfiles st"
    "currentDate st' = currentDate st"
  shows "map (\<lambda>r. (rs_profile_id r, rs_date r)) (schedulesToCreate isoDate now' st')
       = map (\<lambda>r. (rs_profile_id r, rs_date r)) (schedulesToCreate isoDate now st)"
proof -
  have d: "getDaysInMonth st' = getDaysInMonth st" using assms(3) by (simp add: getDaysInMonth_def)
  have "map (\<lambda>r. (rs_profile_id r, rs_date r)) (expectedRows isoDate now' scheds days s)
      = map (\<lambda>r. (rs_profile_id r, rs_date r)) (expectedRows isoDate now scheds days s)" for scheds days s
    by (simp add: expectedRows_def quickAddRow_def case_prod_beta)
  then show ?thesis
    by (simp add: schedulesToCreate_eq assms(1,2) d map_concat comp_def)
qed

lemma withoutId_pairs:
  "map (\<lambda>r. (rs_profile_id r, rs_date r)) (map withoutId rows) = map (\<lambda>r. (rs_profile_id r, rs_date r)) rows"
  by (simp add: withoutId_def)

text \<open>
  The pairs are tested against the loaded list, not against the store: when Quick Add runs a
  second time from the same render, every pair that the first run has put into the store is
  inserted once more. The store then holds each of the 90 pairs twice, the pair of staff
  member \<open>s1\<close> and 6 April among them.
\<close>

theorem quickAddMonth_stale_list_counterexample:
  "length (roster_schedules (supabase aprilSecondRun)) = 90
   \<and> map (\<lambda>r. (rs_profile_id r, rs_date r)) (roster_schedules (supabase aprilSecondRun)) ! 6
        = (''s1'', ''2025-04-06'')
   \<and> map (\<lambda>r. (rs_profile_id r, rs_date r))
          (roster_schedules (supabase (quickAddMonth (toISODate 330) 2000 allWritten aprilSecondRun)))
        = map (\<lambda>r. (rs_profile_id r, rs_date r)) (roster_schedules (supabase aprilSecondRun))
          @ map (\<lambda>r. (rs_profile_id r, rs_date r)) (roster_schedules (supabase aprilSecondRun))"
proof -
  let ?iso = "toISODate 330"
  let ?key = "\<lambda>r. (rs_profile_id r, rs_date r)"
  let ?rows1 = "roster_schedules (supabase (quickAddMonth ?iso 1000 allWritten aprilIST))"
  have w: "w_schedule allWritten = Done" by (simp add: allWritten_def)
  have st: "schedules aprilSecondRun = schedules aprilIST" "staffProfiles aprilSecondRun = staffProfiles aprilIST"
    "currentDate aprilSecondRun = currentDate aprilIST" "roster_schedules (supabase aprilSecondRun) = ?rows1"
    "user aprilSecondRun = user aprilIST"
    by (simp_all add: aprilSecondRun_def)
  have adm: "isAdmin aprilSecondRun"
    using isAdmin_aprilIST unfolding isAdmin_def isSuperAdmin_def getCurrentUserStaffProfile_def
    by (simp only: st(2,5))
  obtain added1 where store1: "?rows1 = roster_schedules (supabase aprilIST) @ added1"
    and rows1: "map withoutId added1 = schedulesToCreate ?iso 1000 aprilIST"
    using quickAddMonth_added [of ?iso 1000 allWritten aprilIST] isAdmin_aprilIST w by auto
  obtain added2 where store2:
    "roster_schedules (supabase (quickAddMonth ?iso 2000 allWritten aprilSecondRun)) = ?rows1 @ added2"
    and rows2: "map withoutId added2 = schedulesToCreate ?iso 2000 aprilSecondRun"
    using quickAddMonth_added [of ?iso 2000 allWritten aprilSecondRun] st(4) adm w by auto
  have e1: "?rows1 = added1" using store1 by (simp add: aprilIST_loaded)
  have "map ?key added2 = map ?key (map withoutId added2)" by (simp only: withoutId_pairs)
  also have "\<dots> = map ?key (schedulesToCreate ?iso 1000 aprilIST)"
    unfolding rows2 using st(1,2,3) by (rule schedulesToCreate_keys)
  also have "\<dots> = map ?key added1"
    unfolding rows1 [symmetric] by (simp only: withoutId_pairs)
  finally have k: "map ?key added2 = map ?key ?rows1" by (simp only: e1)
  have first: "map (\<lambda>r. (rs_date r, rs_shift_code r)) ?rows1 ! 6 = (''2025-04-06'', ''RD'')"
    "map rs_profile_id ?rows1 ! 6 = ''s1''" "length (map rs_profile_id ?rows1) = 90"
    using quickAddMonth_rows_IST by (simp_all add: nth_append numeral_3_eq_3)
  have l: "length ?rows1 = 90" using first(3) by simp
  have "map ?key ?rows1 ! 6 = (map rs_profile_id ?rows1 ! 6,
      fst (map (\<lambda>r. (rs_date r, rs_shift_code r)) ?rows1 ! 6))"
    using l by simp
  then have six: "map ?key ?rows1 ! 6 = (''s1'', ''2025-04-06'')"
    by (simp only: first fst_conv)
  show ?thesis
    unfolding st(4) store2 using l six k by simp
qed

text \<open>
  C3 (as amended): whatever the outcome of \<open>quickAddMonth\<close>, the rows of the schedule store
  before it are still there, unchanged and in the same order, and the operation has only
  appended rows; no appended row has a (staff profile, date) pair that the loaded list of
  the render holds. When the loaded list covers the store on the displayed month, no
  appended row has a pair that the store already held. The list covers the store after every
  \<open>loadData\<close>, whatever its requests returned, as long as the date strings of the days of the
  month lie between those of its first and last day.
\<close>

theorem quickAddMonth_inserts_only:
  "(\<exists>added.
      roster_schedules (supabase (quickAddMonth isoDate now w st)) = roster_schedules (supabase st) @ added
    \<and> (\<forall>r \<in> set added. \<not> hasRow (schedules st) (rs_profile_id r) (rs_date r))
    \<and> (monthLoaded isoDate st \<longrightarrow>
         (\<forall>r \<in> set added. \<not> hasRow (roster_schedules (supabase st)) (rs_profile_id r) (rs_date r))))
   \<and> ((\<forall>d \<in> set (getDaysInMonth st).
           isoDate (startOfMonth st) \<le> isoDate d \<and> isoDate d \<le> isoDate (endOfMonth st)) \<longrightarrow>
        (\<exists>added.
           roster_schedules (supabase (quickAddMonth isoDate now w (loadData isoDate q st)))
             = roster_schedules (supabase st) @ added
         \<and> (\<forall>r \<in> set added. \<not> hasRow (roster_schedules (supabase st)) (rs_profile_id r) (rs_date r))))"
proof (intro conjI impI)
  show "\<exists>added.
      roster_schedules (supabase (quickAddMonth isoDate now w st)) = roster_schedules (supabase st) @ added
    \<and> (\<forall>r \<in> set added. \<not> hasRow (schedules st) (rs_profile_id r) (rs_date r))
    \<and> (monthLoaded isoDate st \<longrightarrow>
         (\<forall>r \<in> set added. \<not> hasRow (roster_schedules (supabase st)) (rs_profile_id r) (rs_date r)))"
    by (rule quickAddMonth_appends)
next
  assume "\<forall>d \<in> set (getDaysInMonth st).
           isoDate (startOfMonth st) \<le> isoDate d \<and> isoDate d \<le> isoDate (endOfMonth st)"
  then have "monthLoaded isoDate (loadData isoDate q st)" by (rule loadData_monthLoaded)
  then show "\<exists>added.
           roster_schedules (supabase (quickAddMonth isoDate now w (loadData isoDate q st)))
             = roster_schedules (supabase st) @ added
         \<and> (\<forall>r \<in> set added. \<not> hasRow (roster_schedules (supabase st)) (rs_profile_id r) (rs_date r))"
    using quickAddMonth_appends [of isoDate now w "loadData isoDate q st"]
    by (auto simp add: supabase_loadData)
qed

lemma monthLoaded_aprilWithLeave: "monthLoaded isoDateUTC aprilWithLeave"
  unfolding monthLoaded_def by (simp add: aprilWithLeave_loaded)

theorem quickAddMonth_inserts_only_witness:
  "monthLoaded isoDateUTC aprilWithLeave
   \<and> roster_schedules (supabase aprilWithLeave) = [leaveRow]
   \<and> hd (roster_schedules (supabase (quickAddMonth isoDateUTC 2000 allWritten aprilWithLeave))) = leaveRow
   \<and> \<not> hasRow (tl (roster_schedules (supabase (quickAddMonth isoDateUTC 2000 allWritten aprilWithLeave))))
          ''s1'' ''2025-04-07''"
proof -
  obtain added where
    store: "roster_schedules (supabase (quickAddMonth isoDateUTC 2000 allWritten aprilWithLeave))
              = roster_schedules (supabase aprilWithLeave) @ added"
    and new: "\<forall>r \<in> set added. \<not> hasRow (roster_schedules (supabase aprilWithLeave)) (rs_profile_id r) (rs_date r)"
    using quickAddMonth_inserts_only [where isoDate = isoDateUTC and now = 2000 and w = allWritten
        and st = aprilWithLeave, THEN conjunct1]
      monthLoaded_aprilWithLeave by blast
  have "\<not> hasRow added ''s1'' ''2025-04-07''"
  proof
    assume "hasRow added ''s1'' ''2025-04-07''"
    then obtain r where "r \<in> set added" "rs_profile_id r = ''s1''" "rs_date r = ''2025-04-07''"
      by (auto simp add: hasRow_def)
    with new show False by (auto simp add: aprilWithLeave_loaded hasRow_def leaveRow_def)
  qed
  then show ?thesis
    using store monthLoaded_aprilWithLeave by (simp add: aprilWithLeave_loaded)
qed

section \<open>Properties of the version ledger\<close>

lemma fold_max_ge: "(a::nat) \<le> fold max xs a"
proof (induction xs arbitrary: a)
  case Nil
  then show ?case by simp
next
  case (Cons x xs)
  have "a \<le> max x a" by simp
  also have "\<dots> \<le> fold max xs (max x a)" by (rule Cons.IH)
  finally show ?case by simp
qed

lemma fold_max_mem: "(x::nat) \<in> set xs \<Longrightarrow> x \<le> fold max xs a"
proof (induction xs arbitrary: a)
  case Nil
  then show ?case by simp
next
  case (Cons y ys)
  show ?case
  proof (cases "x = y")
    case True
    have "x \<le> max y a" using True by simp
    also have "\<dots> \<le> fold max ys (max y a)" by (rule fold_max_ge)
    finally show ?thesis by simp
  next
    case False
    then show ?thesis using Cons by simp
  qed
qed

lemma freshId_new: "Some (freshId ids) \<notin> set ids"
proof
  assume "Some (freshId ids) \<in> set ids"
  then have "freshId ids \<in> set (map (\<lambda>i. case i of None \<Rightarrow> 0 | Some k \<Rightarrow> k) ids)"
    by force
  then have "freshId ids \<le> fold max (map (\<lambda>i. case i of None \<Rightarrow> 0 | Some k \<Rightarrow> k) ids) 0"
    by (rule fold_max_mem)
  then show False by (simp add: freshId_def)
qed


lemma filter_singleton_mem:
  assumes "filter P xs = [c]" "x \<in> set xs" "P x"
  shows "x = c"
proof -
  have "x \<in> set (filter P xs)" using assms(2,3) by simp
  then show ?thesis by (simp only: assms(1)) simp
qed

lemma filter_singleton_holds:
  assumes "filter P xs = [c]"
  shows "c \<in> set xs \<and> P c"
proof -
  have "c \<in> set (filter P xs)" by (simp only: assms) simp
  then show ?thesis by simp
qed

lemma load_currentVersion_allLoaded:
  "currentVersion (fst (load_currentVersion allLoaded st)) =
     (case activeInScope st (supabase st) of [v] \<Rightarrow> Some v | _ \<Rightarrow> None)"
  by (simp add: load_currentVersion_def allLoaded_def activeInScope_def)

lemma created_by_acting_user:
  "getCurrentUserStaffProfile st = Some p \<Longrightarrow> sp_user_id p = user st"
  by (auto simp add: getCurrentUserStaffProfile_def find_Some_iff split: option.splits)

lemma distinct_key_eq:
  assumes "distinct (map f xs)" "x \<in> set xs" "y \<in> set xs" "f x = f y"
  shows "x = y"
  using assms by (meson distinct_map inj_on_def)

lemma deactivate_keyed:
  assumes "versionsKeyed d" "cv \<in> set (roster_versions d)"
  shows "roster_versions (deactivateVersionById (rv_id cv) d) =
           map (\<lambda>v. if v = cv then v\<lparr>rv_is_active := False\<rparr> else v) (roster_versions d)"
proof -
  have k: "rv_id cv \<noteq> None"
    using assms by (auto simp add: versionsKeyed_def list_all_iff)
  have "\<forall>v \<in> set (roster_versions d). (rv_id v = rv_id cv) = (v = cv)"
    using assms distinct_key_eq [of rv_id "roster_versions d"]
    by (auto simp add: versionsKeyed_def)
  then show ?thesis using k by (simp add: deactivateVersionById_def)
qed

text \<open>
  The record-edit transition when the store carries out both writes: if the current version
  is the one \<open>loadData\<close> fetches from the present store, and the scope holds at most one
  active row before, then the deactivating step leaves no active row in the (month, year)
  scope, the insertion appends exactly one row, active, with the edit description, the next
  version number and the acting user, every other row is as before, and afterwards exactly
  one row of the scope is active.
\<close>

lemma createNewVersion_one_active:
  assumes "w_deactivate w = Done" and "w_version w = Done"
    and "currentVersion st = currentVersion (fst (load_currentVersion allLoaded st))"
    and "length (activeInScope st (supabase st)) \<le> 1"
    and "versionsKeyed (supabase st)"
  shows "activeInScope st (supabase (fst (deactivateCurrent w st))) = []
    \<and> (\<exists>new.
         roster_versions (supabase (createNewVersion now w editLog st)) =
           map (\<lambda>v. if Some v = currentVersion st then v\<lparr>rv_is_active := False\<rparr> else v)
             (roster_versions (supabase st)) @ [new]
       \<and> rv_is_active new \<and> rv_edit_log new = Some editLog
       \<and> rv_version_number new = getNextVersionNumber st
       \<and> rv_month new = jd_month (currentDate st) + 1 \<and> rv_year new = jd_year (currentDate st)
       \<and> rv_created_by new = (if getCurrentUserStaffProfile st = None then None else user st)
       \<and> activeInScope st (supabase (createNewVersion now w editLog st)) = [new])
    \<and> console_error (createNewVersion now w editLog st) = console_error st
    \<and> versionsKeyed (supabase (createNewVersion now w editLog st))"
proof -
  let ?P = "\<lambda>v. rv_month v = jd_month (currentDate st) + 1 \<and> rv_year v = jd_year (currentDate st)
                 \<and> rv_is_active v"
  let ?old = "roster_versions (supabase st)"
  let ?flip = "\<lambda>v. if Some v = currentVersion st then v\<lparr>rv_is_active := False\<rparr> else v"
  have cur: "currentVersion st = (case filter ?P ?old of [v] \<Rightarrow> Some v | _ \<Rightarrow> None)"
    using assms(3) by (simp add: load_currentVersion_allLoaded activeInScope_def)
  have le1: "length (filter ?P ?old) \<le> 1" using assms(4) by (simp add: activeInScope_def)
  \<comment> \<open>the table after the deactivating step\<close>
  have step1: "roster_versions (supabase (fst (deactivateCurrent w st))) = map ?flip ?old
      \<and> filter ?P (map ?flip ?old) = []
      \<and> snd (deactivateCurrent w st) = None
      \<and> console_error (fst (deactivateCurrent w st)) = console_error st"
  proof (cases "filter ?P ?old")
    case Nil
    then have none: "currentVersion st = None" using cur by simp
    have "filter ?P (map ?flip ?old) = filter ?P ?old" by (simp add: none)
    then show ?thesis using none Nil by (simp add: deactivateCurrent_def)
  next
    case (Cons c cs)
    then have cs: "cs = []" using le1 by simp
    have f: "filter ?P ?old = [c]" using Cons cs by simp
    have some: "currentVersion st = Some c" using cur f by simp
    have c: "c \<in> set ?old" using filter_singleton_holds [OF f] by simp
    have only: "\<forall>v \<in> set ?old. ?P v \<longrightarrow> v = c"
      using filter_singleton_mem [OF f] by blast
    have "filter ?P (map ?flip ?old) = []"
      using only by (auto simp add: some filter_empty_conv)
    moreover have "roster_versions (deactivateVersionById (rv_id c) (supabase st)) = map ?flip ?old"
      using deactivate_keyed [OF assms(5) c] by (simp add: some eq_commute)
    ultimately show ?thesis using some assms(1) by (simp add: deactivateCurrent_def)
  qed
  obtain s1 where s1: "deactivateCurrent w st = (s1, None)"
    and t1: "roster_versions (supabase s1) = map ?flip ?old"
    and c1: "console_error s1 = console_error st"
    using step1 by (cases "deactivateCurrent w st") auto
  let ?new = "(versionData editLog st)\<lparr>rv_id := Some (freshId (map rv_id (map ?flip ?old))),
                 rv_created_at := Some now\<rparr>"
  have res: "createNewVersion now w editLog st =
      s1\<lparr>supabase := insertVersion now (versionData editLog st) (supabase s1)\<rparr>"
    using s1 assms(2)
    by (simp add: createNewVersion_def createNewVersion_try_def andThen_def insertNewVersion_def)
  have table: "roster_versions (supabase (createNewVersion now w editLog st)) = map ?flip ?old @ [?new]"
    by (simp add: res insertVersion_def t1)
  have by_user: "rv_created_by ?new = (if getCurrentUserStaffProfile st = None then None else user st)"
    using created_by_acting_user [of st]
    by (cases "getCurrentUserStaffProfile st") (simp_all add: versionData_def)
  have active: "filter ?P (map ?flip ?old @ [?new]) = [?new]"
    using step1 by (simp add: versionData_def)
  have ids: "map rv_id (map ?flip ?old) = map rv_id ?old"
    by (induction ?old) simp_all
  have keyed: "versionsKeyed (supabase (createNewVersion now w editLog st))"
  proof -
    have "Some (freshId (map rv_id ?old)) \<notin> set (map rv_id ?old)" by (rule freshId_new)
    then have "distinct (map rv_id (map ?flip ?old @ [?new]))"
      using assms(5) by (simp add: ids versionsKeyed_def del: map_map)
    moreover have "list_all (\<lambda>v. rv_id v \<noteq> None) (map ?flip ?old @ [?new])"
      using assms(5) by (auto simp add: versionsKeyed_def list_all_iff)
    ultimately show ?thesis by (simp only: versionsKeyed_def table)
  qed
  have "activeInScope st (supabase (fst (deactivateCurrent w st))) = []"
    using step1 by (simp add: activeInScope_def)
  moreover have "activeInScope st (supabase (createNewVersion now w editLog st)) = [?new]"
    using active by (simp only: activeInScope_def table)
  moreover have "console_error (createNewVersion now w editLog st) = console_error st"
    by (simp add: res c1)
  moreover have "rv_is_active ?new \<and> rv_edit_log ?new = Some editLog
       \<and> rv_version_number ?new = getNextVersionNumber st
       \<and> rv_month ?new = jd_month (currentDate st) + 1 \<and> rv_year ?new = jd_year (currentDate st)"
    by (simp add: versionData_def)
  ultimately show ?thesis using table by_user keyed by blast
qed


lemma aprilWithLedger_loaded:
  "currentVersion aprilWithLedger = Some version01"
  "roster_versions (supabase aprilWithLedger) = [version01]"
  "currentDate aprilWithLedger = april2025"
  by (simp_all add: aprilWithLedger_def ledgerTables_def version01_def load_eval)

lemma createNewVersion_one_active_example:
  "w_deactivate allWritten = Done \<and> w_version allWritten = Done
   \<and> currentVersion aprilWithLedger = currentVersion (fst (load_currentVersion allLoaded aprilWithLedger))
   \<and> length (activeInScope aprilWithLedger (supabase aprilWithLedger)) \<le> 1
   \<and> versionsKeyed (supabase aprilWithLedger)
   \<and> map rv_is_active (roster_versions (supabase
          (createNewVersion 2000 allWritten ''Updated shift'' aprilWithLedger))) = [False, True]
   \<and> length (activeInScope aprilWithLedger (supabase
          (createNewVersion 2000 allWritten ''Updated shift'' aprilWithLedger))) = 1"
proof -
  have w: "w_deactivate allWritten = Done" "w_version allWritten = Done"
    by (simp_all add: allWritten_def)
  have a: "activeInScope aprilWithLedger (supabase aprilWithLedger) = [version01]"
    by (simp add: activeInScope_def aprilWithLedger_loaded) (simp add: version01_def april2025_def)
  have c: "currentVersion aprilWithLedger = currentVersion (fst (load_currentVersion allLoaded aprilWithLedger))"
    by (simp add: load_currentVersion_allLoaded a aprilWithLedger_loaded)
  have l: "length (activeInScope aprilWithLedger (supabase aprilWithLedger)) \<le> 1"
    by (simp add: a)
  have k: "versionsKeyed (supabase aprilWithLedger)"
    by (simp add: versionsKeyed_def aprilWithLedger_loaded) (simp add: version01_def)
  from createNewVersion_one_active [OF w c l k, of 2000 "''Updated shift''"]
  obtain new where
    t: "roster_versions (supabase (createNewVersion 2000 allWritten ''Updated shift'' aprilWithLedger)) =
           map (\<lambda>v. if Some v = currentVersion aprilWithLedger then v\<lparr>rv_is_active := False\<rparr> else v)
             (roster_versions (supabase aprilWithLedger)) @ [new]"
    and n: "rv_is_active new"
    and o: "activeInScope aprilWithLedger (supabase
          (createNewVersion 2000 allWritten ''Updated shift'' aprilWithLedger)) = [new]"
    by blast
  have "map rv_is_active (roster_versions (supabase
          (createNewVersion 2000 allWritten ''Updated shift'' aprilWithLedger))) = [False, True]"
    by (simp add: t n aprilWithLedger_loaded)
  then show ?thesis using w c l k o by simp
qed

lemma createNewVersion_update_failed:
  assumes "w_deactivate w = Failed e" "w_version w = Done"
  shows "createNewVersion now w editLog st =
           st\<lparr>supabase := insertVersion now (versionData editLog st) (supabase st)\<rparr>"
  using assms
  by (cases "currentVersion st")
     (simp_all add: createNewVersion_def createNewVersion_try_def andThen_def deactivateCurrent_def
       insertNewVersion_def)

lemma createNewVersion_update_rejected:
  assumes "w_deactivate w = Rejected e" "currentVersion st = Some cv"
  shows "createNewVersion now w editLog st = consoleError (''Error creating version: '' @ errorMessage e) st"
  using assms
  by (simp add: createNewVersion_def createNewVersion_try_def andThen_def deactivateCurrent_def)

lemma aprilWithLedger_state:
  "versions aprilWithLedger = [version01]"
  "console_error aprilWithLedger = []"
  "user aprilWithLedger = Some ''u-s1''"
  "staffProfiles aprilWithLedger = threeStaff"
  "schedules aprilWithLedger = []"
  by (simp_all add: aprilWithLedger_def ledgerTables_def version01_def load_eval)

lemma next_after_version01: "getNextVersionNumber aprilWithLedger = ''v.02''"
proof -
  have "rv_version_number version01 = formatVersion 1"
    by (simp add: version01_def formatVersion_Suc_0)
  from next_version [OF aprilWithLedger_state(1) this]
  have "getNextVersionNumber aprilWithLedger = formatVersion (1 + 1)" by simp
  then show ?thesis by (simp only: one_add_one formatVersion_examples)
qed

lemma versionData_aprilWithLedger:
  "versionData editLog aprilWithLedger =
     \<lparr>rv_id = None, rv_month = 4, rv_year = 2025, rv_version_number = ''v.02'',
      rv_created_by = Some ''u-s1'', rv_created_at = None, rv_edit_log = Some editLog,
      rv_is_active = True\<rparr>"
  by (simp add: versionData_def next_after_version01 aprilWithLedger_loaded aprilWithLedger_state
      getCurrentUserStaffProfile_def april2025_def threeStaff_def staffMember_def)

lemma two_active_rows:
  "roster_versions (supabase (createNewVersion 2000 updateRefused editLog aprilWithLedger)) =
     [version01,
      \<lparr>rv_id = Some 2, rv_month = 4, rv_year = 2025, rv_version_number = ''v.02'',
       rv_created_by = Some ''u-s1'', rv_created_at = Some 2000, rv_edit_log = Some editLog,
       rv_is_active = True\<rparr>]"
proof -
  have w: "w_deactivate updateRefused = Failed (ErrorObject ''permission denied for table roster_versions'')"
    "w_version updateRefused = Done"
    by (simp_all add: updateRefused_def allWritten_def)
  show ?thesis
    unfolding createNewVersion_update_failed [OF w]
    by (simp add: insertVersion_def versionData_aprilWithLedger aprilWithLedger_loaded freshId_def)
       (simp add: version01_def)
qed

text \<open>
  C5 (the code diverges): the result of the deactivating update is never inspected. When the
  store answers that update with an error, nothing is thrown: the transition runs to its end
  without interruption, the version that was active keeps its flag, and the new row is
  inserted as active beside it. Starting from the loaded ledger of April 2025 with its one
  active version "v.01", the scope then holds two active rows, "v.01" and "v.02".
\<close>

theorem createNewVersion_leaves_two_active:
  "currentVersion aprilWithLedger = Some version01
   \<and> activeInScope aprilWithLedger (supabase aprilWithLedger) = [version01]
   \<and> versionsKeyed (supabase aprilWithLedger)
   \<and> snd (createNewVersion_try 2000 updateRefused ''Updated shift for Binu on 2025-04-09'' aprilWithLedger) = None
   \<and> map (\<lambda>v. (rv_version_number v, rv_is_active v))
        (activeInScope aprilWithLedger
           (supabase (createNewVersion 2000 updateRefused ''Updated shift for Binu on 2025-04-09'' aprilWithLedger)))
       = [(''v.01'', True), (''v.02'', True)]"
proof -
  have a: "activeInScope aprilWithLedger (supabase aprilWithLedger) = [version01]"
    by (simp add: activeInScope_def aprilWithLedger_loaded) (simp add: version01_def april2025_def)
  have k: "versionsKeyed (supabase aprilWithLedger)"
    by (simp add: versionsKeyed_def aprilWithLedger_loaded) (simp add: version01_def)
  have n: "snd (createNewVersion_try 2000 updateRefused ''Updated shift for Binu on 2025-04-09'' aprilWithLedger) = None"
    by (simp add: createNewVersion_try_def andThen_def deactivateCurrent_def insertNewVersion_def
        aprilWithLedger_loaded updateRefused_def allWritten_def)
  have t: "map (\<lambda>v. (rv_version_number v, rv_is_active v))
        (activeInScope aprilWithLedger
           (supabase (createNewVersion 2000 updateRefused ''Updated shift for Binu on 2025-04-09'' aprilWithLedger)))
       = [(''v.01'', True), (''v.02'', True)]"
    unfolding activeInScope_def two_active_rows
    by (simp add: aprilWithLedger_loaded april2025_def version01_def)
  show ?thesis using aprilWithLedger_loaded(1) a k n t by (intro conjI)
qed


section \<open>Failures of the version ledger and the callers\<close>

lemma andThen_snd_None: "snd r = None \<Longrightarrow> andThen r g = g (fst r)"
  by (cases r) (simp add: andThen_def)

lemma writeSchedule_Done:
  assumes "w_schedule w = Done"
  shows "snd (writeSchedule now w label f ex st) = None"
    and "roster_versions (supabase (fst (writeSchedule now w label f ex st))) = roster_versions (supabase st)"
    and "console_error (fst (writeSchedule now w label f ex st)) = console_error st"
  using assms
  by (simp_all add: writeSchedule_def insertSchedules_def updateScheduleById_def Let_def
      split: option.splits)

lemma notification_show: "notification (showNotification t m s) = Some (t, m)"
  by (simp add: showNotification_def)

lemma supabase_show: "supabase (showNotification t m s) = supabase s"
  by (simp add: showNotification_def)

lemma saveShift_try_Done:
  assumes "w_schedule w = Done"
  shows "saveShift_try isoDate now w shiftCode overtimeHours profileId date st =
     (showNotification ''success'' ''Shift updated successfully!''
        (loadData isoDate (w_load w)
           ((createNewVersion now w
               (''Updated shift for '' @ getStaffName st profileId @ '' on '' @ date)
               (fst (writeSchedule now w ''error''
                  (\<lambda>r. r\<lparr>rs_profile_id := profileId, rs_date := date,
                                rs_shift_code := shiftCode, rs_overtime_hours := Some overtimeHours,
                                rs_status := ''confirmed'', rs_updated_at := Some now\<rparr>)
                  (find (\<lambda>s. rs_profile_id s = profileId \<and> rs_date s = date) (schedules st)) st)))
            \<lparr>showEditModal := False, selectedEdit := None\<rparr>)), None)"
  unfolding saveShift_try_def Let_def
  by (subst andThen_snd_None) (simp_all add: writeSchedule_Done(1) [OF assms])

lemma saveShift_success:
  assumes "w_schedule w = Done" "selectedEdit st = Some (profileId, date)" "user st \<noteq> None" "isAdmin st"
  shows "notification (saveShift isoDate now w shiftCode overtimeHours st)
           = Some (''success'', ''Shift updated successfully!'')"
  using assms by (simp add: saveShift_def saveShift_try_Done notification_show)

lemma applyApprovedRequest_Done:
  assumes "w_schedule w = Done"
  shows "snd (applyApprovedRequest now w request st) = None"
proof -
  have "snd (applyApprovedRequest_try now w request st) = None"
    unfolding applyApprovedRequest_try_def Let_def
    by (subst andThen_snd_None) (simp_all add: writeSchedule_Done(1) [OF assms])
  then show ?thesis
    by (cases "applyApprovedRequest_try now w request st") (simp add: applyApprovedRequest_def)
qed

lemma approveRequest_success:
  assumes "w_schedule w = Done" "w_request w = Done" "isSuperAdmin st"
  shows "notification (approveRequest isoDate now w requestId approved st)
           = Some (''success'', ''Request '' @ (if approved then ''approved'' else ''rejected'') @ '' successfully'')"
proof -
  have u: "snd (updateRequest now w requestId approved st) = None"
    using assms(2) by (simp add: updateRequest_def)
  have "snd (andThen (updateRequest now w requestId approved st)
          (\<lambda>st1. case selectedRequest st of
                    Some request \<Rightarrow> (if approved then applyApprovedRequest now w request st1 else (st1, None))
                  | None \<Rightarrow> (st1, None))) = None"
    by (subst andThen_snd_None [OF u])
       (simp add: applyApprovedRequest_Done [OF assms(1)] split: option.splits)
  then have "\<exists>s. approveRequest_try isoDate now w requestId approved st =
      (showNotification ''success''
                (''Request '' @ (if approved then ''approved'' else ''rejected'') @ '' successfully'') s, None)"
    unfolding approveRequest_try_def Let_def
    by (subst andThen_snd_None) auto
  then show ?thesis
    using assms(3) by (auto simp add: approveRequest_def notification_show)
qed

lemma quickAddMonth_success:
  assumes "w_schedule w = Done" "isAdmin st" "schedulesToCreate isoDate now st \<noteq> []"
  shows "notification (quickAddMonth isoDate now w st)
           = Some (''success'', ''Generated '' @ numberToString (int (length (schedulesToCreate isoDate now st)))
                     @ '' roster entries successfully!'')"
  using assms by (simp add: quickAddMonth_def Let_def notification_show)

lemma deactivateCurrent_frame:
  "length (roster_versions (supabase (fst (deactivateCurrent w st)))) = length (roster_versions (supabase st))"
  "console_error (fst (deactivateCurrent w st)) = console_error st"
  by (simp_all add: deactivateCurrent_def deactivateVersionById_def split: option.splits remote.splits)

lemma createNewVersion_insert_failed:
  assumes "w_version w \<noteq> Done"
  shows "length (roster_versions (supabase (createNewVersion now w editLog st)))
           = length (roster_versions (supabase st))
       \<and> (\<exists>e. console_error (createNewVersion now w editLog st)
                 = console_error st @ [''Error creating version: '' @ errorMessage e])"
proof -
  obtain s1 e1 where d: "deactivateCurrent w st = (s1, e1)" by (cases "deactivateCurrent w st")
  have f: "length (roster_versions (supabase s1)) = length (roster_versions (supabase st))"
    "console_error s1 = console_error st"
    using deactivateCurrent_frame [of w st] d by simp_all
  show ?thesis
  proof (cases e1)
    case (Some e)
    then show ?thesis
      using d f by (auto simp add: createNewVersion_def createNewVersion_try_def andThen_def consoleError_def)
  next
    case None
    then show ?thesis
      using d f assms
      by (cases "w_version w")
         (auto simp add: createNewVersion_def createNewVersion_try_def andThen_def
           insertNewVersion_def consoleError_def)
  qed
qed


lemma saveShift_versions:
  assumes "w_schedule w = Done" "selectedEdit st = Some (profileId, date)" "user st \<noteq> None" "isAdmin st"
    "w_version w \<noteq> Done"
  shows "length (roster_versions (supabase (saveShift isoDate now w shiftCode overtimeHours st)))
           = length (roster_versions (supabase st))"
  using assms createNewVersion_insert_failed [OF assms(5)]
  by (simp add: saveShift_def saveShift_try_Done supabase_show supabase_loadData
      writeSchedule_Done(2))

lemma applyApprovedRequest_versions:
  assumes "w_schedule w = Done" "w_version w \<noteq> Done"
  shows "length (roster_versions (supabase (fst (applyApprovedRequest now w request st))))
           = length (roster_versions (supabase st))"
proof -
  let ?f = "\<lambda>r. r\<lparr>rs_profile_id := lr_user_id request,
                                rs_date := lr_requested_date request,
                                rs_shift_code := (if lr_request_type request = ''half_day'' then ''HD'' else ''L''),
                                rs_status := ''confirmed'', rs_updated_at := Some now\<rparr>"
  let ?ex = "find (\<lambda>s. rs_profile_id s = lr_user_id request
                                \<and> rs_date s = lr_requested_date request) (schedules st)"
  have t: "applyApprovedRequest_try now w request st =
      (createNewVersion now w
                      (''Applied approved '' @ lr_request_type request @ '' request for ''
                       @ getStaffName st (lr_user_id request))
         (fst (writeSchedule now w ''schedule error'' ?f ?ex st)), None)"
    unfolding applyApprovedRequest_try_def Let_def
    by (subst andThen_snd_None) (simp_all add: writeSchedule_Done(1) [OF assms(1)])
  show ?thesis
    using createNewVersion_insert_failed [OF assms(2)] writeSchedule_Done(2) [OF assms(1)]
    by (simp add: applyApprovedRequest_def t)
qed

lemma quickAddMonth_versions:
  assumes "w_version w \<noteq> Done"
  shows "length (roster_versions (supabase (quickAddMonth isoDate now w st)))
           = length (roster_versions (supabase st))"
  using createNewVersion_insert_failed [OF assms]
  by (cases "w_schedule w")
     (simp_all add: quickAddMonth_def Let_def supabase_show supabase_loadData quickAdd_catch_def
       consoleError_def insertSchedules_def)

text \<open>
  \<open>createNewVersion\<close> hands no failure to its caller. Whatever the two writes to the
  version ledger and the reload return, once the schedule write has succeeded \<open>saveShift\<close>
  and \<open>quickAddMonth\<close> end with their success notification, \<open>applyApprovedRequest\<close> returns
  without an exception and \<open>approveRequest\<close> ends with its success notification; when the
  insertion of the version row fails, the ledger holds no new row and the error is only
  written to the console.
\<close>

lemma version_failure_not_propagated:
  assumes "w_schedule w = Done"
  shows
    "(selectedEdit st = Some (profileId, date) \<and> user st \<noteq> None \<and> isAdmin st \<longrightarrow>
        notification (saveShift isoDate now w shiftCode overtimeHours st)
          = Some (''success'', ''Shift updated successfully!'')
      \<and> (w_version w \<noteq> Done \<longrightarrow>
           length (roster_versions (supabase (saveShift isoDate now w shiftCode overtimeHours st)))
             = length (roster_versions (supabase st))))
   \<and> snd (applyApprovedRequest now w request st) = None
   \<and> (w_version w \<noteq> Done \<longrightarrow>
        length (roster_versions (supabase (fst (applyApprovedRequest now w request st))))
          = length (roster_versions (supabase st)))
   \<and> (isSuperAdmin st \<and> w_request w = Done \<longrightarrow>
        notification (approveRequest isoDate now w requestId True st)
          = Some (''success'', ''Request approved successfully''))
   \<and> (isAdmin st \<and> schedulesToCreate isoDate now st \<noteq> [] \<longrightarrow>
        notification (quickAddMonth isoDate now w st)
          = Some (''success'',
                  ''Generated '' @ numberToString (int (length (schedulesToCreate isoDate now st)))
                  @ '' roster entries successfully!'')
      \<and> (w_version w \<noteq> Done \<longrightarrow>
           length (roster_versions (supabase (quickAddMonth isoDate now w st)))
             = length (roster_versions (supabase st))))
   \<and> (w_version w \<noteq> Done \<longrightarrow>
        length (roster_versions (supabase (createNewVersion now w editLog st)))
           = length (roster_versions (supabase st))
        \<and> (\<exists>e. console_error (createNewVersion now w editLog st)
                 = console_error st @ [''Error creating version: '' @ errorMessage e]))"
proof (intro conjI impI)
  assume "selectedEdit st = Some (profileId, date) \<and> user st \<noteq> None \<and> isAdmin st"
  then show "notification (saveShift isoDate now w shiftCode overtimeHours st)
          = Some (''success'', ''Shift updated successfully!'')"
    using saveShift_success [OF assms] by blast
next
  assume "selectedEdit st = Some (profileId, date) \<and> user st \<noteq> None \<and> isAdmin st"
    and "w_version w \<noteq> Done"
  then show "length (roster_versions (supabase (saveShift isoDate now w shiftCode overtimeHours st)))
             = length (roster_versions (supabase st))"
    using saveShift_versions [OF assms] by blast
next
  show "snd (applyApprovedRequest now w request st) = None"
    by (rule applyApprovedRequest_Done [OF assms])
next
  assume "w_version w \<noteq> Done"
  then show "length (roster_versions (supabase (fst (applyApprovedRequest now w request st))))
          = length (roster_versions (supabase st))"
    by (rule applyApprovedRequest_versions [OF assms])
next
  assume "isSuperAdmin st \<and> w_request w = Done"
  then show "notification (approveRequest isoDate now w requestId True st)
          = Some (''success'', ''Request approved successfully'')"
    using approveRequest_success [OF assms, of st isoDate now requestId True] by simp
next
  assume "isAdmin st \<and> schedulesToCreate isoDate now st \<noteq> []"
  then show "notification (quickAddMonth isoDate now w st)
          = Some (''success'',
                  ''Generated '' @ numberToString (int (length (schedulesToCreate isoDate now st)))
                  @ '' roster entries successfully!'')"
    using quickAddMonth_success [OF assms] by blast
next
  assume "w_version w \<noteq> Done"
  then show "length (roster_versions (supabase (quickAddMonth isoDate now w st)))
             = length (roster_versions (supabase st))"
    by (rule quickAddMonth_versions)
next
  assume "w_version w \<noteq> Done"
  then show "length (roster_versions (supabase (createNewVersion now w editLog st)))
           = length (roster_versions (supabase st))"
    using createNewVersion_insert_failed by blast
next
  assume "w_version w \<noteq> Done"
  then show "\<exists>e. console_error (createNewVersion now w editLog st)
                 = console_error st @ [''Error creating version: '' @ errorMessage e]"
    using createNewVersion_insert_failed by blast
qed


lemma superRoster_facts:
  "isAdmin superRoster" "isSuperAdmin superRoster" "user superRoster \<noteq> None"
  "selectedEdit superRoster = Some (''s2'', ''2025-04-09'')"
  "roster_versions (supabase superRoster) = []"
  "schedules superRoster = []" "length (staffProfiles superRoster) = 3"
  by (simp_all add: isAdmin_def isSuperAdmin_def getCurrentUserStaffProfile_def superRoster_def
      mountRoster_def staffMember_def noTables_def)

lemma superRoster_days: "length (getDaysInMonth superRoster) = 30"
  by (simp add: length_getDaysInMonth superRoster_def mountRoster_def april2025_def lastDayOfMonth_def
      newDate_def)

lemma superRoster_rows: "length (schedulesToCreate isoDate now superRoster) = 90"
proof -
  have "\<forall>s \<in> set (staffProfiles superRoster).
          length (expectedRows isoDate now [] (getDaysInMonth superRoster) s) = 30"
    by (simp add: expectedRows_empty superRoster_days)
  from length_concat_uniform [OF this] show ?thesis
    by (simp add: schedulesToCreate_eq superRoster_facts)
qed

lemma version_failure_not_propagated_example:
  "w_schedule ledgerDown = Done \<and> w_version ledgerDown \<noteq> Done
   \<and> notification (saveShift isoDateUTC 3000 ledgerDown ''D'' 0 superRoster)
       = Some (''success'', ''Shift updated successfully!'')
   \<and> roster_versions (supabase (saveShift isoDateUTC 3000 ledgerDown ''D'' 0 superRoster)) = []
   \<and> snd (applyApprovedRequest 3000 ledgerDown halfDayRequest superRoster) = None
   \<and> notification (approveRequest isoDateUTC 3000 ledgerDown 7 True superRoster)
       = Some (''success'', ''Request approved successfully'')
   \<and> notification (quickAddMonth isoDateUTC 3000 ledgerDown superRoster)
       = Some (''success'', ''Generated 90 roster entries successfully!'')"
proof -
  have w: "w_schedule ledgerDown = Done" "w_version ledgerDown \<noteq> Done" "w_request ledgerDown = Done"
    by (simp_all add: ledgerDown_def allWritten_def)
  have rows: "schedulesToCreate isoDateUTC 3000 superRoster \<noteq> []"
    using superRoster_rows [of isoDateUTC 3000] by auto
  have n90: "numberToString 90 = ''90''"
    by (simp add: numberToString_def natToString.simps digitChar_def)
  note t = version_failure_not_propagated [OF w(1), of superRoster "''s2''" "''2025-04-09''"
      isoDateUTC 3000 "''D''" 0 halfDayRequest 7 "''edit''"]
  have a: "notification (saveShift isoDateUTC 3000 ledgerDown ''D'' 0 superRoster)
       = Some (''success'', ''Shift updated successfully!'')"
    and b: "length (roster_versions (supabase (saveShift isoDateUTC 3000 ledgerDown ''D'' 0 superRoster)))
             = length (roster_versions (supabase superRoster))"
    using t w superRoster_facts by blast+
  have c: "snd (applyApprovedRequest 3000 ledgerDown halfDayRequest superRoster) = None"
    using t by blast
  have d: "notification (approveRequest isoDateUTC 3000 ledgerDown 7 True superRoster)
       = Some (''success'', ''Request approved successfully'')"
    using t w superRoster_facts by blast
  have e: "notification (quickAddMonth isoDateUTC 3000 ledgerDown superRoster)
          = Some (''success'',
                  ''Generated '' @ numberToString (int (length (schedulesToCreate isoDateUTC 3000 superRoster)))
                  @ '' roster entries successfully!'')"
    using t rows superRoster_facts by blast
  show ?thesis
    using a b c d e w by (simp add: superRoster_facts superRoster_rows n90)
qed

lemma console_loadData_allLoaded: "console_error (loadData isoDate allLoaded st) = console_error st"
  by (simp add: loadData_def loadData_try_def andThen_def load_session_def load_profiles_def
      load_schedules_def load_currentVersion_def load_versions_def load_overtime_def
      load_requests_def allLoaded_def split: option.splits)

lemma aprilEditing_facts:
  "isAdmin aprilEditing" "user aprilEditing \<noteq> None"
  "selectedEdit aprilEditing = Some (''s2'', ''2025-04-09'')"
  "currentVersion aprilEditing = Some version01"
  "console_error aprilEditing = []"
  "roster_versions (supabase aprilEditing) = [version01]"
  "getStaffName aprilEditing ''s2'' = ''Binu''"
  by (simp_all add: aprilEditing_def isAdmin_def isSuperAdmin_def getCurrentUserStaffProfile_def
      getStaffName_def aprilWithLedger_loaded aprilWithLedger_state threeStaff_def staffMember_def)

text \<open>
  C10 (the code diverges): an error that the store returns for the deactivating update is
  neither thrown nor caught nor logged. With the admin saving a shift on the loaded ledger of
  April 2025, \<open>createNewVersion\<close> writes no line to the console, inserts the new version
  beside the old one, both active, and \<open>saveShift\<close> reports success. A rejected update, by
  contrast, is caught: one line is logged and the ledger stays as it was.
\<close>

theorem returned_update_error_not_logged:
  "isAdmin aprilEditing \<and> currentVersion aprilEditing = Some version01 \<and> console_error aprilEditing = []
   \<and> roster_versions (supabase aprilEditing) = [version01]
   \<and> console_error (createNewVersion 2000 updateRefused ''Updated shift for Binu on 2025-04-09'' aprilEditing) = []
   \<and> map rv_is_active (roster_versions (supabase
          (createNewVersion 2000 updateRefused ''Updated shift for Binu on 2025-04-09'' aprilEditing)))
        = [True, True]
   \<and> console_error (createNewVersion 2000 updateRejected ''Updated shift for Binu on 2025-04-09'' aprilEditing)
        = [''Error creating version: Failed to fetch'']
   \<and> roster_versions (supabase
          (createNewVersion 2000 updateRejected ''Updated shift for Binu on 2025-04-09'' aprilEditing))
        = [version01]
   \<and> notification (saveShift isoDateUTC 2000 updateRefused ''D'' 0 aprilEditing)
        = Some (''success'', ''Shift updated successfully!'')
   \<and> console_error (saveShift isoDateUTC 2000 updateRefused ''D'' 0 aprilEditing) = []
   \<and> map rv_is_active (roster_versions (supabase (saveShift isoDateUTC 2000 updateRefused ''D'' 0 aprilEditing)))
        = [True, True]"
proof -
  let ?log = "''Updated shift for Binu on 2025-04-09''"
  have w: "w_deactivate updateRefused = Failed (ErrorObject ''permission denied for table roster_versions'')"
    "w_version updateRefused = Done" "w_schedule updateRefused = Done" "w_load updateRefused = allLoaded"
    by (simp_all add: updateRefused_def allWritten_def)
  have r: "w_deactivate updateRejected = Rejected (JsError ''Failed to fetch'')"
    by (simp add: updateRejected_def)
  have refused: "createNewVersion now updateRefused editLog st =
           st\<lparr>supabase := insertVersion now (versionData editLog st) (supabase st)\<rparr>" for now editLog st
    by (rule createNewVersion_update_failed [OF w(1,2)])
  have c1: "console_error (createNewVersion 2000 updateRefused ?log aprilEditing) = []"
    by (simp add: refused aprilEditing_facts)
  have t1: "map rv_is_active (roster_versions (supabase (createNewVersion 2000 updateRefused ?log aprilEditing)))
        = [True, True]"
    by (simp add: refused insertVersion_def aprilEditing_facts versionData_def) (simp add: version01_def)
  have rejected: "createNewVersion 2000 updateRejected ?log aprilEditing =
      consoleError (''Error creating version: '' @ errorMessage (JsError ''Failed to fetch'')) aprilEditing"
    by (rule createNewVersion_update_rejected [OF r aprilEditing_facts(4)])
  have c2: "console_error (createNewVersion 2000 updateRejected ?log aprilEditing)
        = [''Error creating version: Failed to fetch'']"
    by (simp add: rejected consoleError_def errorMessage_def aprilEditing_facts)
  have t2: "roster_versions (supabase (createNewVersion 2000 updateRejected ?log aprilEditing)) = [version01]"
    by (simp add: rejected consoleError_def aprilEditing_facts)
  have n: "notification (saveShift isoDateUTC 2000 updateRefused ''D'' 0 aprilEditing)
        = Some (''success'', ''Shift updated successfully!'')"
    using saveShift_success [OF w(3) aprilEditing_facts(3,2,1)] .
  let ?written = "fst (writeSchedule 2000 updateRefused ''error''
                  (\<lambda>r. r\<lparr>rs_profile_id := ''s2'', rs_date := ''2025-04-09'',
                                rs_shift_code := ''D'', rs_overtime_hours := Some 0,
                                rs_status := ''confirmed'', rs_updated_at := Some 2000\<rparr>)
                  (find (\<lambda>s. rs_profile_id s = ''s2'' \<and> rs_date s = ''2025-04-09'') (schedules aprilEditing))
                  aprilEditing)"
  have s: "saveShift isoDateUTC 2000 updateRefused ''D'' 0 aprilEditing =
      showNotification ''success'' ''Shift updated successfully!''
        (loadData isoDateUTC allLoaded
           ((createNewVersion 2000 updateRefused ?log ?written)\<lparr>showEditModal := False, selectedEdit := None\<rparr>))"
    using aprilEditing_facts(1,2)
    by (auto simp add: saveShift_def aprilEditing_facts(3) saveShift_try_Done [OF w(3)] w(4) aprilEditing_facts(7))
  have wr: "console_error ?written = []" "roster_versions (supabase ?written) = [version01]"
    using writeSchedule_Done(2,3) [OF w(3)] by (simp_all add: aprilEditing_facts)
  have c3: "console_error (saveShift isoDateUTC 2000 updateRefused ''D'' 0 aprilEditing) = []"
    unfolding s by (simp add: showNotification_def console_loadData_allLoaded refused wr)
  have t3: "map rv_is_active (roster_versions (supabase (saveShift isoDateUTC 2000 updateRefused ''D'' 0 aprilEditing)))
        = [True, True]"
    unfolding s
    by (simp add: supabase_show supabase_loadData refused insertVersion_def wr versionData_def)
       (simp add: version01_def)
  show ?thesis
    using aprilEditing_facts(1,4,5,6) c1 t1 c2 t2 n c3 t3 by (intro conjI)
qed

section \<open>Applying an approved request to the schedule store\<close>

lemma updateRequest_Done:
  assumes "w_request w = Done"
  shows "snd (updateRequest now w k approved st) = None"
    and "roster_schedules (supabase (fst (updateRequest now w k approved st))) = roster_schedules (supabase st)"
    and "schedules (fst (updateRequest now w k approved st)) = schedules st"
  using assms by (simp_all add: updateRequest_def updateRequestById_def)

lemma writeSchedule_store:
  assumes "w_schedule w = Done"
  shows "roster_schedules (supabase (fst (writeSchedule now w label f ex st))) =
     (case ex of
        Some e \<Rightarrow> roster_schedules (updateScheduleById (rs_id e) f (supabase st))
      | None \<Rightarrow> roster_schedules (insertSchedules [(f emptySchedule)\<lparr>rs_created_at := Some now\<rparr>] (supabase st)))"
  using assms by (simp add: writeSchedule_def split: option.splits)

lemma applyApprovedRequest_store:
  assumes "w_schedule w = Done"
  shows "roster_schedules (supabase (fst (applyApprovedRequest now w request st))) =
     roster_schedules (supabase (fst (writeSchedule now w ''schedule error''
        (\<lambda>r. r\<lparr>rs_profile_id := lr_user_id request,
                                rs_date := lr_requested_date request,
                                rs_shift_code := (if lr_request_type request = ''half_day'' then ''HD'' else ''L''),
                                rs_status := ''confirmed'', rs_updated_at := Some now\<rparr>)
        (find (\<lambda>s. rs_profile_id s = lr_user_id request
                                \<and> rs_date s = lr_requested_date request) (schedules st)) st)))"
proof -
  let ?f = "\<lambda>r. r\<lparr>rs_profile_id := lr_user_id request,
                                rs_date := lr_requested_date request,
                                rs_shift_code := (if lr_request_type request = ''half_day'' then ''HD'' else ''L''),
                                rs_status := ''confirmed'', rs_updated_at := Some now\<rparr>"
  let ?ex = "find (\<lambda>s. rs_profile_id s = lr_user_id request
                                \<and> rs_date s = lr_requested_date request) (schedules st)"
  have t: "applyApprovedRequest_try now w request st =
      (createNewVersion now w
                      (''Applied approved '' @ lr_request_type request @ '' request for ''
                       @ getStaffName st (lr_user_id request))
         (fst (writeSchedule now w ''schedule error'' ?f ?ex st)), None)"
    unfolding applyApprovedRequest_try_def Let_def
    by (subst andThen_snd_None) (simp_all add: writeSchedule_Done(1) [OF assms(1)])
  show ?thesis
    by (simp add: applyApprovedRequest_def t schedules_createNewVersion)
qed

lemma approveRequest_store:
  assumes "w_request w = Done" "w_schedule w = Done" "isSuperAdmin st" "selectedRequest st = Some request"
  shows "roster_schedules (supabase (approveRequest isoDate now w requestId True st)) =
     roster_schedules (supabase (fst (applyApprovedRequest now w request
        (fst (updateRequest now w requestId True st)))))"
proof -
  let ?s1 = "fst (updateRequest now w requestId True st)"
  have u: "snd (updateRequest now w requestId True st) = None"
    by (rule updateRequest_Done(1) [OF assms(1)])
  have a: "snd (applyApprovedRequest now w request ?s1) = None"
    by (rule applyApprovedRequest_Done [OF assms(2)])
  have "approveRequest_try isoDate now w requestId True st =
      (showNotification ''success'' (''Request '' @ ''approved'' @ '' successfully'')
         (loadData isoDate (w_load w)
            ((fst (applyApprovedRequest now w request ?s1))
               \<lparr>showApprovalModal := False, selectedRequest := None\<rparr>)), None)"
    unfolding approveRequest_try_def Let_def
    by (subst andThen_snd_None [OF u], subst andThen_snd_None) (simp_all add: assms(4) a)
  then show ?thesis
    using assms(3) by (simp add: approveRequest_def supabase_show supabase_loadData)
qed

lemma aprilBeforeMay_facts:
  "schedules aprilBeforeMay = []"
  "roster_schedules (supabase aprilBeforeMay) = [mayRow]"
  "isSuperAdmin aprilBeforeMay"
  "selectedRequest aprilBeforeMay = Some mayRequest"
  "requests aprilBeforeMay = [mayRequest]"
  by (simp_all add: aprilBeforeMay_def mayTables_def superRoster_def mayRow_def mayRequest_def
      halfDayRequest_def load_eval)


lemma insertSchedules_rows:
  "roster_schedules (insertSchedules rows d) =
     roster_schedules d @ map (\<lambda>(i, r). r\<lparr>rs_id := Some (freshId (map rs_id (roster_schedules d)) + i)\<rparr>)
                            (enumerate 0 rows)"
  by (simp add: insertSchedules_def Let_def)

text \<open>
  When the requested (staff, date) pair has a row in the loaded list, the approval overwrites
  the shift code, status and update time of that row and leaves its other columns.
\<close>

lemma approveRequest_overwrites_loaded:
  assumes "w_request w = Done" "w_schedule w = Done" "isSuperAdmin st"
    and "selectedRequest st = Some request"
    and "find (\<lambda>s. rs_profile_id s = lr_user_id request \<and> rs_date s = lr_requested_date request)
           (schedules st) = Some ex"
  shows "roster_schedules (supabase (approveRequest isoDate now w requestId True st)) =
     map (\<lambda>r. if rs_id r = rs_id ex \<and> rs_id ex \<noteq> None
              then r\<lparr>rs_profile_id := lr_user_id request, rs_date := lr_requested_date request,
                     rs_shift_code := (if lr_request_type request = ''half_day'' then ''HD'' else ''L''),
                     rs_status := ''confirmed'', rs_updated_at := Some now\<rparr>
              else r)
       (roster_schedules (supabase st))"
  by (simp add: approveRequest_store [OF assms(1-4)] applyApprovedRequest_store [OF assms(2)]
      writeSchedule_store [OF assms(2)] updateRequest_Done [OF assms(1)] assms(5)
      updateScheduleById_def)

text \<open>
  C6 (the code diverges): the approval looks for the existing row in the list loaded for the
  displayed month, not in the store. With April 2025 displayed and a day shift stored for
  staff member \<open>s2\<close> on 12 May 2025, approving the half-day request of \<open>s2\<close> for that date
  leaves the stored row with its code "D" and inserts a second row with code "HD" for the
  same (staff, date) pair.
\<close>

theorem approveRequest_inserts_second_row:
  "schedules aprilBeforeMay = []
   \<and> roster_schedules (supabase aprilBeforeMay) = [mayRow]
   \<and> hasRow (roster_schedules (supabase aprilBeforeMay)) (lr_user_id mayRequest) (lr_requested_date mayRequest)
   \<and> roster_schedules (supabase (approveRequest isoDateUTC 5000 allWritten 7 True aprilBeforeMay)) =
       [mayRow,
        \<lparr>rs_id = Some 2, rs_profile_id = ''s2'', rs_date = ''2025-05-12'', rs_shift_code = ''HD'',
         rs_overtime_hours = None, rs_status = ''confirmed'', rs_created_at = Some 5000,
         rs_updated_at = Some 5000\<rparr>]
   \<and> rs_shift_code mayRow = ''D''"
proof -
  have w: "w_request allWritten = Done" "w_schedule allWritten = Done"
    by (simp_all add: allWritten_def)
  have "roster_schedules (supabase (approveRequest isoDateUTC 5000 allWritten 7 True aprilBeforeMay)) =
      roster_schedules (insertSchedules
        [\<lparr>rs_id = None, rs_profile_id = ''s2'', rs_date = ''2025-05-12'', rs_shift_code = ''HD'',
          rs_overtime_hours = None, rs_status = ''confirmed'', rs_created_at = Some 5000,
          rs_updated_at = Some 5000\<rparr>] (supabase aprilBeforeMay))"
    by (simp add: approveRequest_store [OF w aprilBeforeMay_facts(3,4)]
        applyApprovedRequest_store [OF w(2)] writeSchedule_store [OF w(2)]
        updateRequest_Done [OF w(1)] aprilBeforeMay_facts(1) insertSchedules_rows)
       (simp add: mayRequest_def halfDayRequest_def emptySchedule_def)
  then show ?thesis
    by (simp add: aprilBeforeMay_facts insertSchedules_rows freshId_def hasRow_def)
       (simp add: mayRow_def mayRequest_def halfDayRequest_def)
qed

section \<open>Properties of checklist instantiation\<close>

lemma createInstance_try_Done:
  "createInstance_try today now Done Done userId template st =
     (let row = storeInstance now (freshKey (map ci_id (checklist_instances (cm_supabase st))))
                  \<lparr>np_template_id = ct_id template, np_name = ct_name template @ '' - '' @ today,
                   np_category = ct_category template, np_exam_date = today, np_created_by = userId\<rparr>
      in (st\<lparr>cm_supabase :=
               \<lparr>checklist_instances = checklist_instances (cm_supabase st) @ [row],
                checklist_instance_items = checklist_instance_items (cm_supabase st)
                  @ map (\<lambda>(i, p). storeInstanceItem now
                            (freshKey (map ii_id (checklist_instance_items (cm_supabase st))) + i) p)
                      (enumerate 0 (map (instanceItemOf (ci_id row)) (templateItems template)))\<rparr>,
             cm_success := ''Checklist instance created successfully!''\<rparr>, None))"
proof (cases "ct_items template")
  case None
  then show ?thesis
    by (simp add: createInstance_try_def insertInstance_def Let_def andThen_def templateItems_def)
next
  case (Some items)
  then show ?thesis
    by (cases "items = []")
       (simp_all add: createInstance_try_def insertInstance_def insertInstanceItems_def Let_def
         andThen_def templateItems_def)
qed

text \<open>
  C7: for a signed-in user whose two inserts are accepted, \<open>handleCreateInstance\<close> adds exactly
  one instance row, named "{template name} - {today}", and exactly one instance item per
  template item, in order; each new item copies title, description, priority, estimated
  time, responsible role and sort order of its template item, refers to the key of that
  item and to the new instance, and starts not completed with \<open>completed_by\<close> and
  \<open>completed_at\<close> unset.
\<close>

theorem handleCreateInstance_copies:
  assumes "cm_user st = Some userId" and "rInstance = Done" and "rItems = Done"
  shows "\<exists>instance newItems.
      checklist_instances (cm_supabase (handleCreateInstance today now rInstance rItems template st))
        = checklist_instances (cm_supabase st) @ [instance]
    \<and> checklist_instance_items (cm_supabase (handleCreateInstance today now rInstance rItems template st))
        = checklist_instance_items (cm_supabase st) @ newItems
    \<and> ci_name instance = ct_name template @ '' - '' @ today
    \<and> ci_template_id instance = ct_id template \<and> ci_category instance = ct_category template
    \<and> ci_exam_date instance = today \<and> ci_created_by instance = userId
    \<and> length newItems = length (templateItems template)
    \<and> (\<forall>i < length (templateItems template).
          ii_instance_id (newItems ! i) = ci_id instance
        \<and> ii_template_item_id (newItems ! i) = Some (ti_id (templateItems template ! i))
        \<and> ii_title (newItems ! i) = ti_title (templateItems template ! i)
        \<and> ii_description (newItems ! i) = ti_description (templateItems template ! i)
        \<and> ii_priority (newItems ! i) = ti_priority (templateItems template ! i)
        \<and> ii_estimated_time_minutes (newItems ! i) = ti_estimated_time_minutes (templateItems template ! i)
        \<and> ii_responsible_role (newItems ! i) = ti_responsible_role (templateItems template ! i)
        \<and> ii_sort_order (newItems ! i) = ti_sort_order (templateItems template ! i)
        \<and> ii_is_completed (newItems ! i) = False
        \<and> ii_completed_by (newItems ! i) = None \<and> ii_completed_at (newItems ! i) = None)
    \<and> cm_success (handleCreateInstance today now rInstance rItems template st)
        = ''Checklist instance created successfully!''"
proof -
  let ?row = "storeInstance now (freshKey (map ci_id (checklist_instances (cm_supabase st))))
                  \<lparr>np_template_id = ct_id template, np_name = ct_name template @ '' - '' @ today,
                   np_category = ct_category template, np_exam_date = today, np_created_by = userId\<rparr>"
  let ?new = "map (\<lambda>(i, p). storeInstanceItem now
                            (freshKey (map ii_id (checklist_instance_items (cm_supabase st))) + i) p)
                      (enumerate 0 (map (instanceItemOf (ci_id ?row)) (templateItems template)))"
  let ?st' = "handleCreateInstance today now rInstance rItems template st"
  have res: "?st' =
      st\<lparr>cm_submitting := False,
         cm_supabase :=
               \<lparr>checklist_instances = checklist_instances (cm_supabase st) @ [?row],
                checklist_instance_items = checklist_instance_items (cm_supabase st) @ ?new\<rparr>,
         cm_success := ''Checklist instance created successfully!''\<rparr>"
    using assms by (simp add: handleCreateInstance_def createInstance_try_Done Let_def)
  have item: "?new ! i = storeInstanceItem now
                  (freshKey (map ii_id (checklist_instance_items (cm_supabase st))) + i)
                  (instanceItemOf (ci_id ?row) (templateItems template ! i))"
    if "i < length (templateItems template)" for i
    using that by (simp add: nth_enumerate_eq)
  have "checklist_instances (cm_supabase ?st') = checklist_instances (cm_supabase st) @ [?row]"
    by (simp add: res)
  moreover have "checklist_instance_items (cm_supabase ?st')
        = checklist_instance_items (cm_supabase st) @ ?new"
    by (simp add: res)
  moreover have "ci_name ?row = ct_name template @ '' - '' @ today
    \<and> ci_template_id ?row = ct_id template \<and> ci_category ?row = ct_category template
    \<and> ci_exam_date ?row = today \<and> ci_created_by ?row = userId"
    by (simp add: storeInstance_def)
  moreover have "length ?new = length (templateItems template)" by simp
  moreover have "\<forall>i < length (templateItems template).
          ii_instance_id (?new ! i) = ci_id ?row
        \<and> ii_template_item_id (?new ! i) = Some (ti_id (templateItems template ! i))
        \<and> ii_title (?new ! i) = ti_title (templateItems template ! i)
        \<and> ii_description (?new ! i) = ti_description (templateItems template ! i)
        \<and> ii_priority (?new ! i) = ti_priority (templateItems template ! i)
        \<and> ii_estimated_time_minutes (?new ! i) = ti_estimated_time_minutes (templateItems template ! i)
        \<and> ii_responsible_role (?new ! i) = ti_responsible_role (templateItems template ! i)
        \<and> ii_sort_order (?new ! i) = ti_sort_order (templateItems template ! i)
        \<and> ii_is_completed (?new ! i) = False
        \<and> ii_completed_by (?new ! i) = None \<and> ii_completed_at (?new ! i) = None"
  proof (intro allI impI)
    fix i assume i: "i < length (templateItems template)"
    show "ii_instance_id (?new ! i) = ci_id ?row
        \<and> ii_template_item_id (?new ! i) = Some (ti_id (templateItems template ! i))
        \<and> ii_title (?new ! i) = ti_title (templateItems template ! i)
        \<and> ii_description (?new ! i) = ti_description (templateItems template ! i)
        \<and> ii_priority (?new ! i) = ti_priority (templateItems template ! i)
        \<and> ii_estimated_time_minutes (?new ! i) = ti_estimated_time_minutes (templateItems template ! i)
        \<and> ii_responsible_role (?new ! i) = ti_responsible_role (templateItems template ! i)
        \<and> ii_sort_order (?new ! i) = ti_sort_order (templateItems template ! i)
        \<and> ii_is_completed (?new ! i) = False
        \<and> ii_completed_by (?new ! i) = None \<and> ii_completed_at (?new ! i) = None"
      unfolding item [OF i] by (simp add: storeInstanceItem_def instanceItemOf_def)
  qed
  moreover have "cm_success ?st' = ''Checklist instance created successfully!''"
    by (simp add: res)
  ultimately show ?thesis by blast
qed


lemma list_of_length_2: "length xs = 2 \<Longrightarrow> xs = [xs ! 0, xs ! 1]"
  by (cases xs; cases "tl xs") auto

theorem handleCreateInstance_copies_witness:
  "cm_user sampleChecklists = Some ''u-s1''
   \<and> map ci_name (checklist_instances (cm_supabase
         (handleCreateInstance ''2025-04-15'' 100 Done Done sampleTemplate sampleChecklists)))
       = [''Morning setup - 2025-04-15'']
   \<and> map ii_title (checklist_instance_items (cm_supabase
         (handleCreateInstance ''2025-04-15'' 100 Done Done sampleTemplate sampleChecklists)))
       = [''Unlock lab'', ''Start servers'']
   \<and> map ii_template_item_id (checklist_instance_items (cm_supabase
         (handleCreateInstance ''2025-04-15'' 100 Done Done sampleTemplate sampleChecklists)))
       = [Some 41, Some 42]
   \<and> map ii_is_completed (checklist_instance_items (cm_supabase
         (handleCreateInstance ''2025-04-15'' 100 Done Done sampleTemplate sampleChecklists)))
       = [False, False]"
proof -
  let ?st' = "handleCreateInstance ''2025-04-15'' 100 Done Done sampleTemplate sampleChecklists"
  have u: "cm_user sampleChecklists = Some ''u-s1''" by (simp add: sampleChecklists_def)
  have items: "templateItems sampleTemplate =
      [\<lparr>ti_id = 41, ti_template_id = 4, ti_title = ''Unlock lab'', ti_description = None,
          ti_priority = High, ti_estimated_time_minutes = 5, ti_responsible_role = ''tca'',
          ti_notes = None, ti_sort_order = 1, ti_created_at = 11\<rparr>,
         \<lparr>ti_id = 42, ti_template_id = 4, ti_title = ''Start servers'',
          ti_description = Some ''proctor cache first'', ti_priority = Medium,
          ti_estimated_time_minutes = 10, ti_responsible_role = ''tech_support'',
          ti_notes = Some ''see runbook'', ti_sort_order = 2, ti_created_at = 12\<rparr>]"
    by (simp add: templateItems_def sampleTemplate_def)
  from handleCreateInstance_copies [OF u refl refl, of "''2025-04-15''" 100 sampleTemplate]
  obtain inst newItems where
    a: "checklist_instances (cm_supabase ?st') = checklist_instances (cm_supabase sampleChecklists) @ [inst]"
    and b: "checklist_instance_items (cm_supabase ?st')
        = checklist_instance_items (cm_supabase sampleChecklists) @ newItems"
    and c: "ci_name inst = ct_name sampleTemplate @ '' - '' @ ''2025-04-15''"
    and d: "length newItems = length (templateItems sampleTemplate)"
    and e: "\<forall>i < length (templateItems sampleTemplate).
          ii_template_item_id (newItems ! i) = Some (ti_id (templateItems sampleTemplate ! i))
        \<and> ii_title (newItems ! i) = ti_title (templateItems sampleTemplate ! i)
        \<and> ii_is_completed (newItems ! i) = False"
    by blast
  have l: "length newItems = 2" using d by (simp add: items)
  have n: "newItems = [newItems ! 0, newItems ! 1]" by (rule list_of_length_2 [OF l])
  have e0: "ii_template_item_id (newItems ! 0) = Some 41 \<and> ii_title (newItems ! 0) = ''Unlock lab''
      \<and> ii_is_completed (newItems ! 0) = False"
    using e [rule_format, of 0] by (simp add: items)
  have e1: "ii_template_item_id (newItems ! 1) = Some 42 \<and> ii_title (newItems ! 1) = ''Start servers''
      \<and> ii_is_completed (newItems ! 1) = False"
    using e [rule_format, of 1] by (simp add: items)
  have "map ii_title newItems = map ii_title [newItems ! 0, newItems ! 1]"
    by (rule arg_cong [OF n])
  then have m1: "map ii_title newItems = [''Unlock lab'', ''Start servers'']"
    by (simp only: list.map e0 e1)
  have "map ii_template_item_id newItems = map ii_template_item_id [newItems ! 0, newItems ! 1]"
    by (rule arg_cong [OF n])
  then have m2: "map ii_template_item_id newItems = [Some 41, Some 42]"
    by (simp only: list.map e0 e1)
  have "map ii_is_completed newItems = map ii_is_completed [newItems ! 0, newItems ! 1]"
    by (rule arg_cong [OF n])
  then have m3: "map ii_is_completed newItems = [False, False]"
    by (simp only: list.map e0 e1)
  note m = m1 m2 m3
  show ?thesis
    using u m by (simp add: a b c) (simp add: sampleChecklists_def sampleTemplate_def)
qed

section \<open>Properties of the date formatter\<close>

text \<open>
  C9: two instants that fall on the same calendar day of the fixed time zone are formatted
  to the same string, whatever the time-zone offsets of the two callers.
\<close>

theorem formatDateForIST_same_day:
  "istDay d1 = istDay d2 \<Longrightarrow> formatDateForIST offset1 d1 = formatDateForIST offset2 d2"
  by (simp add: formatDateForIST_def)

lemma civil_20157: "civilFromDays 20157 = (2025, 3, 10)"
  by code_simp

lemma format_20250310: "formatYMD (2025, 3, 10) = ''2025-03-10''"
  by (simp add: formatYMD_def padStart_def numberToString_def natToString.simps digitChar_def)

theorem formatDateForIST_same_day_witness:
  "istDay 1741545000000 = istDay 1741631399999
   \<and> formatDateForIST 0 1741545000000 = formatDateForIST (-330) 1741631399999
   \<and> formatDateForIST 480 1741545000000 = ''2025-03-10''"
proof -
  have d: "istDay 1741545000000 = 20157" "istDay 1741631399999 = 20157"
    by (simp_all add: istDay_def IST_OFFSET_MS_def MS_PER_DAY_def)
  have "formatDateForIST 0 1741545000000 = formatDateForIST (-330) 1741631399999"
    using formatDateForIST_same_day [of 1741545000000 1741631399999 0 "-330"] d by simp
  moreover have "formatDateForIST 480 1741545000000 = ''2025-03-10''"
    by (simp add: formatDateForIST_def d civil_20157 format_20250310)
  ultimately show ?thesis using d by simp
qed

section \<open>Properties of the CSV bulk upload\<close>

lemma find_list_ex: "(find P xs = None) = (\<not> list_ex P xs)"
  by (auto simp add: find_None_iff list_ex_iff)

lemma processRow_outcome:
  "ul_errors (processRow env headers candidates userId n i line acc) =
     ul_errors acc @ (case rowOutcome env headers candidates i line of Imported \<Rightarrow> [] | RowFailed m \<Rightarrow> [m])"
  "ul_successCount (processRow env headers candidates userId n i line acc) =
     ul_successCount acc + (if rowOutcome env headers candidates i line = Imported then 1 else 0)"
  "length (candidates_table (ul_tables (processRow env headers candidates userId n i line acc))) =
     length (candidates_table (ul_tables acc))
       + (if rowOutcome env headers candidates i line = Imported then 1 else 0)"
proof -
  let ?cd = "assignFields env (map trim (splitOn CHR '','' line)) (enumerate 0 headers) emptyCandidateData"
  show "ul_errors (processRow env headers candidates userId n i line acc) =
     ul_errors acc @ (case rowOutcome env headers candidates i line of Imported \<Rightarrow> [] | RowFailed m \<Rightarrow> [m])"
  proof (cases ?cd)
    case (Inl e)
    then show ?thesis by (simp add: processRow_def rowOutcome_def pushError_def)
  next
    case (Inr cd)
    show ?thesis
    proof (cases "find (\<lambda>c. Some (cand_email c) = cd_email cd) candidates")
      case None
      then have "\<not> list_ex (\<lambda>c. Some (cand_email c) = cd_email cd) candidates"
        by (simp add: find_list_ex)
      with Inr None show ?thesis
        by (cases "u_row env i") (simp_all add: processRow_def rowOutcome_def pushError_def Let_def)
    next
      case (Some c)
      then have "list_ex (\<lambda>c. Some (cand_email c) = cd_email cd) candidates"
        using find_list_ex [of "\<lambda>c. Some (cand_email c) = cd_email cd" candidates] by simp
      with Inr Some show ?thesis
        by (simp add: processRow_def rowOutcome_def pushError_def)
    qed
  qed
  show "ul_successCount (processRow env headers candidates userId n i line acc) =
     ul_successCount acc + (if rowOutcome env headers candidates i line = Imported then 1 else 0)"
  proof (cases ?cd)
    case (Inl e)
    then show ?thesis by (simp add: processRow_def rowOutcome_def pushError_def)
  next
    case (Inr cd)
    show ?thesis
    proof (cases "find (\<lambda>c. Some (cand_email c) = cd_email cd) candidates")
      case None
      then have "\<not> list_ex (\<lambda>c. Some (cand_email c) = cd_email cd) candidates"
        by (simp add: find_list_ex)
      with Inr None show ?thesis
        by (cases "u_row env i") (simp_all add: processRow_def rowOutcome_def pushError_def Let_def)
    next
      case (Some c)
      then have "list_ex (\<lambda>c. Some (cand_email c) = cd_email cd) candidates"
        using find_list_ex [of "\<lambda>c. Some (cand_email c) = cd_email cd" candidates] by simp
      with Inr Some show ?thesis
        by (simp add: processRow_def rowOutcome_def pushError_def)
    qed
  qed
  show "length (candidates_table (ul_tables (processRow env headers candidates userId n i line acc))) =
     length (candidates_table (ul_tables acc))
       + (if rowOutcome env headers candidates i line = Imported then 1 else 0)"
  proof (cases ?cd)
    case (Inl e)
    then show ?thesis by (simp add: processRow_def rowOutcome_def pushError_def)
  next
    case (Inr cd)
    show ?thesis
    proof (cases "find (\<lambda>c. Some (cand_email c) = cd_email cd) candidates")
      case None
      then have "\<not> list_ex (\<lambda>c. Some (cand_email c) = cd_email cd) candidates"
        by (simp add: find_list_ex)
      with Inr None show ?thesis
        by (cases "u_row env i") (simp_all add: processRow_def rowOutcome_def pushError_def Let_def)
    next
      case (Some c)
      then have "list_ex (\<lambda>c. Some (cand_email c) = cd_email cd) candidates"
        using find_list_ex [of "\<lambda>c. Some (cand_email c) = cd_email cd" candidates] by simp
      with Inr Some show ?thesis
        by (simp add: processRow_def rowOutcome_def pushError_def)
    qed
  qed
qed

lemma processRow_uploads:
  "candidate_roster_uploads (ul_tables (processRow env headers candidates userId n i line acc)) =
     candidate_roster_uploads (ul_tables acc)"
  by (simp add: processRow_def pushError_def Let_def split: sum.splits option.splits remote.splits)

lemma processRows_outcomes:
  "ul_errors (processRows env headers candidates userId n i lines acc) =
     ul_errors acc @ failuresOf (rowOutcomes env headers candidates i lines)
   \<and> ul_successCount (processRows env headers candidates userId n i lines acc) =
     ul_successCount acc + importedOf (rowOutcomes env headers candidates i lines)
   \<and> length (candidates_table (ul_tables (processRows env headers candidates userId n i lines acc))) =
     length (candidates_table (ul_tables acc)) + importedOf (rowOutcomes env headers candidates i lines)"
proof (induction lines arbitrary: i acc)
  case Nil
  then show ?case by (simp add: rowOutcomes_def failuresOf_def importedOf_def)
next
  case (Cons line rest)
  show ?case
    by (cases "rowOutcome env headers candidates i line")
       (simp_all add: Cons.IH processRow_outcome rowOutcomes_def failuresOf_def importedOf_def)
qed

lemma rows_accounted: "importedOf os + length (failuresOf os) = length os"
proof (induction os)
  case Nil
  then show ?case by (simp add: importedOf_def failuresOf_def)
next
  case (Cons r rs)
  then show ?case by (cases r) (simp_all add: importedOf_def failuresOf_def)
qed

lemma length_rowOutcomes: "length (rowOutcomes env headers candidates i lines) = length lines"
  by (simp add: rowOutcomes_def)


lemma finishUpload_candidates:
  "candidates_table (fst (finishUpload env uploadRecord n acc d)) = candidates_table d"
  by (simp add: finishUpload_def split: option.splits remote.splits)

lemma finishUpload_not_rejected:
  "\<not> isRejected (u_update env) \<Longrightarrow> snd (finishUpload env uploadRecord n acc d) = None"
  by (simp add: finishUpload_def isRejected_def split: option.splits remote.splits)

lemma loadCandidates_frame:
  "ct_uploadResults (loadCandidates env st) = ct_uploadResults st"
  "ct_uploadStatus (loadCandidates env st) = ct_uploadStatus st"
  "ct_supabase (loadCandidates env st) = ct_supabase st"
  by (simp_all add: loadCandidates_def split: remote.splits)

lemma recordUpload_not_rejected:
  assumes "\<not> isRejected (u_record env)"
  shows "snd (recordUpload env fileName userId st) = None"
    and "candidates_table (ct_supabase (fst (fst (recordUpload env fileName userId st))))
           = candidates_table (ct_supabase st)"
  using assms by (simp_all add: recordUpload_def isRejected_def Let_def split: remote.splits)

text \<open>
  C8: once the file has a header line with the required columns and at least one data line,
  and neither request about the upload record is rejected, every data line is processed,
  whatever happens to the lines before it: a line with a missing name or email, with an email
  already listed, or whose insert fails adds its message to the error list and the loop goes
  on with the next line. The success count and the error list reported at the end are the
  number of imported lines and the messages of all failed lines in order; together they
  account for every data line, and the table has grown by the success count.
\<close>

theorem bulk_upload_reports_all_rows:
  assumes "ct_uploadFile st = Some (fileName, text)" and "ct_user st = Some userId"
    and "\<not> isRejected (u_record env)" and "\<not> isRejected (u_update env)"
    and "2 \<le> length (uploadLines text)" and "missingHeaders (uploadHeaders text) = []"
  shows
    "ct_uploadResults (processBulkUpload env st) =
       (importedOf (rowOutcomes env (uploadHeaders text) (ct_candidates st) 0 (tl (uploadLines text))),
        failuresOf (rowOutcomes env (uploadHeaders text) (ct_candidates st) 0 (tl (uploadLines text))))
     \<and> importedOf (rowOutcomes env (uploadHeaders text) (ct_candidates st) 0 (tl (uploadLines text)))
         + length (failuresOf (rowOutcomes env (uploadHeaders text) (ct_candidates st) 0 (tl (uploadLines text))))
         = length (tl (uploadLines text))
     \<and> length (candidates_table (ct_supabase (processBulkUpload env st))) =
         length (candidates_table (ct_supabase st))
         + importedOf (rowOutcomes env (uploadHeaders text) (ct_candidates st) 0 (tl (uploadLines text)))
     \<and> ct_uploadStatus (processBulkUpload env st) =
         (if length (failuresOf (rowOutcomes env (uploadHeaders text) (ct_candidates st) 0 (tl (uploadLines text))))
               = length (tl (uploadLines text))
          then ''error'' else ''success'')"
proof -
  let ?st0 = "st\<lparr>ct_uploadStatus := ''uploading'', ct_uploadProgress := 0\<rparr>"
  let ?os = "rowOutcomes env (uploadHeaders text) (ct_candidates st) 0 (tl (uploadLines text))"
  obtain st1 uploadRecord where rec: "recordUpload env fileName userId ?st0 = ((st1, uploadRecord), None)"
    using recordUpload_not_rejected(1) [OF assms(3), of fileName userId ?st0]
    by (cases "recordUpload env fileName userId ?st0") auto
  have t1: "candidates_table (ct_supabase st1) = candidates_table (ct_supabase st)"
    using recordUpload_not_rejected(2) [OF assms(3), of fileName userId ?st0] rec by simp
  let ?acc = "processRows env (uploadHeaders text) (ct_candidates st) userId (length (tl (uploadLines text))) 0
                (tl (uploadLines text))
                \<lparr>ul_errors = [], ul_successCount = 0, ul_tables = ct_supabase st1, ul_progress = 0\<rparr>"
  have acc: "ul_errors ?acc = failuresOf ?os" "ul_successCount ?acc = importedOf ?os"
    "length (candidates_table (ul_tables ?acc)) = length (candidates_table (ct_supabase st)) + importedOf ?os"
    using processRows_outcomes [of env "uploadHeaders text" "ct_candidates st" userId
        "length (tl (uploadLines text))" 0 "tl (uploadLines text)"
        "\<lparr>ul_errors = [], ul_successCount = 0, ul_tables = ct_supabase st1, ul_progress = 0\<rparr>"]
    by (simp_all add: t1)
  obtain d where fin: "finishUpload env uploadRecord (length (tl (uploadLines text))) ?acc (ul_tables ?acc) = (d, None)"
    using finishUpload_not_rejected [OF assms(4), of uploadRecord "length (tl (uploadLines text))" ?acc "ul_tables ?acc"]
    by (cases "finishUpload env uploadRecord (length (tl (uploadLines text))) ?acc (ul_tables ?acc)") auto
  have d: "candidates_table d = candidates_table (ul_tables ?acc)"
    using finishUpload_candidates [of env uploadRecord "length (tl (uploadLines text))" ?acc "ul_tables ?acc"] fin
    by simp
  let ?st3 = "(st1\<lparr>ct_supabase := ul_tables ?acc, ct_uploadProgress := ul_progress ?acc\<rparr>)
                  \<lparr>ct_supabase := d,
                   ct_uploadResults := (ul_successCount ?acc, ul_errors ?acc),
                   ct_uploadStatus := (if length (ul_errors ?acc) = length (tl (uploadLines text))
                                       then ''error'' else ''success'')\<rparr>"
  have body: "processBulkUpload_try env fileName text userId ?st0 =
      (if ul_successCount ?acc > 0 then loadCandidates env ?st3 else ?st3, None)"
    using assms(5,6) rec fin
    by (simp add: processBulkUpload_try_def Let_def del: CandidateTracker.simps)
  have res: "processBulkUpload env st = (if ul_successCount ?acc > 0 then loadCandidates env ?st3 else ?st3)"
    using assms(1,2) by (simp add: processBulkUpload_def body)
  have "ct_uploadResults (processBulkUpload env st) = (importedOf ?os, failuresOf ?os)"
    by (simp add: res loadCandidates_frame acc del: length_tl)
  moreover have "importedOf ?os + length (failuresOf ?os) = length (tl (uploadLines text))"
    by (simp add: rows_accounted length_rowOutcomes)
  moreover have "length (candidates_table (ct_supabase (processBulkUpload env st))) =
         length (candidates_table (ct_supabase st)) + importedOf ?os"
    by (simp add: res loadCandidates_frame d acc del: length_tl)
  moreover have "ct_uploadStatus (processBulkUpload env st) =
         (if length (failuresOf ?os) = length (tl (uploadLines text)) then ''error'' else ''success'')"
    by (simp add: res loadCandidates_frame acc del: length_tl)
  ultimately show ?thesis by blast
qed


lemma sample_lines:
  "2 \<le> length (uploadLines sampleCsv)"
  "missingHeaders (uploadHeaders sampleCsv) = []"
  "length (tl (uploadLines sampleCsv)) = 5"
  by code_simp+

lemma sample_outcomes:
  "importedOf (rowOutcomes sampleEnv (uploadHeaders sampleCsv) (ct_candidates sampleTracker) 0
     (tl (uploadLines sampleCsv))) = 2"
  "failuresOf (rowOutcomes sampleEnv (uploadHeaders sampleCsv) (ct_candidates sampleTracker) 0
     (tl (uploadLines sampleCsv))) =
     [''Row 3: Missing name or email'',
      ''Row 4: Email chitra@example.com already exists'',
      ''Row 5: Database error - value too long for type character varying(20)'']"
  by code_simp+

theorem bulk_upload_reports_all_rows_witness:
  "ct_uploadFile sampleTracker = Some (''roster.csv'', sampleCsv) \<and> ct_user sampleTracker = Some ''u-s1''
   \<and> ct_uploadResults (processBulkUpload sampleEnv sampleTracker) =
       (2, [''Row 3: Missing name or email'',
            ''Row 4: Email chitra@example.com already exists'',
            ''Row 5: Database error - value too long for type character varying(20)''])
   \<and> length (candidates_table (ct_supabase (processBulkUpload sampleEnv sampleTracker))) = 2
   \<and> ct_uploadStatus (processBulkUpload sampleEnv sampleTracker) = ''success''"
proof -
  have f: "ct_uploadFile sampleTracker = Some (''roster.csv'', sampleCsv)"
    and u: "ct_user sampleTracker = Some ''u-s1''"
    and t: "candidates_table (ct_supabase sampleTracker) = []"
    by (simp_all add: sampleTracker_def)
  have r: "\<not> isRejected (u_record sampleEnv)" "\<not> isRejected (u_update sampleEnv)"
    by (simp_all add: sampleEnv_def isRejected_def)
  note b = bulk_upload_reports_all_rows [OF f u r sample_lines(1,2)]
  show ?thesis
    using b f u by (simp add: sample_outcomes sample_lines(3) t del: length_tl)
qed

end
